(* ===== verification/Mesh_Prelude.thy ===== *)
theory Mesh_Prelude
  imports Complex_Main "HOL-Library.Word" "HOL-Library.Multiset"
begin

text \<open>
  Shared vocabulary of the development: the fact collections the component
  theories extend, the 32-bit signed integer type of the engine
  (\<open>int32\<close>), sequencing of fallible steps in the sum type
  \<open>error + 'a\<close>, block writes into lists (the shape of every buffer write of
  the mesh builders), and the arithmetic, list and case-split lemmas the
  component proofs share.
\<close>

named_theorems mesh_simps "evaluation rules of the mesh model, used to run it on concrete inputs"
named_theorems tarray_simps "rules of the checked TArray model"

type_synonym int32 = "32 word"

section \<open>Definitions\<close>

text \<open>
  \<open>sbind m f\<close> runs \<open>f\<close> on the value of \<open>m\<close> and propagates an error
  (\<open>Inl\<close>) unchanged: the behaviour of a failed engine check, which aborts
  the rest of the function.
\<close>

definition sbind :: "'e + 'a \<Rightarrow> ('a \<Rightarrow> 'e + 'b) \<Rightarrow> 'e + 'b" where
  "sbind m f = (case m of Inl e \<Rightarrow> Inl e | Inr a \<Rightarrow> f a)"

text \<open>
  \<open>overwrite f xs i ns\<close> is \<open>xs\<close> with the slots \<open>i, i+1, \<dots>\<close> replaced by
  \<open>f n old\<close> for the new values \<open>ns\<close> and the old elements: a block write
  that may keep part of each old element (here: the vertex fields the
  builder does not set). It is the take/drop form of an array blit.
\<close>

definition overwrite :: "('n \<Rightarrow> 'a \<Rightarrow> 'a) \<Rightarrow> 'a list \<Rightarrow> nat \<Rightarrow> 'n list \<Rightarrow> 'a list" where
  "overwrite f xs i ns =
     take i xs @ map2 f ns (take (length ns) (drop i xs)) @ drop (i + length ns) xs"

text \<open>\<open>list_modify xs i f\<close> applies \<open>f\<close> to element \<open>i\<close> in place (the
  write \<open>A[i].field = v\<close> of a struct element). Naming it keeps the old
  list from being copied into the new element's value.\<close>

definition list_modify :: "'a list \<Rightarrow> nat \<Rightarrow> ('a \<Rightarrow> 'a) \<Rightarrow> 'a list" where
  "list_modify xs i f = xs[i := f (xs ! i)]"

section \<open>Sequencing fallible steps\<close>

lemma sbind_Inl [simp]: "sbind (Inl e) f = Inl e"
  by (simp add: sbind_def)

lemma sbind_Inr [simp]: "sbind (Inr a) f = f a"
  by (simp add: sbind_def)

lemma sbind_eq_Inr:
  "sbind m f = Inr b \<longleftrightarrow> (\<exists>a. m = Inr a \<and> f a = Inr b)"
  by (cases m) simp_all

section \<open>int32 offsets\<close>

text \<open>
  Adding a non-negative amount to an \<open>int32\<close> does not wrap as long as the
  mathematical result stays below \<open>2 ^ 31\<close>; conversely, a sum of two
  non-negative values that wraps is negative, so a non-negative sum did not
  wrap.
\<close>

lemma sint_add_nowrap:
  fixes x :: int32
  assumes "0 \<le> k" and "sint x + k < 2 ^ 31"
  shows "sint (x + word_of_int k) = sint x + k"
proof -
  have "x + word_of_int k = word_of_int (sint x + k)"
    by simp
  moreover have "- (2 ^ 31) \<le> sint x + k"
    using sint_ge [of x] assms(1) by simp
  ultimately show ?thesis
    using assms by (simp only: sint_sbintrunc') (simp add: signed_take_bit_int_eq_self)
qed

lemma sint_add_nonneg_nowrap:
  fixes x :: int32
  assumes "0 \<le> sint x" "0 \<le> k" "k < 2 ^ 31" "0 \<le> sint (x + word_of_int k)"
  shows "sint (x + word_of_int k) = sint x + k"
proof (cases "sint x + k < 2 ^ 31")
  case True
  then show ?thesis using assms(2) by (rule sint_add_nowrap[rotated])
next
  case False
  have lt: "sint x < 2 ^ 31" using sint_lt [of x] by simp
  have eq: "x + word_of_int k = word_of_int (sint x + k)" by simp
  have "sint (x + word_of_int k) = signed_take_bit 31 (sint x + k)"
    by (simp only: eq sint_sbintrunc') simp
  also have "\<dots> = take_bit 32 (sint x + k + 2 ^ 31) - 2 ^ 31"
    by (simp add: signed_take_bit_eq_take_bit_shift)
  also have "take_bit 32 (sint x + k + 2 ^ 31) = sint x + k + 2 ^ 31 - 2 ^ 32"
  proof -
    have "(sint x + k + 2 ^ 31) mod 2 ^ 32 = (sint x + k + 2 ^ 31 - 2 ^ 32) mod 2 ^ 32"
      using mod_add_self2 [of "sint x + k + 2 ^ 31 - 2 ^ 32" "2 ^ 32"] by (simp add: add.commute)
    also have "\<dots> = sint x + k + 2 ^ 31 - 2 ^ 32"
      using False lt assms(3) by (intro mod_pos_pos_trivial) simp_all
    finally show ?thesis by (simp add: take_bit_eq_mod)
  qed
  finally have "sint (x + word_of_int k) < 0"
    using lt assms(3) by simp
  with assms(4) show ?thesis by simp
qed

lemma sint_add_numeral_nowrap:
  fixes x :: int32
  assumes "sint x + numeral n < 2 ^ 31"
  shows "sint (x + numeral n) = sint x + numeral n"
  using sint_add_nowrap [of "numeral n" x] assms by simp

lemma sint_add_one_nowrap:
  fixes x :: int32
  assumes "sint x + 1 < 2 ^ 31"
  shows "sint (x + 1) = sint x + 1"
  using sint_add_nowrap [of 1 x] assms by simp

lemma sint_add_numeral_nonneg:
  fixes x :: int32
  assumes "0 \<le> sint x" "numeral n < (2::int) ^ 31" "0 \<le> sint (x + numeral n)"
  shows "sint (x + numeral n) = sint x + numeral n"
  using sint_add_nonneg_nowrap [of x "numeral n"] assms by simp

lemma sint_of_nat_small:
  assumes "n < 2 ^ 31"
  shows "sint (word_of_nat n :: int32) = int n"
  using sint_add_nowrap [of "int n" 0] assms by simp

text \<open>Reading a non-negative offset back as a list position.\<close>

lemma nat_int_plus_small [simp]:
  "nat (int a + 1) = Suc a"
  "nat (1 + int a) = Suc a"
  "nat (int a + numeral b) = a + numeral b"
  "nat (numeral b + int a) = a + numeral b"
  by (simp_all add: nat_add_distrib)

section \<open>Block writes into lists\<close>

lemma length_list_modify [simp]: "length (list_modify xs i f) = length xs"
  by (simp add: list_modify_def)

lemma nth_list_modify:
  "i < length xs \<Longrightarrow> list_modify xs i f ! k = (if k = i then f (xs ! i) else xs ! k)"
  by (simp add: list_modify_def nth_list_update)

lemma length_overwrite [simp]:
  "i + length ns \<le> length xs \<Longrightarrow> length (overwrite f xs i ns) = length xs"
  by (simp add: overwrite_def)

lemma overwrite_Nil [simp]: "overwrite f xs i [] = xs"
  by (simp add: overwrite_def)

lemma nth_overwrite:
  assumes "i + length ns \<le> length xs" and "k < length xs"
  shows "overwrite f xs i ns ! k =
           (if i \<le> k \<and> k < i + length ns then f (ns ! (k - i)) (xs ! k) else xs ! k)"
  using assms by (auto simp: overwrite_def nth_append min_def)

lemma overwrite_append:
  assumes "j = i + length ns" and "i + length ns + length ms \<le> length xs"
  shows "overwrite f (overwrite f xs i ns) j ms = overwrite f xs i (ns @ ms)"
proof (rule nth_equalityI)
  show "length (overwrite f (overwrite f xs i ns) j ms) = length (overwrite f xs i (ns @ ms))"
    using assms by simp
next
  fix k
  assume "k < length (overwrite f (overwrite f xs i ns) j ms)"
  then have k: "k < length xs"
    using assms by simp
  show "overwrite f (overwrite f xs i ns) j ms ! k = overwrite f xs i (ns @ ms) ! k"
    using assms k by (auto simp: nth_overwrite nth_append)
qed

text \<open>Block writes to disjoint ranges commute.\<close>

lemma overwrite_commute:
  assumes "i + length ns \<le> j \<or> j + length ms \<le> i"
    and "i + length ns \<le> length xs" "j + length ms \<le> length xs"
  shows "overwrite f (overwrite g xs i ns) j ms = overwrite g (overwrite f xs j ms) i ns"
  using assms by (intro nth_equalityI) (auto simp: nth_overwrite)

lemma take_overwrite:
  "i + length ns \<le> length xs \<Longrightarrow> take i (overwrite f xs i ns) = take i xs"
  by (simp add: overwrite_def)

lemma block_overwrite:
  "i + length ns \<le> length xs \<Longrightarrow>
     take (length ns) (drop i (overwrite f xs i ns)) = map2 f ns (take (length ns) (drop i xs))"
  by (simp add: overwrite_def)

lemma drop_overwrite:
  "i + length ns \<le> length xs \<Longrightarrow> drop (i + length ns) (overwrite f xs i ns) = drop (i + length ns) xs"
  by (simp add: overwrite_def)

lemma map2_const_left:
  "length xs = length ys \<Longrightarrow> map2 (\<lambda>x y. g x) xs ys = map g xs"
  by (induction xs ys rule: list_induct2) simp_all

lemma map2_const_right:
  "length xs = length ys \<Longrightarrow> map2 (\<lambda>x y. g y) xs ys = map g ys"
  by (induction xs ys rule: list_induct2) simp_all

lemma map_map2_left:
  "length xs = length ys \<Longrightarrow> (\<And>x y. g (f x y) = h x) \<Longrightarrow> map g (map2 f xs ys) = map h xs"
  by (induction xs ys rule: list_induct2) simp_all

lemma map_map2_right:
  "length xs = length ys \<Longrightarrow> (\<And>x y. g (f x y) = h y) \<Longrightarrow> map g (map2 f xs ys) = map h ys"
  by (induction xs ys rule: list_induct2) simp_all

text \<open>Element \<open>k\<close> of block \<open>j\<close> of a concatenation of blocks of one size.\<close>

lemma nth_concat_blocks:
  assumes "\<forall>x\<in>set xs. length (f x) = n" "j < length xs" "k < n"
  shows "concat (map f xs) ! (n * j + k) = f (xs ! j) ! k"
  using assms
proof (induction xs arbitrary: j)
  case Nil
  then show ?case by simp
next
  case (Cons x xs)
  show ?case
  proof (cases j)
    case 0
    with Cons.prems show ?thesis by (simp add: nth_append)
  next
    case (Suc j')
    with Cons.prems have "concat (map f xs) ! (n * j' + k) = f (xs ! j') ! k"
      by (intro Cons.IH) simp_all
    with Suc Cons.prems show ?thesis by (simp add: nth_append algebra_simps)
  qed
qed

text \<open>A position below \<open>n * m\<close> as block and offset.\<close>

lemma block_decomp:
  fixes k n m :: nat
  assumes "k < n * m"
  obtains j i where "k = m * j + i" "j < n" "i < m"
proof
  show "k = m * (k div m) + k mod m" by simp
  show "k div m < n" using assms by (simp add: less_mult_imp_div_less mult.commute)
  show "k mod m < m" using assms by (cases "m = 0") simp_all
qed

lemma take_eq_map_nth: "n \<le> length xs \<Longrightarrow> take n xs = map (nth xs) [0..<n]"
  by (intro nth_equalityI) simp_all

text \<open>A list of directed edges whose multiset is closed under reversal keeps
  that property under any renaming of the endpoints.\<close>

lemma mset_swap_closed_map:
  assumes "mset (map prod.swap E) = mset E"
  shows "mset (map prod.swap (map (map_prod g g) E)) = mset (map (map_prod g g) E)"
proof -
  have l: "map prod.swap (map (map_prod g g) E) = map (map_prod g g) (map prod.swap E)"
    by (induction E) auto
  show ?thesis
    by (simp only: l mset_map [of "map_prod g g"] assms)
qed

section \<open>Case splits on small bounds\<close>

lemma length_4_conv: "length xs = 4 \<longleftrightarrow> (\<exists>a b c d. xs = [a, b, c, d])"
  by (auto simp: numeral_eq_Suc length_Suc_conv)

lemma length_6_conv: "length xs = 6 \<longleftrightarrow> (\<exists>a b c d e f. xs = [a, b, c, d, e, f])"
  by (auto simp: numeral_eq_Suc length_Suc_conv)

text \<open>A position relative to a block of \<open>n\<close> slots starting at \<open>i\<close>.\<close>

lemma slot_cases:
  fixes k i n :: nat
  obtains (before) "k < i" | (inside) j where "k = i + j" "j < n" | (after) "i + n \<le> k"
  by (metis add_diff_inverse_nat nat_add_left_cancel_less not_less)

lemma less_four_cases:
  "(k::nat) < 4 \<longleftrightarrow> k = 0 \<or> k = 1 \<or> k = 2 \<or> k = 3"
  by auto

lemma less_two_cases:
  "(k::nat) < 2 \<longleftrightarrow> k = 0 \<or> k = 1"
  by auto

lemma less_five_cases:
  "(k::nat) < 5 \<longleftrightarrow> k = 0 \<or> k = 1 \<or> k = 2 \<or> k = 3 \<or> k = 4"
  by auto

lemma less_six_cases:
  "(k::nat) < 6 \<longleftrightarrow> k = 0 \<or> k = 1 \<or> k = 2 \<or> k = 3 \<or> k = 4 \<or> k = 5"
  by auto

end
