(* ===== verification/Engine_Types.thy ===== *)
theory Engine_Types
  imports Mesh_Prelude
begin

text \<open>
  The engine and plugin types the table actor is written against, modelled
  from how \<open>src/Source/ZuruTest/TableActor.cpp\<close> uses them (their code is
  not part of the repository): \<open>FVector\<close> and \<open>FVector2D\<close> with real
  components (the source's \<open>float\<close> arithmetic taken exactly), \<open>FBox\<close>, the
  range-checked element access of \<open>TArray\<close>, whose failure is the value
  \<open>Inl (ArrayIndexOutOfBounds index size)\<close>, and the vertex struct
  \<open>FRuntimeMeshVertexSimple\<close> as an extensible record: the fields the builder
  writes are explicit, the rest (its colour) is the record's more part.
  \<open>FPackedNormal\<close> is taken as the vector it is assigned from.
\<close>

section \<open>FVector\<close>

datatype fvector = FVector (X: real) (Y: real) (Z: real)

instantiation fvector :: ab_group_add
begin

definition zero_fvector_def: "0 = FVector 0 0 0"

definition plus_fvector_def: "a + b = FVector (X a + X b) (Y a + Y b) (Z a + Z b)"

definition minus_fvector_def: "a - b = FVector (X a - X b) (Y a - Y b) (Z a - Z b)"

definition uminus_fvector_def: "- a = FVector (- X a) (- Y a) (- Z a)"

instance
proof
  fix a b c :: fvector
  show "a + b + c = a + (b + c)"
    by (simp add: plus_fvector_def algebra_simps)
  show "a + b = b + a"
    by (simp add: plus_fvector_def algebra_simps)
  show "0 + a = a"
    by (simp add: plus_fvector_def zero_fvector_def)
  show "- a + a = 0"
    by (simp add: plus_fvector_def zero_fvector_def uminus_fvector_def)
  show "a - b = a + - b"
    by (simp add: plus_fvector_def minus_fvector_def uminus_fvector_def)
qed

end

text \<open>\<open>FVector::operator/(float)\<close>: componentwise division.\<close>

definition fvector_div :: "fvector \<Rightarrow> real \<Rightarrow> fvector" where
  "fvector_div v s = FVector (X v / s) (Y v / s) (Z v / s)"

text \<open>\<open>FVector::DotProduct\<close> and \<open>FVector::CrossProduct\<close> (the engine's
  formulas; the engine's frame is left-handed, X forward, Y right, Z up).\<close>

definition DotProduct :: "fvector \<Rightarrow> fvector \<Rightarrow> real" where
  "DotProduct a b = X a * X b + Y a * Y b + Z a * Z b"

definition CrossProduct :: "fvector \<Rightarrow> fvector \<Rightarrow> fvector" where
  "CrossProduct a b =
     FVector (Y a * Z b - Z a * Y b) (Z a * X b - X a * Z b) (X a * Y b - Y a * X b)"

datatype fvector2d = FVector2D real real

section \<open>FBox\<close>

record fbox =
  BoxMin :: fvector
  BoxMax :: fvector
  IsValid :: bool

text \<open>The constructor \<open>FBox(Min, Max)\<close> marks the box valid.\<close>

definition FBox :: "fvector \<Rightarrow> fvector \<Rightarrow> fbox" where
  "FBox mn mx = \<lparr>BoxMin = mn, BoxMax = mx, IsValid = True\<rparr>"

text \<open>\<open>FBox::IsInsideOrOn\<close>: the point lies in the closed box.\<close>

definition IsInsideOrOn :: "fbox \<Rightarrow> fvector \<Rightarrow> bool" where
  "IsInsideOrOn b p \<longleftrightarrow>
     X (BoxMin b) \<le> X p \<and> X p \<le> X (BoxMax b) \<and>
     Y (BoxMin b) \<le> Y p \<and> Y p \<le> Y (BoxMax b) \<and>
     Z (BoxMin b) \<le> Z p \<and> Z p \<le> Z (BoxMax b)"

text \<open>The smallest box containing a list of points (what \<open>FBox(Points)\<close>
  computes); an empty list gives the invalid zero box.\<close>

definition points_bounds :: "fvector list \<Rightarrow> fbox" where
  "points_bounds ps =
     (if ps = [] then \<lparr>BoxMin = 0, BoxMax = 0, IsValid = False\<rparr>
      else FBox (FVector (Min (set (map X ps))) (Min (set (map Y ps))) (Min (set (map Z ps))))
                (FVector (Max (set (map X ps))) (Max (set (map Y ps))) (Max (set (map Z ps)))))"

section \<open>TArray with range-checked access\<close>

text \<open>
  A \<open>TArray\<close> is its list of elements. \<open>operator[]\<close> checks
  \<open>Index >= 0 && Index < ArrayNum\<close> and fails with the index and the size
  otherwise; the number of elements is an \<open>int32\<close>, so a well-formed array
  has fewer than \<open>2 ^ 31\<close> elements.
\<close>

datatype mesh_error = ArrayIndexOutOfBounds int32 nat

definition tarray_wf :: "'a list \<Rightarrow> bool" where
  "tarray_wf xs \<longleftrightarrow> length xs < 2 ^ 31"

definition tarray_valid_index :: "'a list \<Rightarrow> int32 \<Rightarrow> bool" where
  "tarray_valid_index xs i \<longleftrightarrow> 0 \<le> sint i \<and> sint i < int (length xs)"

text \<open>\<open>A[i].field = v\<close>: a checked write of part of element \<open>i\<close>.\<close>

definition tarray_modify :: "'a list \<Rightarrow> int32 \<Rightarrow> ('a \<Rightarrow> 'a) \<Rightarrow> mesh_error + 'a list" where
  "tarray_modify xs i f =
     (if tarray_valid_index xs i then Inr (list_modify xs (nat (sint i)) f)
      else Inl (ArrayIndexOutOfBounds i (length xs)))"

text \<open>\<open>A[i] = v\<close>: a checked write of the whole element.\<close>

definition tarray_set :: "'a list \<Rightarrow> int32 \<Rightarrow> 'a \<Rightarrow> mesh_error + 'a list" where
  "tarray_set xs i v = tarray_modify xs i (\<lambda>_. v)"

text \<open>The first of a sequence of accesses to \<open>xs\<close> that fails the range
  check, if any.\<close>

definition first_invalid :: "'a list \<Rightarrow> int32 list \<Rightarrow> int32 option" where
  "first_invalid xs is = find (\<lambda>i. \<not> tarray_valid_index xs i) is"

text \<open>\<open>AddUninitialized(Count)\<close>: \<open>Count\<close> new elements of unspecified
  content, given here by an arbitrary function of their position.\<close>

definition AddUninitialized :: "'a list \<Rightarrow> nat \<Rightarrow> (nat \<Rightarrow> 'a) \<Rightarrow> 'a list" where
  "AddUninitialized xs n junk = xs @ map junk [0..<n]"

section \<open>FRuntimeMeshVertexSimple\<close>

text \<open>
  The vertex struct of the runtime mesh plugin. The builder writes
  \<open>Position\<close>, \<open>UV0\<close>, \<open>Normal\<close> and \<open>Tangent\<close>; the remaining fields are
  the more part \<open>'c\<close> of the record scheme, which no operation touches.
\<close>

record FRuntimeMeshVertexSimple =
  Position :: fvector
  Normal :: fvector
  Tangent :: fvector
  UV0 :: fvector2d

type_synonym 'c vertex = "'c FRuntimeMeshVertexSimple_scheme"

section \<open>Lemmas\<close>

lemma fvector_arith [simp]:
  "FVector a b c + FVector d e f = FVector (a + d) (b + e) (c + f)"
  "FVector a b c - FVector d e f = FVector (a - d) (b - e) (c - f)"
  "- FVector a b c = FVector (- a) (- b) (- c)"
  "(0::fvector) = FVector 0 0 0"
  by (simp_all add: plus_fvector_def minus_fvector_def uminus_fvector_def zero_fvector_def)

lemma DotProduct_FVector [simp]:
  "DotProduct (FVector a b c) (FVector d e f) = a * d + b * e + c * f"
  by (simp add: DotProduct_def)

lemma CrossProduct_FVector [simp]:
  "CrossProduct (FVector a b c) (FVector d e f) =
     FVector (b * f - c * e) (c * d - a * f) (a * e - b * d)"
  by (simp add: CrossProduct_def)

text \<open>A box that contains all the points and whose two corners are among
  them is their bounding box.\<close>

lemma points_bounds_eqI:
  assumes "\<forall>p\<in>set ps. IsInsideOrOn (FBox mn mx) p" "mn \<in> set ps" "mx \<in> set ps"
  shows "points_bounds ps = FBox mn mx"
proof -
  have ne: "ps \<noteq> []" using assms(2) by auto
  have "Min (set (map X ps)) = X mn \<and> Min (set (map Y ps)) = Y mn \<and> Min (set (map Z ps)) = Z mn \<and>
      Max (set (map X ps)) = X mx \<and> Max (set (map Y ps)) = Y mx \<and> Max (set (map Z ps)) = Z mx"
    using assms by (auto intro!: Min_eqI Max_eqI simp: IsInsideOrOn_def FBox_def)
  then show ?thesis
    using ne by (simp add: points_bounds_def)
qed

lemma tarray_modify_ok [tarray_simps]:
  "tarray_valid_index xs i \<Longrightarrow>
     tarray_modify xs i f = Inr (list_modify xs (nat (sint i)) f)"
  by (simp add: tarray_modify_def)

lemma tarray_modify_fail [tarray_simps]:
  "\<not> tarray_valid_index xs i \<Longrightarrow>
     tarray_modify xs i f = Inl (ArrayIndexOutOfBounds i (length xs))"
  by (simp add: tarray_modify_def)

lemma sbind_tarray_modify_Inr [tarray_simps]:
  "sbind (tarray_modify xs i f) g = Inr r \<longleftrightarrow>
     tarray_valid_index xs i \<and> g (list_modify xs (nat (sint i)) f) = Inr r"
  by (simp add: tarray_modify_def)

lemma sbind_tarray_modify:
  "sbind (tarray_modify xs i f) g =
     (if tarray_valid_index xs i then g (list_modify xs (nat (sint i)) f)
      else Inl (ArrayIndexOutOfBounds i (length xs)))"
  by (simp add: tarray_modify_def)

lemma first_invalid_simps [simp]:
  "first_invalid xs [] = None"
  "first_invalid xs (i # is) = (if tarray_valid_index xs i then first_invalid xs is else Some i)"
  by (simp_all add: first_invalid_def)

lemma first_invalid_SomeD:
  "first_invalid xs is = Some i \<Longrightarrow> i \<in> set is \<and> \<not> tarray_valid_index xs i"
  by (induction "is") (auto split: if_splits)

text \<open>The first out-of-range slot of a run of consecutive slots starting
  inside the array is the slot one past its end.\<close>

lemma first_invalid_run:
  assumes "vo \<le> length xs" "vo + m \<le> 2 ^ 31"
  shows "first_invalid xs (map (\<lambda>k. word_of_nat (vo + k)) [0..<m]) =
    (if vo + m \<le> length xs then None else Some (word_of_nat (length xs)))"
  using assms
proof (induction m arbitrary: vo)
  case 0
  then show ?case by simp
next
  case (Suc m)
  have s: "sint (word_of_nat vo :: int32) = int vo"
    using Suc.prems(2) by (intro sint_of_nat_small) simp
  have shift: "map (\<lambda>k. word_of_nat (vo + k)) [0..<Suc m] =
      word_of_nat vo # map (\<lambda>k. word_of_nat (Suc vo + k)) [0..<m]"
    by (simp add: upt_conv_Cons map_Suc_upt [symmetric] del: upt_Suc)
  show ?case
    unfolding shift
  proof (cases "vo = length xs")
    case True
    then show "first_invalid xs (word_of_nat vo # map (\<lambda>k. word_of_nat (Suc vo + k)) [0..<m]) =
        (if vo + Suc m \<le> length xs then None else Some (word_of_nat (length xs)))"
      using s by (simp add: tarray_valid_index_def)
  next
    case False
    then have "Suc vo \<le> length xs" using Suc.prems(1) by simp
    then show "first_invalid xs (word_of_nat vo # map (\<lambda>k. word_of_nat (Suc vo + k)) [0..<m]) =
        (if vo + Suc m \<le> length xs then None else Some (word_of_nat (length xs)))"
      using s Suc.IH [of "Suc vo"] Suc.prems(2) by (simp add: tarray_valid_index_def)
  qed
qed

lemma tarray_valid_index_modify [simp]:
  "tarray_valid_index (list_modify xs j f) i = tarray_valid_index xs i"
  by (simp add: tarray_valid_index_def)

lemma truncate_fields [simp]:
  "Position (FRuntimeMeshVertexSimple.truncate v) = Position v"
  "Normal (FRuntimeMeshVertexSimple.truncate v) = Normal v"
  "Tangent (FRuntimeMeshVertexSimple.truncate v) = Tangent v"
  "UV0 (FRuntimeMeshVertexSimple.truncate v) = UV0 v"
  by (simp_all add: FRuntimeMeshVertexSimple.truncate_def)

lemma length_AddUninitialized [simp]:
  "length (AddUninitialized xs n junk) = length xs + n"
  by (simp add: AddUninitialized_def)

end
