(* ===== verification/Quad_Builder.thy ===== *)
theory Quad_Builder
  imports Engine_Types
begin

text \<open>
  The quad builder: \<open>ATableActor::BuildQuad\<close>
  (\<open>src/Source/ZuruTest/TableActor.cpp\<close>, lines 155--178). It writes the four
  corners of one face into four consecutive vertex slots, with a fixed
  unit-square UV mapping and one normal and tangent for all four, appends the
  two triangles \<open>(0,1,2)\<close> and \<open>(0,2,3)\<close> of the quad to the index buffer,
  and advances both offsets. Every element access is range checked, so a
  write out of range is an error value. The theory proves what the builder
  writes (a block write of the abstract quad), when it fails, that the
  advanced offsets do not wrap, and that on every input it equals the
  reference definition \<open>BuildQuad_spec\<close> (checks first, in the source's
  order, then the block writes).
\<close>

section \<open>The operation\<close>

text \<open>
  The source increments \<open>VertexOffset\<close> four times to name the slots, then
  writes positions, UVs, the six indices (post-incrementing
  \<open>TriangleOffset\<close>), and the chained assignments of normal and tangent, which
  store to slot 4 first and slot 1 last. The in/out offsets are returned with
  the buffers.
\<close>

definition BuildQuad ::
  "'c vertex list \<Rightarrow> int32 list \<Rightarrow> fvector \<Rightarrow> fvector \<Rightarrow> fvector \<Rightarrow> fvector \<Rightarrow>
   int32 \<Rightarrow> int32 \<Rightarrow> fvector \<Rightarrow> fvector \<Rightarrow>
   mesh_error + ('c vertex list \<times> int32 list \<times> int32 \<times> int32)" where
  "BuildQuad InVertices InTriangles BottomLeft BottomRight TopRight TopLeft
      VertexOffset TriangleOffset FaceNormal FaceTangent =
    (let Index1 = VertexOffset; Index2 = VertexOffset + 1;
         Index3 = VertexOffset + 2; Index4 = VertexOffset + 3;
         VertexOffset' = VertexOffset + 4 in
     sbind (tarray_modify InVertices Index1 (Position_update (\<lambda>_. BottomLeft))) (\<lambda>V.
     sbind (tarray_modify V Index2 (Position_update (\<lambda>_. BottomRight))) (\<lambda>V.
     sbind (tarray_modify V Index3 (Position_update (\<lambda>_. TopRight))) (\<lambda>V.
     sbind (tarray_modify V Index4 (Position_update (\<lambda>_. TopLeft))) (\<lambda>V.
     sbind (tarray_modify V Index1 (UV0_update (\<lambda>_. FVector2D 0 1))) (\<lambda>V.
     sbind (tarray_modify V Index2 (UV0_update (\<lambda>_. FVector2D 1 1))) (\<lambda>V.
     sbind (tarray_modify V Index3 (UV0_update (\<lambda>_. FVector2D 1 0))) (\<lambda>V.
     sbind (tarray_modify V Index4 (UV0_update (\<lambda>_. FVector2D 0 0))) (\<lambda>V.
     sbind (tarray_set InTriangles TriangleOffset Index1) (\<lambda>T.
     sbind (tarray_set T (TriangleOffset + 1) Index2) (\<lambda>T.
     sbind (tarray_set T (TriangleOffset + 2) Index3) (\<lambda>T.
     sbind (tarray_set T (TriangleOffset + 3) Index1) (\<lambda>T.
     sbind (tarray_set T (TriangleOffset + 4) Index3) (\<lambda>T.
     sbind (tarray_set T (TriangleOffset + 5) Index4) (\<lambda>T.
     sbind (tarray_modify V Index4 (Normal_update (\<lambda>_. FaceNormal))) (\<lambda>V.
     sbind (tarray_modify V Index3 (Normal_update (\<lambda>_. FaceNormal))) (\<lambda>V.
     sbind (tarray_modify V Index2 (Normal_update (\<lambda>_. FaceNormal))) (\<lambda>V.
     sbind (tarray_modify V Index1 (Normal_update (\<lambda>_. FaceNormal))) (\<lambda>V.
     sbind (tarray_modify V Index4 (Tangent_update (\<lambda>_. FaceTangent))) (\<lambda>V.
     sbind (tarray_modify V Index3 (Tangent_update (\<lambda>_. FaceTangent))) (\<lambda>V.
     sbind (tarray_modify V Index2 (Tangent_update (\<lambda>_. FaceTangent))) (\<lambda>V.
     sbind (tarray_modify V Index1 (Tangent_update (\<lambda>_. FaceTangent))) (\<lambda>V.
     Inr (V, T, VertexOffset', TriangleOffset + 6))))))))))))))))))))))))"

section \<open>The abstract quad\<close>

text \<open>
  What one call contributes: four vertices (corner, shared normal and tangent,
  the fixed UVs \<open>(0,1), (1,1), (1,0), (0,0)\<close>) and six indices, the two
  triangles \<open>(0,1,2)\<close> and \<open>(0,2,3)\<close> shifted by the vertex offset.
\<close>

definition quad_uvs :: "fvector2d list" where
  "quad_uvs = [FVector2D 0 1, FVector2D 1 1, FVector2D 1 0, FVector2D 0 0]"

definition quad_pattern :: "nat list" where
  "quad_pattern = [0, 1, 2, 0, 2, 3]"

definition quad_vertices ::
  "fvector \<Rightarrow> fvector \<Rightarrow> fvector \<Rightarrow> fvector \<Rightarrow> fvector \<Rightarrow> fvector \<Rightarrow>
   FRuntimeMeshVertexSimple list" where
  "quad_vertices a b c d n t =
     map2 (\<lambda>p uv. \<lparr>Position = p, Normal = n, Tangent = t, UV0 = uv\<rparr>) [a, b, c, d] quad_uvs"

definition quad_indices :: "int32 \<Rightarrow> int32 list" where
  "quad_indices vo = map (\<lambda>k. vo + word_of_nat k) quad_pattern"

text \<open>Writing an abstract vertex into a slot sets the four fields the builder
  sets and keeps the rest of the old element.\<close>

definition vertex_fill :: "FRuntimeMeshVertexSimple \<Rightarrow> 'c vertex \<Rightarrow> 'c vertex" where
  "vertex_fill v old =
     old\<lparr>Position := Position v, Normal := Normal v, Tangent := Tangent v, UV0 := UV0 v\<rparr>"

definition store :: "'a \<Rightarrow> 'a \<Rightarrow> 'a" where
  "store v old = v"

text \<open>
  The contract of \<open>BuildQuad\<close> as a reference definition: the four vertex
  slots and then the six index slots are checked in order, the first one out
  of range is the error, and otherwise the call is the two block writes with
  the offsets advanced (as \<open>int32\<close> sums).
\<close>

definition BuildQuad_spec ::
  "'c vertex list \<Rightarrow> int32 list \<Rightarrow> fvector \<Rightarrow> fvector \<Rightarrow> fvector \<Rightarrow> fvector \<Rightarrow>
   int32 \<Rightarrow> int32 \<Rightarrow> fvector \<Rightarrow> fvector \<Rightarrow>
   mesh_error + ('c vertex list \<times> int32 list \<times> int32 \<times> int32)" where
  "BuildQuad_spec V T a b c d VO TO n t =
     (case first_invalid V [VO, VO + 1, VO + 2, VO + 3] of
        Some i \<Rightarrow> Inl (ArrayIndexOutOfBounds i (length V))
      | None \<Rightarrow>
        (case first_invalid T [TO, TO + 1, TO + 2, TO + 3, TO + 4, TO + 5] of
           Some i \<Rightarrow> Inl (ArrayIndexOutOfBounds i (length T))
         | None \<Rightarrow> Inr (overwrite vertex_fill V (nat (sint VO)) (quad_vertices a b c d n t),
                       overwrite store T (nat (sint TO)) (quad_indices VO), VO + 4, TO + 6)))"

text \<open>An all-zero vertex, used as the content of example buffers.\<close>

definition vertex0 :: FRuntimeMeshVertexSimple where
  "vertex0 = \<lparr>Position = 0, Normal = 0, Tangent = 0, UV0 = FVector2D 0 0\<rparr>"

section \<open>Lemmas\<close>

lemma length_quad_vertices [simp]: "length (quad_vertices a b c d n t) = 4"
  by (simp add: quad_vertices_def quad_uvs_def)

lemma length_quad_pattern [simp]: "length quad_pattern = 6"
  by (simp add: quad_pattern_def)

lemma length_quad_indices [simp]: "length (quad_indices vo) = 6"
  by (simp add: quad_indices_def quad_pattern_def)

lemma vertex_fill_fields [simp]:
  "Position (vertex_fill v old) = Position v"
  "Normal (vertex_fill v old) = Normal v"
  "Tangent (vertex_fill v old) = Tangent v"
  "UV0 (vertex_fill v old) = UV0 v"
  "FRuntimeMeshVertexSimple.more (vertex_fill v old) = FRuntimeMeshVertexSimple.more old"
  by (simp_all add: vertex_fill_def)

lemma truncate_vertex_fill [simp]:
  "FRuntimeMeshVertexSimple.truncate (vertex_fill v old) = v"
  by (simp add: vertex_fill_def FRuntimeMeshVertexSimple.defs)

lemma vertex_fill_twice [simp]: "vertex_fill v (vertex_fill w old) = vertex_fill v old"
  by (simp add: vertex_fill_def)

lemma store_idem [simp]: "store v (store v old) = store v old"
  by (simp add: store_def)

lemma map2_store: "length xs = length ys \<Longrightarrow> map2 store xs ys = xs"
  by (induction xs ys rule: list_induct2) (simp_all add: store_def)

text \<open>
  The whole behaviour of a call whose slots are in range and whose advanced
  offsets are representable: a block write of the abstract quad at the vertex
  offset, a block write of its six indices at the index offset, and the
  offsets advanced by 4 and 6. The proof runs the 22 checked writes and then
  compares the result with the block writes slot by slot.
\<close>

lemma BuildQuad_ok:
  assumes "0 \<le> sint VO" "sint VO + 4 \<le> int (length V)" "sint VO + 3 < 2 ^ 31"
    and "0 \<le> sint TO" "sint TO + 6 \<le> int (length T)" "sint TO + 5 < 2 ^ 31"
  shows "BuildQuad V T a b c d VO TO n t =
     Inr (overwrite vertex_fill V (nat (sint VO)) (quad_vertices a b c d n t),
          overwrite store T (nat (sint TO)) (quad_indices VO), VO + 4, TO + 6)"
proof -
  obtain vo where vo: "sint VO = int vo" using assms(1) by (metis nonneg_eq_int)
  obtain to where to: "sint TO = int to" using assms(4) by (metis nonneg_eq_int)
  have sv: "sint (VO + 1) = int (vo + 1)" "sint (VO + 2) = int (vo + 2)"
      "sint (VO + 3) = int (vo + 3)"
    using assms(3) vo by (simp_all add: sint_add_one_nowrap sint_add_numeral_nowrap)
  have st: "sint (TO + 1) = int (to + 1)" "sint (TO + 2) = int (to + 2)"
      "sint (TO + 3) = int (to + 3)" "sint (TO + 4) = int (to + 4)" "sint (TO + 5) = int (to + 5)"
    using assms(6) to by (simp_all add: sint_add_one_nowrap sint_add_numeral_nowrap)
  have lv: "vo + 4 \<le> length V" and lt: "to + 6 \<le> length T"
    using assms(2,5) vo to by simp_all
  show ?thesis
    using lv lt
    apply (simp add: BuildQuad_def Let_def tarray_set_def tarray_modify_ok
        tarray_valid_index_def vo to sv st)
    apply (intro conjI nth_equalityI)
       apply simp
    subgoal for k
      apply (rule slot_cases [where k = k and i = vo and n = 4])
        apply (simp add: nth_overwrite nth_list_modify)
       apply (simp only: less_four_cases)
       apply (elim disjE; simp add: nth_overwrite nth_list_modify vertex_fill_def
          quad_vertices_def quad_uvs_def)
      apply (simp add: nth_overwrite nth_list_modify)
      done
     apply simp
    subgoal for k
      apply (rule slot_cases [where k = k and i = to and n = 6])
        apply (simp add: nth_overwrite nth_list_modify)
       apply (simp only: less_six_cases)
       apply (elim disjE; simp add: nth_overwrite nth_list_modify store_def
          quad_indices_def quad_pattern_def)
      apply (simp add: nth_overwrite nth_list_modify)
      done
    done
qed

text \<open>All ten slots in range: the call is the two block writes.\<close>

lemma BuildQuad_all_valid:
  assumes "first_invalid V [VO, VO + 1, VO + 2, VO + 3] = None"
    and "first_invalid T [TO, TO + 1, TO + 2, TO + 3, TO + 4, TO + 5] = None"
  shows "BuildQuad V T a b c d VO TO n t =
     Inr (overwrite vertex_fill V (nat (sint VO)) (quad_vertices a b c d n t),
          overwrite store T (nat (sint TO)) (quad_indices VO), VO + 4, TO + 6)"
proof -
  have v: "0 \<le> sint VO" "0 \<le> sint (VO + 3)" "sint (VO + 3) < int (length V)"
    and t: "0 \<le> sint TO" "0 \<le> sint (TO + 5)" "sint (TO + 5) < int (length T)"
    using assms by (simp_all add: tarray_valid_index_def split: if_split_asm)
  have "sint (VO + 3) = sint VO + 3" "sint (TO + 5) = sint TO + 5"
    using v t by (simp_all add: sint_add_numeral_nonneg)
  moreover have "sint (VO + 3) < 2 ^ 31" "sint (TO + 5) < 2 ^ 31"
    using sint_less [of "VO + 3"] sint_less [of "TO + 5"] by simp_all
  ultimately show ?thesis
    using v t by (intro BuildQuad_ok) simp_all
qed

text \<open>The failing branches: the first vertex slot out of range is the
  error, and with all four vertex slots in range the first index slot out of
  range is. With offsets given as naturals, a quad that starts inside a
  buffer but runs past its end fails at the buffer's length.\<close>

lemma BuildQuad_vertex_fail:
  assumes "first_invalid V [VO, VO + 1, VO + 2, VO + 3] = Some i"
  shows "BuildQuad V T a b c d VO TO n t = Inl (ArrayIndexOutOfBounds i (length V))"
  using assms
  by (simp add: BuildQuad_def Let_def tarray_set_def sbind_tarray_modify split: if_split_asm)

lemma BuildQuad_index_fail:
  assumes "first_invalid V [VO, VO + 1, VO + 2, VO + 3] = None"
    and "first_invalid T [TO, TO + 1, TO + 2, TO + 3, TO + 4, TO + 5] = Some i"
  shows "BuildQuad V T a b c d VO TO n t = Inl (ArrayIndexOutOfBounds i (length T))"
  using assms
  by (simp add: BuildQuad_def Let_def tarray_set_def sbind_tarray_modify split: if_split_asm)

lemma quad_slots_run:
  "[word_of_nat vo, word_of_nat vo + 1, word_of_nat vo + 2, word_of_nat vo + 3] =
     map (\<lambda>k. word_of_nat (vo + k) :: int32) [0..<4]"
  "[word_of_nat to, word_of_nat to + 1, word_of_nat to + 2, word_of_nat to + 3,
    word_of_nat to + 4, word_of_nat to + 5] = map (\<lambda>k. word_of_nat (to + k) :: int32) [0..<6]"
  by (simp_all add: upt_rec)

lemma BuildQuad_at_vertex_fail:
  assumes "vo \<le> length V" "length V < vo + 4" "vo + 4 \<le> 2 ^ 31"
  shows "BuildQuad V T a b c d (word_of_nat vo) TO n t =
    Inl (ArrayIndexOutOfBounds (word_of_nat (length V)) (length V))"
  using first_invalid_run [of vo V 4] assms
  by (intro BuildQuad_vertex_fail) (simp add: quad_slots_run)

lemma BuildQuad_at_index_fail:
  assumes "vo + 4 \<le> length V" "vo + 4 \<le> 2 ^ 31"
    and "to \<le> length T" "length T < to + 6" "to + 6 \<le> 2 ^ 31"
  shows "BuildQuad V T a b c d (word_of_nat vo) (word_of_nat to) n t =
    Inl (ArrayIndexOutOfBounds (word_of_nat (length T)) (length T))"
  using first_invalid_run [of vo V 4] first_invalid_run [of to T 6] assms
  by (intro BuildQuad_index_fail) (simp_all add: quad_slots_run)

lemma BuildQuad_at_eq:
  assumes "vo + 4 \<le> length V" "vo + 4 \<le> 2 ^ 31" "to + 6 \<le> length T" "to + 6 \<le> 2 ^ 31"
  shows "BuildQuad V T a b c d (word_of_nat vo) (word_of_nat to) n t =
     Inr (overwrite vertex_fill V vo (quad_vertices a b c d n t),
          overwrite store T to (quad_indices (word_of_nat vo)), word_of_nat (vo + 4), word_of_nat (to + 6))"
proof -
  have "sint (word_of_nat vo :: int32) = int vo" "sint (word_of_nat to :: int32) = int to"
    using assms by (simp_all add: sint_of_nat_small)
  then show ?thesis
    using assms BuildQuad_ok [of "word_of_nat vo" V "word_of_nat to" T a b c d n t] by simp
qed

lemma BuildQuad_at_ok:
  assumes "vo + 4 \<le> length V" "vo + 4 \<le> 2 ^ 31" "to + 6 \<le> length T" "to + 6 \<le> 2 ^ 31"
  shows "\<exists>V' T'. BuildQuad V T a b c d (word_of_nat vo) (word_of_nat to) n t =
      Inr (V', T', word_of_nat (vo + 4), word_of_nat (to + 6)) \<and>
    length V' = length V \<and> length T' = length T"
  using BuildQuad_at_eq [OF assms, of a b c d n t] assms by simp

text \<open>
  What a successful call implies, without any assumption on the sizes: the
  offsets it returns are the inputs plus 4 and 6, the buffers keep their
  lengths, and the slots it wrote were in range. The fourth vertex slot and the
  sixth index slot are checked, and a sum that wrapped would be negative.
\<close>

lemma BuildQuad_Inr:
  assumes "BuildQuad V T a b c d VO TO n t = Inr (V', T', VO', TO')"
  shows "VO' = VO + 4 \<and> TO' = TO + 6 \<and> length V' = length V \<and> length T' = length T \<and>
     0 \<le> sint VO \<and> sint VO + 4 \<le> int (length V) \<and>
     0 \<le> sint TO \<and> sint TO + 6 \<le> int (length T)"
proof -
  have "tarray_valid_index V VO \<and> tarray_valid_index V (VO + 3) \<and>
    tarray_valid_index T TO \<and> tarray_valid_index T (TO + 5) \<and>
    VO' = VO + 4 \<and> TO' = TO + 6 \<and> length V' = length V \<and> length T' = length T"
    using assms
    by (simp only: BuildQuad_def Let_def tarray_set_def sbind_tarray_modify_Inr
        tarray_valid_index_modify sum.inject prod.inject) (elim conjE, hypsubst, simp)
  then have v: "0 \<le> sint VO" "0 \<le> sint (VO + 3)" "sint (VO + 3) < int (length V)"
    and t: "0 \<le> sint TO" "0 \<le> sint (TO + 5)" "sint (TO + 5) < int (length T)"
    and r: "VO' = VO + 4" "TO' = TO + 6" "length V' = length V" "length T' = length T"
    by (simp_all add: tarray_valid_index_def)
  have "sint (VO + 3) = sint VO + 3"
    using v by (intro sint_add_numeral_nonneg) simp_all
  moreover have "sint (TO + 5) = sint TO + 5"
    using t by (intro sint_add_numeral_nonneg) simp_all
  ultimately show ?thesis
    using v t r by simp
qed


text \<open>One call inside a sequence of fallible steps: if the sequence succeeds,
  the call succeeded on in-range slots, kept the buffer lengths and advanced
  the offsets by 4 and 6.\<close>

lemma sbind_BuildQuad_InrE:
  assumes "sbind (BuildQuad V T a b c d VO TO n t) g = Inr r"
  obtains V' T' where "g (V', T', VO + 4, TO + 6) = Inr r"
    "length V' = length V" "length T' = length T"
    "0 \<le> sint VO" "sint VO + 4 \<le> int (length V)"
    "0 \<le> sint TO" "sint TO + 6 \<le> int (length T)"
proof -
  from assms obtain q where q: "BuildQuad V T a b c d VO TO n t = Inr q" "g q = Inr r"
    by (auto simp: sbind_eq_Inr)
  obtain V' T' VO' TO' where "q = (V', T', VO', TO')"
    by (cases q) auto
  with q BuildQuad_Inr [of V T a b c d VO TO n t V' T' VO' TO'] that show ?thesis
    by auto
qed

section \<open>Properties of the quad builder\<close>

text \<open>
  C1. \<open>BuildQuad\<close> on well-formed buffers with room for one quad at the
  given offsets succeeds and does exactly this: the four vertex slots from the
  vertex offset get the corners bottom-left, bottom-right, top-right,
  top-left in that order, the UVs \<open>(0,1), (1,1), (1,0), (0,0)\<close>, one
  normal and one tangent, and keep their other fields; the six index slots
  from the index offset get the triangles \<open>(0,1,2)\<close> and \<open>(0,2,3)\<close> of
  the quad as absolute vertex indices; every other slot is unchanged; and the
  offsets come back advanced by 4 and 6.
\<close>

theorem BuildQuad_writes_quad:
  assumes "tarray_wf V" "tarray_wf T" "vo + 4 \<le> length V" "to + 6 \<le> length T"
  shows "\<exists>V' T'. BuildQuad V T a b c d (word_of_nat vo) (word_of_nat to) n t =
      Inr (V', T', word_of_nat (vo + 4), word_of_nat (to + 6)) \<and>
    map Position (take 4 (drop vo V')) = [a, b, c, d] \<and>
    map UV0 (take 4 (drop vo V')) = [FVector2D 0 1, FVector2D 1 1, FVector2D 1 0, FVector2D 0 0] \<and>
    map Normal (take 4 (drop vo V')) = [n, n, n, n] \<and>
    map Tangent (take 4 (drop vo V')) = [t, t, t, t] \<and>
    map FRuntimeMeshVertexSimple.more (take 4 (drop vo V')) =
      map FRuntimeMeshVertexSimple.more (take 4 (drop vo V)) \<and>
    take 6 (drop to T') = map (\<lambda>k. word_of_nat (vo + k)) [0, 1, 2, 0, 2, 3] \<and>
    take vo V' = take vo V \<and> drop (vo + 4) V' = drop (vo + 4) V \<and>
    take to T' = take to T \<and> drop (to + 6) T' = drop (to + 6) T"
proof -
  have small: "vo + 4 < 2 ^ 31" "to + 6 < 2 ^ 31"
    using assms by (simp_all add: tarray_wf_def)
  then have sv: "sint (word_of_nat vo :: int32) = int vo" "sint (word_of_nat to :: int32) = int to"
    by (simp_all add: sint_of_nat_small)
  let ?V' = "overwrite vertex_fill V vo (quad_vertices a b c d n t)"
  let ?T' = "overwrite store T to (quad_indices (word_of_nat vo))"
  have run: "BuildQuad V T a b c d (word_of_nat vo) (word_of_nat to) n t =
      Inr (?V', ?T', word_of_nat (vo + 4), word_of_nat (to + 6))"
    using BuildQuad_ok [of "word_of_nat vo" V "word_of_nat to" T a b c d n t] assms small sv
    by simp
  have "length (take 4 (drop vo V)) = 4" "length (take 6 (drop to T)) = 6"
    using assms(3,4) by simp_all
  then obtain o0 o1 o2 o3 i0 i1 i2 i3 i4 i5
    where olds: "take 4 (drop vo V) = [o0, o1, o2, o3]"
      and oldt: "take 6 (drop to T) = [i0, i1, i2, i3, i4, i5]"
    unfolding length_4_conv length_6_conv by blast
  have vblock: "take 4 (drop vo ?V') = map2 vertex_fill (quad_vertices a b c d n t) [o0, o1, o2, o3]"
    using block_overwrite [of vo "quad_vertices a b c d n t" V vertex_fill] assms(3) olds by simp
  have tblock: "take 6 (drop to ?T') = map2 store (quad_indices (word_of_nat vo)) [i0, i1, i2, i3, i4, i5]"
    using block_overwrite [of to "quad_indices (word_of_nat vo)" T store] assms(4) oldt by simp
  have vb: "take 4 (drop vo ?V') =
      [vertex_fill \<lparr>Position = a, Normal = n, Tangent = t, UV0 = FVector2D 0 1\<rparr> o0,
       vertex_fill \<lparr>Position = b, Normal = n, Tangent = t, UV0 = FVector2D 1 1\<rparr> o1,
       vertex_fill \<lparr>Position = c, Normal = n, Tangent = t, UV0 = FVector2D 1 0\<rparr> o2,
       vertex_fill \<lparr>Position = d, Normal = n, Tangent = t, UV0 = FVector2D 0 0\<rparr> o3]"
    using vblock by (simp add: quad_vertices_def quad_uvs_def)
  have tb: "take 6 (drop to ?T') = map (\<lambda>k. word_of_nat (vo + k)) [0, 1, 2, 0, 2, 3]"
    using tblock by (simp add: quad_indices_def quad_pattern_def store_def)
  have frame: "take vo ?V' = take vo V" "drop (vo + 4) ?V' = drop (vo + 4) V"
      "take to ?T' = take to T" "drop (to + 6) ?T' = drop (to + 6) T"
    using assms(3,4) take_overwrite [of vo "quad_vertices a b c d n t" V vertex_fill]
      drop_overwrite [of vo "quad_vertices a b c d n t" V vertex_fill]
      take_overwrite [of to "quad_indices (word_of_nat vo)" T store]
      drop_overwrite [of to "quad_indices (word_of_nat vo)" T store]
    by simp_all
  have more: "map FRuntimeMeshVertexSimple.more (take 4 (drop vo ?V')) =
      map FRuntimeMeshVertexSimple.more (take 4 (drop vo V))"
    by (simp only: vb olds) simp
  show ?thesis
    using run vb tb frame more by simp
qed

text \<open>
  C2. On well-formed buffers \<open>BuildQuad\<close> fails exactly when one of its
  slots is out of range: the vertex offset is negative or fewer than four
  vertex slots remain, or the index offset is negative or fewer than six index
  slots remain.
\<close>

theorem BuildQuad_fails_iff_out_of_range:
  assumes "tarray_wf V" "tarray_wf T"
  shows "isl (BuildQuad V T a b c d VO TO n t) \<longleftrightarrow>
    \<not> (0 \<le> sint VO \<and> sint VO + 4 \<le> int (length V) \<and>
       0 \<le> sint TO \<and> sint TO + 6 \<le> int (length T))"
proof
  assume "isl (BuildQuad V T a b c d VO TO n t)"
  moreover have "0 \<le> sint VO \<and> sint VO + 4 \<le> int (length V) \<and>
       0 \<le> sint TO \<and> sint TO + 6 \<le> int (length T) \<Longrightarrow>
       \<not> isl (BuildQuad V T a b c d VO TO n t)"
    using assms by (auto simp: BuildQuad_ok tarray_wf_def)
  ultimately show "\<not> (0 \<le> sint VO \<and> sint VO + 4 \<le> int (length V) \<and>
       0 \<le> sint TO \<and> sint TO + 6 \<le> int (length T))"
    by blast
next
  assume "\<not> (0 \<le> sint VO \<and> sint VO + 4 \<le> int (length V) \<and>
       0 \<le> sint TO \<and> sint TO + 6 \<le> int (length T))"
  then show "isl (BuildQuad V T a b c d VO TO n t)"
    by (cases "BuildQuad V T a b c d VO TO n t") (auto dest: BuildQuad_Inr)
qed

text \<open>
  C3. A successful \<open>BuildQuad\<close> on well-formed buffers read in-range slots
  only, and the offsets it hands back are the inputs plus 4 and 6 without
  32-bit wrap-around, still within the buffers; the buffers stay well formed.
\<close>

theorem BuildQuad_offsets_in_range:
  assumes "BuildQuad V T a b c d VO TO n t = Inr (V', T', VO', TO')"
    and "tarray_wf V" "tarray_wf T"
  shows "0 \<le> sint VO \<and> sint VO' = sint VO + 4 \<and> sint VO' \<le> int (length V') \<and>
    0 \<le> sint TO \<and> sint TO' = sint TO + 6 \<and> sint TO' \<le> int (length T') \<and>
    tarray_wf V' \<and> tarray_wf T'"
proof -
  note r = BuildQuad_Inr [OF assms(1)]
  have "sint (VO + 4) = sint VO + 4"
    using r assms(2) by (intro sint_add_numeral_nowrap) (simp add: tarray_wf_def)
  moreover have "sint (TO + 6) = sint TO + 6"
    using r assms(3) by (intro sint_add_numeral_nowrap) (simp add: tarray_wf_def)
  ultimately show ?thesis
    using r assms(2,3) by (simp add: tarray_wf_def)
qed

text \<open>
  C22. Equivalence with the reference definition: on every input, with no
  assumption on the buffer sizes or the offsets, \<open>BuildQuad\<close> equals
  \<open>BuildQuad_spec\<close>: it fails with the first vertex slot and then the first
  index slot out of range (an offset near \<open>INT32_MAX\<close> wraps to a negative
  index and fails there), and otherwise it is the two block writes.
\<close>

theorem BuildQuad_equiv_spec:
  "BuildQuad V T a b c d VO TO n t = BuildQuad_spec V T a b c d VO TO n t"
proof (cases "first_invalid V [VO, VO + 1, VO + 2, VO + 3]")
  case (Some i)
  then show ?thesis
    using BuildQuad_vertex_fail [OF Some] by (simp add: BuildQuad_spec_def)
next
  case None
  show ?thesis
  proof (cases "first_invalid T [TO, TO + 1, TO + 2, TO + 3, TO + 4, TO + 5]")
    case (Some i)
    then show ?thesis
      using BuildQuad_index_fail [OF None Some] None by (simp add: BuildQuad_spec_def)
  next
    case tNone: None
    show ?thesis
      using BuildQuad_all_valid [OF None tNone] None tNone by (simp add: BuildQuad_spec_def)
  qed
qed

text \<open>
  C30. Offset overflow: a vertex offset within three of \<open>INT32_MAX\<close> makes
  \<open>VertexOffset++\<close> wrap, so one of the four slots is negative. The call
  then fails on a vertex slot, whatever the buffer sizes, and the slot it
  reports is out of range: negative or past the end. No write lands at a
  wrapped slot.
\<close>

theorem BuildQuad_offset_overflow:
  assumes "2 ^ 31 - 4 < sint VO"
  shows "\<exists>i. BuildQuad V T a b c d VO TO n t = Inl (ArrayIndexOutOfBounds i (length V)) \<and>
    i \<in> {VO, VO + 1, VO + 2, VO + 3} \<and> (sint i < 0 \<or> int (length V) \<le> sint i)"
proof -
  have "\<not> tarray_valid_index V (VO + 3)"
  proof
    assume v: "tarray_valid_index V (VO + 3)"
    have "sint (VO + 3) = sint VO + 3"
      using v assms by (intro sint_add_numeral_nonneg) (simp_all add: tarray_valid_index_def)
    then show False
      using sint_lt [of "VO + 3"] assms by simp
  qed
  then obtain i where i: "first_invalid V [VO, VO + 1, VO + 2, VO + 3] = Some i"
    by (cases "first_invalid V [VO, VO + 1, VO + 2, VO + 3]") (auto split: if_split_asm)
  then show ?thesis
    using BuildQuad_vertex_fail [OF i] first_invalid_SomeD [OF i]
    by (auto simp: tarray_valid_index_def)
qed

text \<open>
  C33. Interleaving: two \<open>BuildQuad\<close> calls on disjoint vertex slots and
  disjoint index slots commute on the buffers. The builder's order of
  faces only decides which slots hold which face.
\<close>

theorem BuildQuad_commute:
  assumes "vo1 + 4 \<le> vo2 \<or> vo2 + 4 \<le> vo1" "to1 + 6 \<le> to2 \<or> to2 + 6 \<le> to1"
    and "vo1 + 4 \<le> length V" "vo2 + 4 \<le> length V" "to1 + 6 \<le> length T" "to2 + 6 \<le> length T"
    and "tarray_wf V" "tarray_wf T"
  shows "\<exists>V' T'.
    sbind (BuildQuad V T a b c d (word_of_nat vo1) (word_of_nat to1) n t) (\<lambda>(V1, T1, _, _).
      sbind (BuildQuad V1 T1 a' b' c' d' (word_of_nat vo2) (word_of_nat to2) n' t') (\<lambda>(V2, T2, _, _).
        Inr (V2, T2))) = Inr (V', T') \<and>
    sbind (BuildQuad V T a' b' c' d' (word_of_nat vo2) (word_of_nat to2) n' t') (\<lambda>(V1, T1, _, _).
      sbind (BuildQuad V1 T1 a b c d (word_of_nat vo1) (word_of_nat to1) n t) (\<lambda>(V2, T2, _, _).
        Inr (V2, T2))) = Inr (V', T')"
proof -
  have w: "vo1 + 4 \<le> 2 ^ 31" "vo2 + 4 \<le> 2 ^ 31" "to1 + 6 \<le> 2 ^ 31" "to2 + 6 \<le> 2 ^ 31"
    using assms(3-8) by (simp_all add: tarray_wf_def)
  have "overwrite vertex_fill (overwrite vertex_fill V vo1 (quad_vertices a b c d n t)) vo2
          (quad_vertices a' b' c' d' n' t') =
        overwrite vertex_fill (overwrite vertex_fill V vo2 (quad_vertices a' b' c' d' n' t')) vo1
          (quad_vertices a b c d n t)"
    using assms(1,3,4) by (intro overwrite_commute) simp_all
  moreover have "overwrite store (overwrite store T to1 (quad_indices (word_of_nat vo1))) to2
          (quad_indices (word_of_nat vo2)) =
        overwrite store (overwrite store T to2 (quad_indices (word_of_nat vo2))) to1
          (quad_indices (word_of_nat vo1))"
    using assms(2,5,6) by (intro overwrite_commute) simp_all
  ultimately show ?thesis
    using assms(3-6) w by (simp add: BuildQuad_at_eq)
qed

section \<open>Witnesses\<close>

theorem BuildQuad_writes_quad_witness:
  "tarray_wf (replicate 4 vertex0) \<and> tarray_wf (replicate 6 (0::int32)) \<and>
   0 + 4 \<le> length (replicate 4 vertex0) \<and> 0 + 6 \<le> length (replicate 6 (0::int32)) \<and>
   (\<exists>V' T'. BuildQuad (replicate 4 vertex0) (replicate 6 0)
        (FVector 1 1 0) (FVector 1 0 0) (FVector 1 0 1) (FVector 1 1 1)
        (word_of_nat 0) (word_of_nat 0) (FVector 1 0 0) (FVector 0 1 0) =
      Inr (V', T', word_of_nat (0 + 4), word_of_nat (0 + 6)) \<and>
    map Position (take 4 (drop 0 V')) = [FVector 1 1 0, FVector 1 0 0, FVector 1 0 1, FVector 1 1 1] \<and>
    map UV0 (take 4 (drop 0 V')) = [FVector2D 0 1, FVector2D 1 1, FVector2D 1 0, FVector2D 0 0] \<and>
    map Normal (take 4 (drop 0 V')) = [FVector 1 0 0, FVector 1 0 0, FVector 1 0 0, FVector 1 0 0] \<and>
    map Tangent (take 4 (drop 0 V')) = [FVector 0 1 0, FVector 0 1 0, FVector 0 1 0, FVector 0 1 0] \<and>
    map FRuntimeMeshVertexSimple.more (take 4 (drop 0 V')) =
      map FRuntimeMeshVertexSimple.more (take 4 (drop 0 (replicate 4 vertex0))) \<and>
    take 6 (drop 0 T') = map (\<lambda>k. word_of_nat (0 + k)) [0, 1, 2, 0, 2, 3] \<and>
    take 0 V' = take 0 (replicate 4 vertex0) \<and> drop (0 + 4) V' = drop (0 + 4) (replicate 4 vertex0) \<and>
    take 0 T' = take 0 (replicate 6 (0::int32)) \<and> drop (0 + 6) T' = drop (0 + 6) (replicate 6 (0::int32)))"
proof -
  have h: "tarray_wf (replicate 4 vertex0)" "tarray_wf (replicate 6 (0::int32))"
    by (simp_all add: tarray_wf_def)
  show ?thesis
    using BuildQuad_writes_quad [OF h, of 0 0 "FVector 1 1 0" "FVector 1 0 0" "FVector 1 0 1"
        "FVector 1 1 1" "FVector 1 0 0" "FVector 0 1 0"] h
    by simp
qed

theorem BuildQuad_fails_iff_out_of_range_witness:
  "tarray_wf (replicate 4 vertex0) \<and> tarray_wf (replicate 6 (0::int32)) \<and>
   isl (BuildQuad (replicate 4 vertex0) (replicate 6 0) 0 0 0 0 1 0 0 0)"
proof -
  have h: "tarray_wf (replicate 4 vertex0)" "tarray_wf (replicate 6 (0::int32))"
    by (simp_all add: tarray_wf_def)
  show ?thesis
    using BuildQuad_fails_iff_out_of_range [OF h, of 0 0 0 0 1 0 0 0] h
    by simp
qed

theorem BuildQuad_offsets_in_range_witness:
  "\<exists>V' T'. BuildQuad (replicate 4 vertex0) (replicate 6 0) 0 0 0 0 0 0 0 0 = Inr (V', T', 4, 6) \<and>
     tarray_wf (replicate 4 vertex0) \<and> tarray_wf (replicate 6 (0::int32)) \<and>
     sint (4::int32) = sint (0::int32) + 4 \<and> sint (4::int32) \<le> int (length V') \<and>
     sint (6::int32) = sint (0::int32) + 6 \<and> sint (6::int32) \<le> int (length T')"
proof -
  have h: "tarray_wf (replicate 4 vertex0)" "tarray_wf (replicate 6 (0::int32))"
    by (simp_all add: tarray_wf_def)
  obtain V' T' where run: "BuildQuad (replicate 4 vertex0) (replicate 6 0) 0 0 0 0 0 0 0 0 =
      Inr (V', T', 4, 6)"
    using BuildQuad_ok [of 0 "replicate 4 vertex0" 0 "replicate 6 (0::int32)" 0 0 0 0 0 0] by simp
  show ?thesis
    using BuildQuad_offsets_in_range [OF run h] run h by auto
qed

theorem BuildQuad_offset_overflow_witness:
  "2 ^ 31 - 4 < sint (2147483646 :: int32) \<and>
   (\<exists>i. BuildQuad (replicate 4 vertex0) (replicate 6 0) 0 0 0 0 2147483646 0 0 0 =
      Inl (ArrayIndexOutOfBounds i 4) \<and>
    i \<in> {2147483646, 2147483646 + 1, 2147483646 + 2, 2147483646 + 3} \<and> (sint i < 0 \<or> 4 \<le> sint i))"
  using BuildQuad_offset_overflow [of 2147483646 "replicate 4 vertex0" "replicate 6 0" 0 0 0 0 0 0 0]
  by simp

theorem BuildQuad_commute_witness:
  "(0 + 4 \<le> (4::nat) \<or> 4 + 4 \<le> (0::nat)) \<and> (0 + 6 \<le> (6::nat) \<or> 6 + 6 \<le> (0::nat)) \<and>
   0 + 4 \<le> length (replicate 8 vertex0) \<and> 4 + 4 \<le> length (replicate 8 vertex0) \<and>
   0 + 6 \<le> length (replicate 12 (0 :: int32)) \<and> 6 + 6 \<le> length (replicate 12 (0 :: int32)) \<and>
   tarray_wf (replicate 8 vertex0) \<and> tarray_wf (replicate 12 (0 :: int32)) \<and>
   (\<exists>V' T'.
    sbind (BuildQuad (replicate 8 vertex0) (replicate 12 0) 0 0 0 0 (word_of_nat 0) (word_of_nat 0) 0 0)
      (\<lambda>(V1, T1, _, _).
      sbind (BuildQuad V1 T1 (FVector 1 0 0) (FVector 1 0 0) (FVector 1 0 0) (FVector 1 0 0) (word_of_nat 4) (word_of_nat 6) (FVector 1 0 0) (FVector 1 0 0)) (\<lambda>(V2, T2, _, _).
        Inr (V2, T2))) = Inr (V', T') \<and>
    sbind (BuildQuad (replicate 8 vertex0) (replicate 12 0) (FVector 1 0 0) (FVector 1 0 0) (FVector 1 0 0) (FVector 1 0 0) (word_of_nat 4) (word_of_nat 6) (FVector 1 0 0) (FVector 1 0 0))
      (\<lambda>(V1, T1, _, _).
      sbind (BuildQuad V1 T1 0 0 0 0 (word_of_nat 0) (word_of_nat 0) 0 0) (\<lambda>(V2, T2, _, _).
        Inr (V2, T2))) = Inr (V', T'))"
proof -
  have h: "tarray_wf (replicate 8 vertex0)" "tarray_wf (replicate 12 (0 :: int32))"
    by (simp_all add: tarray_wf_def)
  show ?thesis
    using h BuildQuad_commute [of 0 4 0 6 "replicate 8 vertex0" "replicate 12 0" 0 0 0 0 0 0 "FVector 1 0 0" "FVector 1 0 0" "FVector 1 0 0" "FVector 1 0 0" "FVector 1 0 0" "FVector 1 0 0"]
    by (simp only: length_replicate) simp
qed

end
