(* ===== verification/Cuboid_Builder.thy ===== *)
theory Cuboid_Builder
  imports Quad_Builder
begin

text \<open>
  The cuboid builder: \<open>ATableActor::GenerateCube\<close>
  (\<open>src/Source/ZuruTest/TableActor.cpp\<close>, lines 95--153). It computes the
  eight corners \<open>p0 .. p7\<close> of the axis-aligned box of the given size centred
  at the given offset and calls \<open>BuildQuad\<close> once per face, threading the
  vertex and index offsets from 0 through the six calls. The abstract
  specification is the box mesh of the spec's face table: six faces, each with
  a fixed corner quadruple, normal and tangent. The refinement lemma states
  that the in-place builder writes exactly that mesh into the first 24 vertex
  and 36 index slots. Written as a chain of quads, the builder equals the
  reference definition \<open>GenerateCube_spec\<close> on every input, its two error
  branches included. The geometric and topological properties of the
  generated buffers are in \<open>Cuboid_Geometry\<close>.
\<close>

section \<open>The operation\<close>

text \<open>
  The source first assigns \<open>FPackedNormal::ZeroNormal\<close> to its local normal
  and tangent and then overwrites both before each call; only the values
  passed to \<open>BuildQuad\<close> are modelled. The returned offsets of the last call
  are dead.
\<close>

definition GenerateCube ::
  "'c vertex list \<Rightarrow> int32 list \<Rightarrow> fvector \<Rightarrow> fvector \<Rightarrow>
   mesh_error + ('c vertex list \<times> int32 list)" where
  "GenerateCube InVertices InTriangles InSize OffsetPos =
    (let OffsetX = X InSize / 2; OffsetY = Y InSize / 2; OffsetZ = Z InSize / 2;
         p0 = FVector (OffsetX + X OffsetPos) (OffsetY + Y OffsetPos) (- OffsetZ + Z OffsetPos);
         p1 = FVector (OffsetX + X OffsetPos) (- OffsetY + Y OffsetPos) (- OffsetZ + Z OffsetPos);
         p2 = FVector (OffsetX + X OffsetPos) (- OffsetY + Y OffsetPos) (OffsetZ + Z OffsetPos);
         p3 = FVector (OffsetX + X OffsetPos) (OffsetY + Y OffsetPos) (OffsetZ + Z OffsetPos);
         p4 = FVector (- OffsetX + X OffsetPos) (OffsetY + Y OffsetPos) (- OffsetZ + Z OffsetPos);
         p5 = FVector (- OffsetX + X OffsetPos) (- OffsetY + Y OffsetPos) (- OffsetZ + Z OffsetPos);
         p6 = FVector (- OffsetX + X OffsetPos) (- OffsetY + Y OffsetPos) (OffsetZ + Z OffsetPos);
         p7 = FVector (- OffsetX + X OffsetPos) (OffsetY + Y OffsetPos) (OffsetZ + Z OffsetPos);
         VertexOffset = 0; TriangleOffset = 0 in
     sbind (BuildQuad InVertices InTriangles p0 p1 p2 p3 VertexOffset TriangleOffset
              (FVector 1 0 0) (FVector 0 1 0)) (\<lambda>(V, T, VertexOffset, TriangleOffset).
     sbind (BuildQuad V T p5 p4 p7 p6 VertexOffset TriangleOffset
              (FVector (-1) 0 0) (FVector 0 (-1) 0)) (\<lambda>(V, T, VertexOffset, TriangleOffset).
     sbind (BuildQuad V T p1 p5 p6 p2 VertexOffset TriangleOffset
              (FVector 0 (-1) 0) (FVector 1 0 0)) (\<lambda>(V, T, VertexOffset, TriangleOffset).
     sbind (BuildQuad V T p4 p0 p3 p7 VertexOffset TriangleOffset
              (FVector 0 1 0) (FVector (-1) 0 0)) (\<lambda>(V, T, VertexOffset, TriangleOffset).
     sbind (BuildQuad V T p6 p7 p3 p2 VertexOffset TriangleOffset
              (FVector 0 0 1) (FVector 0 1 0)) (\<lambda>(V, T, VertexOffset, TriangleOffset).
     sbind (BuildQuad V T p1 p0 p4 p5 VertexOffset TriangleOffset
              (FVector 0 0 (-1)) (FVector 0 (-1) 0)) (\<lambda>(V, T, VertexOffset, TriangleOffset).
     Inr (V, T))))))))"

section \<open>The abstract box mesh\<close>

text \<open>
  The spec's description: corner \<open>i\<close> is the centre plus or minus the half
  extent along each axis, with the sign pattern of the fixed labelling
  (\<open>p0 = (+,+,-)\<close>, \<open>p1 = (+,-,-)\<close>, \<open>p2 = (+,-,+)\<close>, \<open>p3 = (+,+,+)\<close>,
  \<open>p4 = (-,+,-)\<close>, \<open>p5 = (-,-,-)\<close>, \<open>p6 = (-,-,+)\<close>, \<open>p7 = (-,+,+)\<close>); the
  faces, in the order they are built, with their corner quadruples, normals
  and tangents.
\<close>

datatype face = PosX | NegX | NegY | PosY | PosZ | NegZ

definition cube_faces :: "face list" where
  "cube_faces = [PosX, NegX, NegY, PosY, PosZ, NegZ]"

fun face_corners :: "face \<Rightarrow> nat \<times> nat \<times> nat \<times> nat" where
  "face_corners PosX = (0, 1, 2, 3)"
| "face_corners NegX = (5, 4, 7, 6)"
| "face_corners NegY = (1, 5, 6, 2)"
| "face_corners PosY = (4, 0, 3, 7)"
| "face_corners PosZ = (6, 7, 3, 2)"
| "face_corners NegZ = (1, 0, 4, 5)"

fun face_normal :: "face \<Rightarrow> fvector" where
  "face_normal PosX = FVector 1 0 0"
| "face_normal NegX = FVector (-1) 0 0"
| "face_normal NegY = FVector 0 (-1) 0"
| "face_normal PosY = FVector 0 1 0"
| "face_normal PosZ = FVector 0 0 1"
| "face_normal NegZ = FVector 0 0 (-1)"

fun face_tangent :: "face \<Rightarrow> fvector" where
  "face_tangent PosX = FVector 0 1 0"
| "face_tangent NegX = FVector 0 (-1) 0"
| "face_tangent NegY = FVector 1 0 0"
| "face_tangent PosY = FVector (-1) 0 0"
| "face_tangent PosZ = FVector 0 1 0"
| "face_tangent NegZ = FVector 0 (-1) 0"

text \<open>The sign pattern of corner \<open>i\<close>: \<open>True\<close> for the plus side.\<close>

definition corner_signs :: "nat \<Rightarrow> bool \<times> bool \<times> bool" where
  "corner_signs i =
     [(True, True, False), (True, False, False), (True, False, True), (True, True, True),
      (False, True, False), (False, False, False), (False, False, True), (False, True, True)] ! i"

definition pm :: "bool \<Rightarrow> real \<Rightarrow> real" where
  "pm b h = (if b then h else - h)"

definition cube_corner :: "fvector \<Rightarrow> fvector \<Rightarrow> nat \<Rightarrow> fvector" where
  "cube_corner s off i =
     (case corner_signs i of (sx, sy, sz) \<Rightarrow>
        FVector (pm sx (X s / 2) + X off) (pm sy (Y s / 2) + Y off) (pm sz (Z s / 2) + Z off))"

definition face_vertices :: "fvector \<Rightarrow> fvector \<Rightarrow> face \<Rightarrow> FRuntimeMeshVertexSimple list" where
  "face_vertices s off f =
     (case face_corners f of (i, j, k, l) \<Rightarrow>
        quad_vertices (cube_corner s off i) (cube_corner s off j) (cube_corner s off k)
          (cube_corner s off l) (face_normal f) (face_tangent f))"

definition cube_vertices :: "fvector \<Rightarrow> fvector \<Rightarrow> FRuntimeMeshVertexSimple list" where
  "cube_vertices s off = concat (map (face_vertices s off) cube_faces)"

definition cube_indices :: "int32 list" where
  "cube_indices = concat (map (\<lambda>j. quad_indices (word_of_nat (4 * j))) [0..<6])"

text \<open>The corner labels of a face as a list.\<close>

definition face_corner_list :: "face \<Rightarrow> nat list" where
  "face_corner_list f = (case face_corners f of (i, j, k, l) \<Rightarrow> [i, j, k, l])"

section \<open>The builder as a chain of quads\<close>

text \<open>
  \<open>GenerateCube\<close> is six \<open>BuildQuad\<close> calls that thread the buffers and
  the offsets. \<open>quad_chain\<close> is that sequence over any list of quads (four
  corners, normal, tangent); \<open>cube_quads\<close> lists the six quads of the box
  in the source's order.
\<close>

fun quad_chain ::
  "(fvector \<times> fvector \<times> fvector \<times> fvector \<times> fvector \<times> fvector) list \<Rightarrow>
   'c vertex list \<Rightarrow> int32 list \<Rightarrow> int32 \<Rightarrow> int32 \<Rightarrow> mesh_error + ('c vertex list \<times> int32 list)" where
  "quad_chain [] V T vo to = Inr (V, T)"
| "quad_chain ((a, b, c, d, n, t) # qs) V T vo to =
     sbind (BuildQuad V T a b c d vo to n t) (\<lambda>(V, T, vo, to). quad_chain qs V T vo to)"

definition cube_quads ::
  "fvector \<Rightarrow> fvector \<Rightarrow> (fvector \<times> fvector \<times> fvector \<times> fvector \<times> fvector \<times> fvector) list" where
  "cube_quads s off =
     map (\<lambda>f. case face_corners f of (i, j, k, l) \<Rightarrow>
       (cube_corner s off i, cube_corner s off j, cube_corner s off k, cube_corner s off l,
        face_normal f, face_tangent f)) cube_faces"

text \<open>
  The contract of \<open>GenerateCube\<close> as a reference definition, errors
  included. With room for one box it is the block write of the abstract box
  mesh. Otherwise the first face that does not fit is face
  \<open>min (|V| div 4) (|T| div 6)\<close>. That face's vertex writes come first, so
  the error names the vertex buffer when it runs out no later than the index
  buffer, and the index buffer otherwise. The failing slot is the buffer's
  length, the first slot past its end.
\<close>

definition cube_error :: "'a list \<Rightarrow> 'b list \<Rightarrow> mesh_error" where
  "cube_error V T =
     (if length V div 4 \<le> length T div 6
      then ArrayIndexOutOfBounds (word_of_nat (length V)) (length V)
      else ArrayIndexOutOfBounds (word_of_nat (length T)) (length T))"

definition GenerateCube_spec ::
  "'c vertex list \<Rightarrow> int32 list \<Rightarrow> fvector \<Rightarrow> fvector \<Rightarrow>
   mesh_error + ('c vertex list \<times> int32 list)" where
  "GenerateCube_spec V T s off =
     (if 24 \<le> length V \<and> 36 \<le> length T
      then Inr (overwrite vertex_fill V 0 (cube_vertices s off), overwrite store T 0 cube_indices)
      else Inl (cube_error V T))"

section \<open>Lemmas\<close>

lemma length_face_vertices [simp]: "length (face_vertices s off f) = 4"
  by (simp add: face_vertices_def split: prod.split)

lemma length_cube_vertices [simp]: "length (cube_vertices s off) = 24"
  by (simp add: cube_vertices_def cube_faces_def)

lemma length_cube_indices [simp]: "length cube_indices = 36"
  by (simp add: cube_indices_def upt_rec)

lemma pm_simps [simp]: "pm True h = h" "pm False h = - h"
  by (simp_all add: pm_def)

text \<open>The refinement lemma: on buffers with room for one box, the builder
  writes the abstract box mesh into the first 24 vertex and 36 index slots
  and leaves the rest alone.\<close>

lemma GenerateCube_eq:
  assumes "24 \<le> length V" "36 \<le> length T"
  shows "GenerateCube V T s off =
     Inr (overwrite vertex_fill V 0 (cube_vertices s off), overwrite store T 0 cube_indices)"
  using assms
  by (simp add: GenerateCube_def Let_def BuildQuad_ok overwrite_append
      cube_vertices_def cube_faces_def face_vertices_def cube_corner_def corner_signs_def
      cube_indices_def upt_rec)


text \<open>\<open>GenerateCube\<close> is the quad chain over the six faces, and a chain
  that runs out of room fails at the first face that does not fit.\<close>

lemma quad_chain_Cons_curried:
  "quad_chain ((a, b, c, d, n, t) # qs) V T =
     (\<lambda>vo to. sbind (BuildQuad V T a b c d vo to n t) (\<lambda>(V, T, vo, to). quad_chain qs V T vo to))"
  by (simp add: fun_eq_iff)

lemma GenerateCube_quad_chain: "GenerateCube V T s off = quad_chain (cube_quads s off) V T 0 0"
  by (simp add: quad_chain_Cons_curried GenerateCube_def Let_def cube_quads_def cube_faces_def
      cube_corner_def corner_signs_def)

lemma quad_chain_fail:
  assumes "vo \<le> length V" "to \<le> length T"
    and "vo + 4 * length qs \<le> 2 ^ 31" "to + 6 * length qs \<le> 2 ^ 31"
    and "\<not> (vo + 4 * length qs \<le> length V \<and> to + 6 * length qs \<le> length T)"
  shows "quad_chain qs V T (word_of_nat vo) (word_of_nat to) =
    Inl (if (length V - vo) div 4 \<le> (length T - to) div 6
         then ArrayIndexOutOfBounds (word_of_nat (length V)) (length V)
         else ArrayIndexOutOfBounds (word_of_nat (length T)) (length T))"
  using assms
proof (induction qs arbitrary: V T vo to)
  case Nil
  then show ?case by simp
next
  case (Cons q qs)
  obtain a b c d n t where q: "q = (a, b, c, d, n, t)" by (cases q) auto
  show ?case
  proof (cases "vo + 4 \<le> length V \<and> to + 6 \<le> length T")
    case True
    then obtain V' T' where r: "BuildQuad V T a b c d (word_of_nat vo) (word_of_nat to) n t =
        Inr (V', T', word_of_nat (vo + 4), word_of_nat (to + 6))"
      "length V' = length V" "length T' = length T"
      using BuildQuad_at_ok [of vo V to T a b c d n t] Cons.prems(3,4) by auto
    have "4 \<le> length V - vo" "6 \<le> length T - to" using True by arith+
    then have "(length V - vo) div 4 = Suc ((length V - (vo + 4)) div 4)"
      "(length T - to) div 6 = Suc ((length T - (to + 6)) div 6)"
      using le_div_geq [of 4 "length V - vo"] le_div_geq [of 6 "length T - to"] by simp_all
    moreover have "quad_chain qs V' T' (word_of_nat (vo + 4)) (word_of_nat (to + 6)) =
      Inl (if (length V' - (vo + 4)) div 4 \<le> (length T' - (to + 6)) div 6
           then ArrayIndexOutOfBounds (word_of_nat (length V')) (length V')
           else ArrayIndexOutOfBounds (word_of_nat (length T')) (length T'))"
      using Cons.prems True by (intro Cons.IH) (simp_all add: r(2,3) add.assoc)
    ultimately show ?thesis
      using r q by simp
  next
    case False
    show ?thesis
    proof (cases "vo + 4 \<le> length V")
      case True
      then have "length T < to + 6" "0 < (length V - vo) div 4" using False by simp_all
      then show ?thesis
        using BuildQuad_at_index_fail [of vo V to T a b c d n t] Cons.prems True q by simp
    next
      case vFalse: False
      then have "(length V - vo) div 4 = 0" by simp
      then show ?thesis
        using BuildQuad_at_vertex_fail [of vo V T a b c d "word_of_nat to" n t] Cons.prems vFalse q
        by simp
    qed
  qed
qed


lemma GenerateCube_fail:
  assumes "\<not> (24 \<le> length V \<and> 36 \<le> length T)"
  shows "GenerateCube V T s off = Inl (cube_error V T)"
proof -
  have "length (cube_quads s off) = 6" by (simp add: cube_quads_def cube_faces_def)
  then show ?thesis
    using quad_chain_fail [of 0 V 0 T "cube_quads s off"] assms
    by (simp add: GenerateCube_quad_chain cube_error_def)
qed

lemma face_vertices_nth:
  assumes "k < 4"
  shows "face_vertices s off f ! k =
    \<lparr>Position = cube_corner s off (face_corner_list f ! k), Normal = face_normal f,
     Tangent = face_tangent f, UV0 = quad_uvs ! k\<rparr>"
  using assms unfolding less_four_cases
  by (cases "face_corners f")
    (auto simp: face_vertices_def face_corner_list_def quad_vertices_def quad_uvs_def)

lemma cube_vertices_nth:
  "j < 6 \<Longrightarrow> k < 4 \<Longrightarrow> cube_vertices s off ! (4 * j + k) = face_vertices s off (cube_faces ! j) ! k"
  unfolding cube_vertices_def
  by (rule nth_concat_blocks) (simp_all add: cube_faces_def)

lemma cube_indices_nth:
  "j < 6 \<Longrightarrow> m < 6 \<Longrightarrow> cube_indices ! (6 * j + m) = word_of_nat (4 * j + quad_pattern ! m)"
  unfolding cube_indices_def
  by (subst nth_concat_blocks) (simp_all add: quad_indices_def)

text \<open>A successful run had room for the whole box: the last of the six calls
  starts at vertex offset 20 and index offset 30.\<close>

lemma GenerateCube_Inr:
  assumes "GenerateCube V T s off = Inr r"
  shows "24 \<le> length V \<and> 36 \<le> length T"
  using assms
  by (auto simp: GenerateCube_def Let_def elim!: sbind_BuildQuad_InrE)

lemma GenerateCube_result:
  assumes "GenerateCube V T s off = Inr (V', T')"
  shows "V' = overwrite vertex_fill V 0 (cube_vertices s off)"
    and "T' = overwrite store T 0 cube_indices"
    and "24 \<le> length V" and "36 \<le> length T"
  using GenerateCube_Inr [OF assms] GenerateCube_eq [of V T s off] assms by simp_all

text \<open>Slot \<open>4 j + k\<close> of the vertex buffer holds corner \<open>k\<close> of face \<open>j\<close>;
  slot \<open>6 j + m\<close> of the index buffer holds entry \<open>m\<close> of the quad
  pattern shifted to face \<open>j\<close>.\<close>

lemma GenerateCube_vertex:
  assumes "GenerateCube V T s off = Inr (V', T')" "j < 6" "k < 4"
  shows "V' ! (4 * j + k) = vertex_fill (face_vertices s off (cube_faces ! j) ! k) (V ! (4 * j + k))"
proof -
  note r = GenerateCube_result [OF assms(1)]
  have "4 * j + k < 24" using assms(2,3) by simp
  then show ?thesis
    using r assms(2,3) by (simp add: nth_overwrite cube_vertices_nth)
qed

lemma GenerateCube_index:
  assumes "GenerateCube V T s off = Inr (V', T')" "j < 6" "m < 6"
  shows "T' ! (6 * j + m) = word_of_nat (4 * j + quad_pattern ! m)"
proof -
  note r = GenerateCube_result [OF assms(1)]
  have "6 * j + m < 36" using assms(2,3) by simp
  then show ?thesis
    using r assms(2,3) by (simp add: nth_overwrite cube_indices_nth store_def)
qed

lemma unat_GenerateCube_index:
  assumes "GenerateCube V T s off = Inr (V', T')" "j < 6" "m < 6"
  shows "unat (T' ! (6 * j + m)) = 4 * j + quad_pattern ! m"
proof -
  have "quad_pattern ! m < 4" using assms(3) by (simp add: quad_pattern_def less_six_cases) auto
  then have "4 * j + quad_pattern ! m < 2 ^ 32" using assms(2) by simp
  moreover have "T' ! (6 * j + m) = word_of_nat (4 * j + quad_pattern ! m)"
    by (rule GenerateCube_index [OF assms])
  ultimately show ?thesis
    by (simp only: unat_of_nat) simp
qed

text \<open>The four fields of vertex slot \<open>4 j + k\<close>.\<close>

lemma GenerateCube_vertex_fields:
  assumes "GenerateCube V T s off = Inr (V', T')" "j < 6" "k < 4"
  shows "Position (V' ! (4 * j + k)) = cube_corner s off (face_corner_list (cube_faces ! j) ! k)"
    and "Normal (V' ! (4 * j + k)) = face_normal (cube_faces ! j)"
    and "Tangent (V' ! (4 * j + k)) = face_tangent (cube_faces ! j)"
    and "UV0 (V' ! (4 * j + k)) = quad_uvs ! k"
  using GenerateCube_vertex [OF assms] assms(3) by (simp_all add: face_vertices_nth)

text \<open>The abstract view of a successful run, whatever the buffers held.\<close>

lemma GenerateCube_abstract:
  assumes "GenerateCube V T s off = Inr (V', T')"
  shows "map FRuntimeMeshVertexSimple.truncate (take 24 V') = cube_vertices s off"
    and "take 36 T' = cube_indices"
    and "take 24 V' = map2 vertex_fill (cube_vertices s off) (take 24 V)"
    and "map FRuntimeMeshVertexSimple.more (take 24 V') = map FRuntimeMeshVertexSimple.more (take 24 V)"
    and "drop 24 V' = drop 24 V" and "drop 36 T' = drop 36 T"
proof -
  note r = GenerateCube_result [OF assms]
  show bv: "take 24 V' = map2 vertex_fill (cube_vertices s off) (take 24 V)"
    using block_overwrite [of 0 "cube_vertices s off" V vertex_fill] r by simp
  have "map FRuntimeMeshVertexSimple.truncate (map2 vertex_fill (cube_vertices s off) (take 24 V)) =
      map id (cube_vertices s off)"
    using r by (intro map_map2_left) simp_all
  then show "map FRuntimeMeshVertexSimple.truncate (take 24 V') = cube_vertices s off"
    by (simp add: bv)
  have "map FRuntimeMeshVertexSimple.more (map2 vertex_fill (cube_vertices s off) (take 24 V)) =
      map FRuntimeMeshVertexSimple.more (take 24 V)"
    using r by (intro map_map2_right) simp_all
  then show "map FRuntimeMeshVertexSimple.more (take 24 V') = map FRuntimeMeshVertexSimple.more (take 24 V)"
    by (simp add: bv)
  show "take 36 T' = cube_indices"
    using block_overwrite [of 0 cube_indices T store] r by (simp add: map2_store)
  show "drop 24 V' = drop 24 V" "drop 36 T' = drop 36 T"
    using r drop_overwrite [of 0 "cube_vertices s off" V vertex_fill]
      drop_overwrite [of 0 cube_indices T store] by simp_all
qed

lemma vertex_fill_more:
  "FRuntimeMeshVertexSimple.more x = FRuntimeMeshVertexSimple.more y \<Longrightarrow>
     vertex_fill v x = vertex_fill v y"
  by (cases x, cases y) (simp add: vertex_fill_def)

lemma map2_vertex_fill_more:
  assumes "map FRuntimeMeshVertexSimple.more xs = map FRuntimeMeshVertexSimple.more ys"
  shows "map2 vertex_fill vs xs = map2 vertex_fill vs ys"
proof (rule nth_equalityI)
  have l: "length xs = length ys"
    using arg_cong [OF assms, of length] by simp
  then show "length (map2 vertex_fill vs xs) = length (map2 vertex_fill vs ys)"
    by simp
  fix i
  assume "i < length (map2 vertex_fill vs xs)"
  then have i: "i < length vs" "i < length xs" by simp_all
  have m: "FRuntimeMeshVertexSimple.more (xs ! i) = FRuntimeMeshVertexSimple.more (ys ! i)"
    using arg_cong [OF assms, of "\<lambda>zs. zs ! i"] i l by simp
  show "map2 vertex_fill vs xs ! i = map2 vertex_fill vs ys ! i"
    using i l by (simp add: vertex_fill_more [OF m])
qed

lemma map_UV0_face_vertices: "map UV0 (face_vertices s off f) = quad_uvs"
  by (cases "face_corners f") (simp add: face_vertices_def quad_vertices_def quad_uvs_def)

section \<open>Properties of the cuboid builder\<close>

text \<open>
  C4. Refinement: on buffers with room for one box, \<open>GenerateCube\<close>
  succeeds, and the first 24 vertices, viewed as the four fields the builder
  writes, are exactly the abstract box mesh of the spec's table; the first 36
  indices are the abstract index list (the quad pattern of each face shifted
  to its four slots); the untouched vertex fields and all later slots keep
  their old contents.
\<close>

theorem GenerateCube_refines_cube_mesh:
  assumes "24 \<le> length V" "36 \<le> length T"
  shows "\<exists>V' T'. GenerateCube V T s off = Inr (V', T') \<and>
     map FRuntimeMeshVertexSimple.truncate (take 24 V') = cube_vertices s off \<and>
     take 36 T' = cube_indices \<and>
     map FRuntimeMeshVertexSimple.more (take 24 V') = map FRuntimeMeshVertexSimple.more (take 24 V) \<and>
     drop 24 V' = drop 24 V \<and> drop 36 T' = drop 36 T"
proof -
  obtain V' T' where r: "GenerateCube V T s off = Inr (V', T')"
    using GenerateCube_eq [OF assms, of s off] by blast
  show ?thesis
    using r GenerateCube_abstract (1,2,4-6) [OF r] by blast
qed

text \<open>
  C5. \<open>GenerateCube\<close> fails, with an out-of-range error, exactly when the
  vertex buffer has fewer than 24 elements or the index buffer fewer than 36;
  the range checks never fire on buffers sized by \<open>SetupMeshBuffers\<close>.
\<close>

theorem GenerateCube_fails_iff_short:
  "isl (GenerateCube V T s off) \<longleftrightarrow> length V < 24 \<or> length T < 36"
proof
  assume fails: "isl (GenerateCube V T s off)"
  show "length V < 24 \<or> length T < 36"
  proof (rule ccontr)
    assume "\<not> (length V < 24 \<or> length T < 36)"
    then have "24 \<le> length V" "36 \<le> length T" by simp_all
    with fails show False
      using GenerateCube_eq [of V T s off] by simp
  qed
next
  assume "length V < 24 \<or> length T < 36"
  then show "isl (GenerateCube V T s off)"
    by (cases "GenerateCube V T s off") (auto dest: GenerateCube_Inr)
qed

text \<open>
  C6. Flat shading: the four vertices of face \<open>j\<close> (slots \<open>4 j\<close> to
  \<open>4 j + 3\<close>) all carry the normal and the tangent of that face in the
  spec's table (\<open>+X\<close>: \<open>(1,0,0)\<close>/\<open>(0,1,0)\<close>, \<open>-X\<close>:
  \<open>(-1,0,0)\<close>/\<open>(0,-1,0)\<close>, \<open>-Y\<close>: \<open>(0,-1,0)\<close>/\<open>(1,0,0)\<close>, \<open>+Y\<close>:
  \<open>(0,1,0)\<close>/\<open>(-1,0,0)\<close>, \<open>+Z\<close>: \<open>(0,0,1)\<close>/\<open>(0,1,0)\<close>, \<open>-Z\<close>:
  \<open>(0,0,-1)\<close>/\<open>(0,-1,0)\<close>), faces in the order \<open>+X, -X, -Y, +Y, +Z, -Z\<close>.
\<close>

theorem GenerateCube_face_normals:
  assumes "GenerateCube V T s off = Inr (V', T')"
  shows "\<forall>j<6. \<forall>k<4. Normal (V' ! (4 * j + k)) = face_normal (cube_faces ! j) \<and>
                    Tangent (V' ! (4 * j + k)) = face_tangent (cube_faces ! j)"
  using GenerateCube_vertex [OF assms] by (simp add: face_vertices_nth)

text \<open>
  C7. Index structure: the six indices of face \<open>j\<close> are
  \<open>4j, 4j+1, 4j+2, 4j, 4j+2, 4j+3\<close>, the triangles \<open>(0,1,2)\<close> and
  \<open>(0,2,3)\<close> of that face's own four vertices, so no vertex is shared
  between faces; every index is below 24 and every one of the 24 vertex slots
  is used.
\<close>

theorem GenerateCube_indices:
  assumes "GenerateCube V T s off = Inr (V', T')"
  shows "(\<forall>j<6. [unat (T' ! (6 * j)), unat (T' ! (6 * j + 1)), unat (T' ! (6 * j + 2)),
              unat (T' ! (6 * j + 3)), unat (T' ! (6 * j + 4)), unat (T' ! (6 * j + 5))] =
             [4 * j, 4 * j + 1, 4 * j + 2, 4 * j, 4 * j + 2, 4 * j + 3]) \<and>
         (\<forall>m<36. unat (T' ! m) < 24) \<and>
         (\<forall>i<24. \<exists>m<36. unat (T' ! m) = i)"
proof (intro conjI allI impI)
  fix j :: nat
  assume j: "j < 6"
  show "[unat (T' ! (6 * j)), unat (T' ! (6 * j + 1)), unat (T' ! (6 * j + 2)),
      unat (T' ! (6 * j + 3)), unat (T' ! (6 * j + 4)), unat (T' ! (6 * j + 5))] =
      [4 * j, 4 * j + 1, 4 * j + 2, 4 * j, 4 * j + 2, 4 * j + 3]"
    using unat_GenerateCube_index [OF assms j, of 0] unat_GenerateCube_index [OF assms j, of 1]
      unat_GenerateCube_index [OF assms j, of 2] unat_GenerateCube_index [OF assms j, of 3]
      unat_GenerateCube_index [OF assms j, of 4] unat_GenerateCube_index [OF assms j, of 5]
    by (simp add: quad_pattern_def)
next
  fix m :: nat
  assume "m < 36"
  then have "m < 6 * 6" by simp
  then obtain j q where m: "m = 6 * j + q" "j < 6" "q < 6"
    by (rule block_decomp)
  then show "unat (T' ! m) < 24"
    using unat_GenerateCube_index [OF assms m(2,3)]
    by (simp add: quad_pattern_def less_six_cases) (elim disjE; simp)
next
  fix i :: nat
  assume "i < 24"
  then have "i < 6 * 4" by simp
  then obtain j k where i: "i = 4 * j + k" "j < 6" "k < 4"
    by (rule block_decomp)
  define q :: nat where "q = [0, 1, 2, 5] ! k"
  have "q < 6" "quad_pattern ! q = k"
    using i(3) unfolding q_def less_four_cases by (auto simp: quad_pattern_def)
  then show "\<exists>m<36. unat (T' ! m) = i"
    using unat_GenerateCube_index [OF assms i(2), of q] i(1,2)
    by (intro exI [of _ "6 * j + q"]) simp
qed


text \<open>
  C10. UV mapping: whatever the size and offset, the 24 vertices carry the
  fixed unit square \<open>(0,1), (1,1), (1,0), (0,0)\<close> once per face.
\<close>

theorem GenerateCube_uvs:
  assumes "GenerateCube V T s off = Inr (V', T')"
  shows "map UV0 (take 24 V') = concat (replicate 6 quad_uvs)"
proof -
  have l: "24 \<le> length V" by (rule GenerateCube_result (3) [OF assms])
  have "map UV0 (map2 vertex_fill (cube_vertices s off) (take 24 V)) = map UV0 (cube_vertices s off)"
    using l by (intro map_map2_left) simp_all
  also have "\<dots> = concat (replicate 6 quad_uvs)"
    by (simp add: cube_vertices_def map_concat map_UV0_face_vertices cube_faces_def numeral_eq_Suc)
  finally show ?thesis
    by (simp add: GenerateCube_abstract (3) [OF assms])
qed

text \<open>
  C13. The spec's example: for size \<open>(100, 100, 50)\<close> at the origin the
  first face (+X) has the positions \<open>(50,50,-25), (50,-50,-25), (50,-50,25),
  (50,50,25)\<close>, in the order \<open>p0, p1, p2, p3\<close>.
\<close>

theorem GenerateCube_example_positions:
  assumes "GenerateCube V T (FVector 100 100 50) (FVector 0 0 0) = Inr (V', T')"
  shows "map Position (take 4 V') =
    [FVector 50 50 (-25), FVector 50 (-50) (-25), FVector 50 (-50) 25, FVector 50 50 25]"
proof -
  have l: "4 \<le> length V'"
    using GenerateCube_result [OF assms] by simp
  have p: "Position (V' ! k) = cube_corner (FVector 100 100 50) (FVector 0 0 0) (face_corner_list PosX ! k)"
    if "k < 4" for k
    using GenerateCube_vertex_fields (1) [OF assms _ that, where j = 0] by (simp add: cube_faces_def)
  show ?thesis
    by (simp add: take_eq_map_nth [OF l] upt_rec p face_corner_list_def cube_corner_def corner_signs_def)
qed

text \<open>
  C14. Reproducibility: two runs with the same size and offset into buffers
  that agree on everything the builder does not write (the vertices' other
  fields and the slots past the box) give identical buffers, whatever the
  written slots held before.
\<close>

theorem GenerateCube_reproducible:
  assumes "GenerateCube V1 T1 s off = Inr (V1', T1')" "GenerateCube V2 T2 s off = Inr (V2', T2')"
    and "map FRuntimeMeshVertexSimple.more (take 24 V1) = map FRuntimeMeshVertexSimple.more (take 24 V2)"
    and "drop 24 V1 = drop 24 V2" "drop 36 T1 = drop 36 T2"
  shows "V1' = V2' \<and> T1' = T2'"
proof -
  have "take 24 V1' = take 24 V2'"
    using GenerateCube_abstract (3) [OF assms(1)] GenerateCube_abstract (3) [OF assms(2)]
      map2_vertex_fill_more [OF assms(3)] by simp
  moreover have "take 36 T1' = take 36 T2'"
    using GenerateCube_abstract (2) [OF assms(1)] GenerateCube_abstract (2) [OF assms(2)] by simp
  ultimately show ?thesis
    using GenerateCube_abstract (5,6) [OF assms(1)] GenerateCube_abstract (5,6) [OF assms(2)] assms(4,5)
    by (metis append_take_drop_id)
qed

text \<open>
  C28. Equivalence with the reference definition, errors included: on every
  input \<open>GenerateCube\<close> equals \<open>GenerateCube_spec\<close>. A short vertex buffer
  fails at its length when it runs out no later than the index buffer, and a
  short index buffer fails at its length otherwise; with room for one box
  the result is the block write of the abstract mesh.
\<close>

theorem GenerateCube_equiv_spec:
  "GenerateCube V T s off = GenerateCube_spec V T s off"
  using GenerateCube_eq [of V T s off] GenerateCube_fail [of V T s off]
  by (simp add: GenerateCube_spec_def)

section \<open>Witnesses\<close>

text \<open>The example input: buffers of one box's size filled with zero
  vertices and indices, a box of size \<open>(2, 4, 6)\<close> centred at the origin.\<close>

lemma example_run:
  "GenerateCube (replicate 24 vertex0) (replicate 36 0) (FVector 2 4 6) 0 =
     Inr (overwrite vertex_fill (replicate 24 vertex0) 0 (cube_vertices (FVector 2 4 6) 0),
          overwrite store (replicate 36 0) 0 cube_indices)"
  by (simp add: GenerateCube_eq)

text \<open>Both error branches: a vertex buffer four slots short fails at slot 20,
  an index buffer six slots short fails at slot 30.\<close>

theorem GenerateCube_equiv_spec_witness:
  "GenerateCube (replicate 20 vertex0) (replicate 36 0) (FVector 2 4 6) 0 =
     Inl (ArrayIndexOutOfBounds 20 20) \<and>
   GenerateCube (replicate 24 vertex0) (replicate 30 0) (FVector 2 4 6) 0 =
     Inl (ArrayIndexOutOfBounds 30 30)"
  using GenerateCube_equiv_spec [of "replicate 20 vertex0" "replicate 36 0" "FVector 2 4 6" 0]
    GenerateCube_equiv_spec [of "replicate 24 vertex0" "replicate 30 0" "FVector 2 4 6" 0]
  by (simp add: GenerateCube_spec_def cube_error_def)

theorem GenerateCube_refines_cube_mesh_witness:
  "24 \<le> length (replicate 24 vertex0) \<and> 36 \<le> length (replicate 36 (0::int32)) \<and>
   (\<exists>V' T'. GenerateCube (replicate 24 vertex0) (replicate 36 0) (FVector 2 4 6) 0 = Inr (V', T') \<and>
     map FRuntimeMeshVertexSimple.truncate (take 24 V') = cube_vertices (FVector 2 4 6) 0 \<and>
     take 36 T' = cube_indices \<and>
     map FRuntimeMeshVertexSimple.more (take 24 V') =
       map FRuntimeMeshVertexSimple.more (take 24 (replicate 24 vertex0)) \<and>
     drop 24 V' = drop 24 (replicate 24 vertex0) \<and> drop 36 T' = drop 36 (replicate 36 (0::int32)))"
  using GenerateCube_refines_cube_mesh [of "replicate 24 vertex0" "replicate 36 (0::int32)"
      "FVector 2 4 6" 0]
  by simp

theorem GenerateCube_fails_iff_short_witness:
  "isl (GenerateCube (replicate 23 vertex0) (replicate 36 (0::int32)) (FVector 2 4 6) 0)"
  using GenerateCube_fails_iff_short [of "replicate 23 vertex0" "replicate 36 (0::int32)"
      "FVector 2 4 6" 0]
  by simp

theorem GenerateCube_face_normals_witness:
  "\<exists>V' T'. GenerateCube (replicate 24 vertex0) (replicate 36 0) (FVector 2 4 6) 0 = Inr (V', T') \<and>
    (\<forall>j<6. \<forall>k<4. Normal (V' ! (4 * j + k)) = face_normal (cube_faces ! j) \<and>
                  Tangent (V' ! (4 * j + k)) = face_tangent (cube_faces ! j))"
  using example_run GenerateCube_face_normals [OF example_run] by blast

theorem GenerateCube_indices_witness:
  "\<exists>V' T'. GenerateCube (replicate 24 vertex0) (replicate 36 0) (FVector 2 4 6) 0 = Inr (V', T') \<and>
    (\<forall>j<6. [unat (T' ! (6 * j)), unat (T' ! (6 * j + 1)), unat (T' ! (6 * j + 2)),
             unat (T' ! (6 * j + 3)), unat (T' ! (6 * j + 4)), unat (T' ! (6 * j + 5))] =
            [4 * j, 4 * j + 1, 4 * j + 2, 4 * j, 4 * j + 2, 4 * j + 3]) \<and>
    (\<forall>m<36. unat (T' ! m) < 24) \<and> (\<forall>i<24. \<exists>m<36. unat (T' ! m) = i)"
  using example_run GenerateCube_indices [OF example_run] by blast


theorem GenerateCube_uvs_witness:
  "\<exists>V' T'. GenerateCube (replicate 24 vertex0) (replicate 36 0) (FVector 2 4 6) 0 = Inr (V', T') \<and>
    map UV0 (take 24 V') = concat (replicate 6 quad_uvs)"
  using example_run GenerateCube_uvs [OF example_run] by blast

theorem GenerateCube_example_positions_witness:
  "\<exists>V' T'. GenerateCube (replicate 24 vertex0) (replicate 36 0) (FVector 100 100 50) (FVector 0 0 0) =
      Inr (V', T') \<and>
    map Position (take 4 V') =
      [FVector 50 50 (-25), FVector 50 (-50) (-25), FVector 50 (-50) 25, FVector 50 50 25]"
proof -
  have r: "GenerateCube (replicate 24 vertex0) (replicate 36 0) (FVector 100 100 50) (FVector 0 0 0) =
      Inr (overwrite vertex_fill (replicate 24 vertex0) 0 (cube_vertices (FVector 100 100 50) (FVector 0 0 0)),
           overwrite store (replicate 36 0) 0 cube_indices)"
    by (simp add: GenerateCube_eq)
  show ?thesis
    by (intro exI conjI, rule r, rule GenerateCube_example_positions [OF r])
qed

theorem GenerateCube_reproducible_witness:
  "\<exists>V' T'. GenerateCube (replicate 24 vertex0) (replicate 36 0) (FVector 2 4 6) 0 = Inr (V', T') \<and>
    GenerateCube (replicate 24 vertex0) (replicate 36 0) (FVector 2 4 6) 0 = Inr (V', T') \<and>
    map FRuntimeMeshVertexSimple.more (take 24 (replicate 24 vertex0)) =
      map FRuntimeMeshVertexSimple.more (take 24 (replicate 24 vertex0)) \<and>
    drop 24 (replicate 24 vertex0) = drop 24 (replicate 24 vertex0) \<and>
    drop 36 (replicate 36 (0::int32)) = drop 36 (replicate 36 0) \<and> V' = V' \<and> T' = T'"
  using example_run GenerateCube_reproducible [OF example_run example_run] by blast

end
