(* ===== verification/Cuboid_Geometry.thy ===== *)
theory Cuboid_Geometry
  imports Cuboid_Builder
begin

text \<open>
  Geometry and topology of the box mesh \<open>GenerateCube\<close> writes
  (\<open>src/Source/ZuruTest/TableActor.cpp\<close>, lines 95--153): the triangles
  as a renderer reads them through the index buffer, their winding about the
  face normals, the face planes, the closedness of the
  surface (its directed edges, as a multiset, are closed under reversal),
  containment in the box, the box recovered from the points
  (\<open>points_bounds\<close>), and the winding on degenerate sizes.
\<close>

section \<open>Vocabulary\<close>

text \<open>The half extent of the box along an axis direction.\<close>

definition half_extent :: "fvector \<Rightarrow> fvector \<Rightarrow> real" where
  "half_extent s n = (\<bar>X n\<bar> * X s + \<bar>Y n\<bar> * Y s + \<bar>Z n\<bar> * Z s) / 2"

text \<open>The position of the vertex that index slot \<open>m\<close> refers to, as a
  renderer reads it, and the directed edges of the first \<open>n\<close> triangles.\<close>

definition tri_corner :: "'c vertex list \<Rightarrow> int32 list \<Rightarrow> nat \<Rightarrow> fvector" where
  "tri_corner V T m = Position (V ! unat (T ! m))"

text \<open>The winding of triangle \<open>t\<close> about the normal of its first vertex:
  \<open>((c1 - c0) \<times> (c2 - c0)) \<cdot> n\<close> with the engine's \<open>CrossProduct\<close>.\<close>

definition tri_winding :: "'c vertex list \<Rightarrow> int32 list \<Rightarrow> nat \<Rightarrow> real" where
  "tri_winding V T t =
     DotProduct (CrossProduct (tri_corner V T (3 * t + 1) - tri_corner V T (3 * t))
                              (tri_corner V T (3 * t + 2) - tri_corner V T (3 * t)))
                (Normal (V ! unat (T ! (3 * t))))"

definition mesh_edges :: "'c vertex list \<Rightarrow> int32 list \<Rightarrow> nat \<Rightarrow> (fvector \<times> fvector) list" where
  "mesh_edges V T n =
     concat (map (\<lambda>t. [(tri_corner V T (3 * t), tri_corner V T (3 * t + 1)),
                       (tri_corner V T (3 * t + 1), tri_corner V T (3 * t + 2)),
                       (tri_corner V T (3 * t + 2), tri_corner V T (3 * t))]) [0..<n])"

text \<open>The corner label index slot \<open>m\<close> of the abstract mesh refers to, and
  the directed edges of the abstract mesh's twelve triangles as label pairs.\<close>

definition slot_label :: "nat \<Rightarrow> nat" where
  "slot_label m = face_corner_list (cube_faces ! (m div 6)) ! (quad_pattern ! (m mod 6))"

definition label_edges :: "(nat \<times> nat) list" where
  "label_edges =
     concat (map (\<lambda>t. [(slot_label (3 * t), slot_label (3 * t + 1)),
                       (slot_label (3 * t + 1), slot_label (3 * t + 2)),
                       (slot_label (3 * t + 2), slot_label (3 * t))]) [0..<12])"

text \<open>The area of a face: the product of the two extents across its normal.\<close>

fun face_area :: "fvector \<Rightarrow> face \<Rightarrow> real" where
  "face_area s PosX = Y s * Z s"
| "face_area s NegX = Y s * Z s"
| "face_area s NegY = X s * Z s"
| "face_area s PosY = X s * Z s"
| "face_area s PosZ = X s * Y s"
| "face_area s NegZ = X s * Y s"

text \<open>A vertex moved by \<open>off\<close>: its position shifted, every other field
  kept.\<close>

definition translate_vertex :: "fvector \<Rightarrow> 'c vertex \<Rightarrow> 'c vertex" where
  "translate_vertex off v = v\<lparr>Position := Position v + off\<rparr>"

section \<open>Lemmas\<close>

text \<open>The vertex index slot \<open>6 j + q\<close> refers to: corner
  \<open>quad_pattern ! q\<close> of face \<open>j\<close>, with that face's normal.\<close>

lemma GenerateCube_slot:
  assumes "GenerateCube V T s off = Inr (V', T')" "j < 6" "q < 6"
  shows "tri_corner V' T' (6 * j + q) =
           cube_corner s off (face_corner_list (cube_faces ! j) ! (quad_pattern ! q))"
    and "Normal (V' ! unat (T' ! (6 * j + q))) = face_normal (cube_faces ! j)"
proof -
  have p: "quad_pattern ! q < 4"
    using assms(3) by (simp add: quad_pattern_def less_six_cases) auto
  have u: "unat (T' ! (6 * j + q)) = 4 * j + quad_pattern ! q"
    by (rule unat_GenerateCube_index [OF assms])
  show "tri_corner V' T' (6 * j + q) =
           cube_corner s off (face_corner_list (cube_faces ! j) ! (quad_pattern ! q))"
    using GenerateCube_vertex_fields (1) [OF assms(1,2) p] u by (simp add: tri_corner_def)
  show "Normal (V' ! unat (T' ! (6 * j + q))) = face_normal (cube_faces ! j)"
    using GenerateCube_vertex_fields (2) [OF assms(1,2) p] u by simp
qed

lemma GenerateCube_tri_corner_label:
  assumes "GenerateCube V T s off = Inr (V', T')" "m < 36"
  shows "tri_corner V' T' m = cube_corner s off (slot_label m)"
proof -
  have "m < 6 * 6" using assms(2) by simp
  then obtain j q where m: "m = 6 * j + q" "j < 6" "q < 6"
    by (rule block_decomp)
  then have "m div 6 = j" "m mod 6 = q" by simp_all
  then show ?thesis
    using GenerateCube_slot (1) [OF assms(1) m(2,3)] m(1) by (simp add: slot_label_def)
qed

text \<open>Geometry of one face of the abstract box: both triangles of the quad
  turn by the negated face area about the face normal; every corner lies in
  the face's plane at half the box's extent from the centre; the corner
  positions stay within the box.\<close>

lemma face_winding:
  assumes "h < 2"
  shows "DotProduct
     (CrossProduct
        (cube_corner s off (face_corner_list f ! (quad_pattern ! (3 * h + 1))) -
         cube_corner s off (face_corner_list f ! (quad_pattern ! (3 * h))))
        (cube_corner s off (face_corner_list f ! (quad_pattern ! (3 * h + 2))) -
         cube_corner s off (face_corner_list f ! (quad_pattern ! (3 * h)))))
     (face_normal f) = - face_area s f"
  using assms unfolding less_two_cases
  by (cases f) (auto simp: face_corner_list_def quad_pattern_def cube_corner_def
      corner_signs_def algebra_simps)

lemma face_plane:
  assumes "k < 4"
  shows "DotProduct (cube_corner s off (face_corner_list f ! k) - off) (face_normal f) =
    half_extent s (face_normal f)"
  using assms unfolding less_four_cases
  by (cases f) (auto simp: face_corner_list_def cube_corner_def corner_signs_def
      half_extent_def DotProduct_def minus_fvector_def)

lemma face_area_pos:
  "0 < X s \<Longrightarrow> 0 < Y s \<Longrightarrow> 0 < Z s \<Longrightarrow> 0 < face_area s f"
  by (cases f) simp_all

lemma cube_corner_inside:
  assumes "0 \<le> X s" "0 \<le> Y s" "0 \<le> Z s"
  shows "IsInsideOrOn (FBox (off - fvector_div s 2) (off + fvector_div s 2)) (cube_corner s off i)"
proof -
  obtain sx sy sz where sg: "corner_signs i = (sx, sy, sz)"
    by (cases "corner_signs i") auto
  show ?thesis
    using assms
    by (cases sx; cases sy; cases sz) (simp_all add: IsInsideOrOn_def FBox_def cube_corner_def sg
        fvector_div_def plus_fvector_def minus_fvector_def)
qed

lemma cube_vertices_inside:
  assumes "0 \<le> X s" "0 \<le> Y s" "0 \<le> Z s" "i < 24"
  shows "IsInsideOrOn (FBox (off - fvector_div s 2) (off + fvector_div s 2)) (Position (cube_vertices s off ! i))"
proof -
  have "i < 6 * 4" using assms(4) by simp
  then obtain j k where i: "i = 4 * j + k" "j < 6" "k < 4"
    by (rule block_decomp)
  show ?thesis
    using cube_corner_inside [OF assms(1-3)] i by (simp add: cube_vertices_nth face_vertices_nth)
qed

lemma cube_vertices_first_corners:
  "Position (cube_vertices s off ! 0) = cube_corner s off 0"
  "Position (cube_vertices s off ! 3) = cube_corner s off 3"
  using cube_vertices_nth [of 0 0 s off] cube_vertices_nth [of 0 3 s off]
  by (simp_all add: face_vertices_nth face_corner_list_def cube_faces_def)

lemma label_edges_reversal_closed: "mset (map prod.swap label_edges) = mset label_edges"
  by code_simp

text \<open>The corners \<open>p5 = (-,-,-)\<close> and \<open>p3 = (+,+,+)\<close> of the box are
  vertices 4 and 3 of the mesh, so the bounding box of the points is the box.\<close>

lemma cube_vertices_extreme_corners:
  "Position (cube_vertices s off ! 4) = off - fvector_div s 2"
  "Position (cube_vertices s off ! 3) = off + fvector_div s 2"
  using cube_vertices_nth [of 1 0 s off] cube_vertices_nth [of 0 3 s off]
  by (simp_all add: face_vertices_nth face_corner_list_def cube_faces_def cube_corner_def
      corner_signs_def fvector_div_def minus_fvector_def plus_fvector_def)

lemma cube_points_bounds:
  assumes "0 \<le> X s" "0 \<le> Y s" "0 \<le> Z s"
  shows "points_bounds (map Position (cube_vertices s off)) = FBox (off - fvector_div s 2) (off + fvector_div s 2)"
proof (rule points_bounds_eqI)
  show "\<forall>p\<in>set (map Position (cube_vertices s off)). IsInsideOrOn (FBox (off - fvector_div s 2) (off + fvector_div s 2)) p"
    using cube_vertices_inside [OF assms] by (auto simp: in_set_conv_nth)
  show "off - fvector_div s 2 \<in> set (map Position (cube_vertices s off))"
    "off + fvector_div s 2 \<in> set (map Position (cube_vertices s off))"
    using nth_mem [of 4 "map Position (cube_vertices s off)"] nth_mem [of 3 "map Position (cube_vertices s off)"]
    by (simp_all add: cube_vertices_extreme_corners)
qed

text \<open>The winding of each of the twelve triangles the builder writes is
  minus the area of its face, whatever the signs of the size's components.\<close>

lemma GenerateCube_tri_winding:
  assumes "GenerateCube V T s off = Inr (V', T')" "t < 12"
  shows "tri_winding V' T' t = - face_area s (cube_faces ! (t div 2))"
proof -
  have "t < 6 * 2" using assms(2) by simp
  then obtain j h where t: "t = 2 * j + h" "j < 6" "h < 2"
    by (rule block_decomp)
  have q: "3 * h < 6" "3 * h + 1 < 6" "3 * h + 2 < 6" using t(3) by simp_all
  let ?f = "cube_faces ! j"
  have c0: "tri_corner V' T' (3 * t) = cube_corner s off (face_corner_list ?f ! (quad_pattern ! (3 * h)))"
    using GenerateCube_slot (1) [OF assms(1) t(2) q(1)] t(1) by (simp add: add_mult_distrib2)
  have c1: "tri_corner V' T' (3 * t + 1) =
      cube_corner s off (face_corner_list ?f ! (quad_pattern ! (3 * h + 1)))"
    using GenerateCube_slot (1) [OF assms(1) t(2) q(2)] t(1) by (simp add: add_mult_distrib2)
  have c2: "tri_corner V' T' (3 * t + 2) =
      cube_corner s off (face_corner_list ?f ! (quad_pattern ! (3 * h + 2)))"
    using GenerateCube_slot (1) [OF assms(1) t(2) q(3)] t(1) by (simp add: add_mult_distrib2)
  have n: "Normal (V' ! unat (T' ! (3 * t))) = face_normal ?f"
    using GenerateCube_slot (2) [OF assms(1) t(2) q(1)] t(1) by (simp add: add_mult_distrib2)
  have "t div 2 = j" using t by simp
  then show ?thesis
    unfolding tri_winding_def c0 c1 c2 n face_winding [OF t(3)] by simp
qed

text \<open>The box mesh at an offset is the box mesh at the origin moved by
  the offset.\<close>

lemma cube_corner_translate: "cube_corner s off i = cube_corner s 0 i + off"
  by (simp add: cube_corner_def plus_fvector_def zero_fvector_def split: prod.split)

lemma cube_vertices_translate:
  "cube_vertices s off = map (translate_vertex off) (cube_vertices s 0)"
  by (simp add: cube_vertices_def cube_faces_def face_vertices_def quad_vertices_def
      translate_vertex_def quad_uvs_def cube_corner_translate [of s off] split: prod.split)

lemma vertex_fill_translate:
  "vertex_fill (translate_vertex off v) w = translate_vertex off (vertex_fill v w)"
  by (simp add: vertex_fill_def translate_vertex_def)

section \<open>Properties of the box mesh\<close>

text \<open>
  C8. Winding: on a box of positive size, for each of the twelve triangles
  \<open>(c0, c1, c2)\<close> the value \<open>((c1 - c0) \<times> (c2 - c0)) \<cdot> n\<close> with the
  engine's \<open>CrossProduct\<close> and the triangle's normal \<open>n\<close> is minus the area
  of its face, hence negative: all twelve triangles turn the same way about
  their outward normals.
\<close>

theorem GenerateCube_winding:
  assumes "GenerateCube V T s off = Inr (V', T')" "0 < X s" "0 < Y s" "0 < Z s"
  shows "\<forall>t<12.
     DotProduct (CrossProduct (tri_corner V' T' (3 * t + 1) - tri_corner V' T' (3 * t))
                              (tri_corner V' T' (3 * t + 2) - tri_corner V' T' (3 * t)))
                (Normal (V' ! unat (T' ! (3 * t)))) = - face_area s (cube_faces ! (t div 2)) \<and>
     DotProduct (CrossProduct (tri_corner V' T' (3 * t + 1) - tri_corner V' T' (3 * t))
                              (tri_corner V' T' (3 * t + 2) - tri_corner V' T' (3 * t)))
                (Normal (V' ! unat (T' ! (3 * t)))) < 0"
  using GenerateCube_tri_winding [OF assms(1)] face_area_pos [OF assms(2-4)]
  unfolding tri_winding_def by simp

text \<open>
  C9. Face planes: every vertex of a face lies in the plane of that face,
  at distance half the box's extent along the face's normal from the
  box's centre \<open>off\<close>.
\<close>

theorem GenerateCube_face_planes:
  assumes "GenerateCube V T s off = Inr (V', T')"
  shows "\<forall>j<6. \<forall>k<4. DotProduct (Position (V' ! (4 * j + k)) - off) (Normal (V' ! (4 * j + k))) =
                       half_extent s (Normal (V' ! (4 * j + k)))"
  using GenerateCube_vertex_fields (1,2) [OF assms] face_plane by simp

text \<open>
  C11. Closed surface: the multiset of the directed edges of the twelve
  triangles, read as pairs of positions, is closed under reversal, so every
  edge of the box is shared by exactly as many triangles running it one way
  as the other way (a closed, consistently oriented surface).
\<close>

theorem GenerateCube_closed_surface:
  assumes "GenerateCube V T s off = Inr (V', T')"
  shows "mset (map prod.swap (mesh_edges V' T' 12)) = mset (mesh_edges V' T' 12)"
proof -
  have "mesh_edges V' T' 12 = map (map_prod (cube_corner s off) (cube_corner s off)) label_edges"
    unfolding mesh_edges_def label_edges_def map_concat map_map
    by (intro arg_cong [where f = concat] map_cong)
       (auto simp: GenerateCube_tri_corner_label [OF assms])
  then show ?thesis
    by (simp only: mset_swap_closed_map [OF label_edges_reversal_closed])
qed

text \<open>
  C12. Containment: on a box of non-negative size every vertex position lies
  in the closed axis-aligned box of that size centred at the offset.
\<close>

theorem GenerateCube_inside_box:
  assumes "GenerateCube V T s off = Inr (V', T')" "0 \<le> X s" "0 \<le> Y s" "0 \<le> Z s"
  shows "\<forall>k<24. IsInsideOrOn (FBox (off - fvector_div s 2) (off + fvector_div s 2)) (Position (V' ! k))"
proof (intro allI impI)
  fix k :: nat
  assume "k < 24"
  then have "k < 6 * 4" by simp
  then obtain j i where k: "k = 4 * j + i" "j < 6" "i < 4"
    by (rule block_decomp)
  show "IsInsideOrOn (FBox (off - fvector_div s 2) (off + fvector_div s 2)) (Position (V' ! k))"
    using GenerateCube_vertex_fields (1) [OF assms(1) k(2,3)] cube_corner_inside [OF assms(2-4)] k(1)
    by simp
qed

text \<open>
  C23. Round trip size and offset to mesh and back: for non-negative sizes the
  smallest box containing the 24 positions \<open>GenerateCube\<close> writes is the
  box of the given size centred at the given offset, so the size and the
  offset are recovered from the mesh.
\<close>

theorem GenerateCube_points_bounds:
  assumes "GenerateCube V T s off = Inr (V', T')" "0 \<le> X s" "0 \<le> Y s" "0 \<le> Z s"
  shows "points_bounds (map Position (take 24 V')) = FBox (off - fvector_div s 2) (off + fvector_div s 2)"
proof -
  have "map Position (take 24 V') = map Position (cube_vertices s off)"
    using arg_cong [OF GenerateCube_abstract (1) [OF assms(1)], of "map Position"]
    by (simp add: comp_def)
  then show ?thesis using cube_points_bounds [OF assms(2-4)] by simp
qed

text \<open>
  C29. Degenerate sizes: the builder puts no guard on the size. On buffers
  with room for one box it succeeds for every size, negative and zero
  components included, and every triangle winds by minus the area of its
  face. A negative extent along one axis makes the four faces spanning that
  axis wind the other way (inverted faces); a zero extent makes them
  zero-area.
\<close>

theorem GenerateCube_degenerate_sizes:
  assumes "24 \<le> length V" "36 \<le> length T"
  shows "\<exists>V' T'. GenerateCube V T s off = Inr (V', T') \<and>
    (\<forall>t<12. tri_winding V' T' t = - face_area s (cube_faces ! (t div 2)))"
proof -
  obtain V' T' where r: "GenerateCube V T s off = Inr (V', T')"
    using GenerateCube_eq [OF assms, of s off] by blast
  then show ?thesis
    using GenerateCube_tri_winding [OF r] by blast
qed

text \<open>
  C32. Translation: the builder commutes with moving the box. On every
  input, errors included, \<open>GenerateCube\<close> at offset \<open>off\<close> gives the
  result at the origin with the positions of the 24 written vertices
  shifted by \<open>off\<close>, and everything else, the indices included, equal. The
  four legs are thus translated copies of one leg box.
\<close>

theorem GenerateCube_translate:
  "GenerateCube V T s off =
     (case GenerateCube V T s 0 of
        Inl e \<Rightarrow> Inl e
      | Inr (V0, T0) \<Rightarrow> Inr (take 24 (map (translate_vertex off) V0) @ drop 24 V0, T0))"
proof (cases "24 \<le> length V \<and> 36 \<le> length T")
  case True
  have "overwrite vertex_fill V 0 (map (translate_vertex off) (cube_vertices s 0)) =
      take 24 (map (translate_vertex off) (overwrite vertex_fill V 0 (cube_vertices s 0))) @
      drop 24 (overwrite vertex_fill V 0 (cube_vertices s 0))"
    using True by (simp add: overwrite_def take_map) (intro nth_equalityI; simp add: vertex_fill_translate)
  then show ?thesis
    using True GenerateCube_eq [of V T s off] GenerateCube_eq [of V T s 0]
    by (simp add: cube_vertices_translate [of s off])
next
  case False
  then show ?thesis
    using GenerateCube_fail [OF False, of s off] GenerateCube_fail [OF False, of s 0] by simp
qed

section \<open>Witnesses\<close>

theorem GenerateCube_winding_witness:
  "\<exists>V' T'. GenerateCube (replicate 24 vertex0) (replicate 36 0) (FVector 2 4 6) 0 = Inr (V', T') \<and>
    0 < X (FVector 2 4 6) \<and> 0 < Y (FVector 2 4 6) \<and> 0 < Z (FVector 2 4 6) \<and>
    (\<forall>t<12.
     DotProduct (CrossProduct (tri_corner V' T' (3 * t + 1) - tri_corner V' T' (3 * t))
                              (tri_corner V' T' (3 * t + 2) - tri_corner V' T' (3 * t)))
                (Normal (V' ! unat (T' ! (3 * t)))) = - face_area (FVector 2 4 6) (cube_faces ! (t div 2)) \<and>
     DotProduct (CrossProduct (tri_corner V' T' (3 * t + 1) - tri_corner V' T' (3 * t))
                              (tri_corner V' T' (3 * t + 2) - tri_corner V' T' (3 * t)))
                (Normal (V' ! unat (T' ! (3 * t)))) < 0)"
proof -
  have "0 < X (FVector 2 4 6)" "0 < Y (FVector 2 4 6)" "0 < Z (FVector 2 4 6)" by simp_all
  then show ?thesis
    using example_run GenerateCube_winding [OF example_run] by blast
qed

theorem GenerateCube_face_planes_witness:
  "\<exists>V' T'. GenerateCube (replicate 24 vertex0) (replicate 36 0) (FVector 2 4 6) 0 = Inr (V', T') \<and>
    (\<forall>j<6. \<forall>k<4. DotProduct (Position (V' ! (4 * j + k)) - 0) (Normal (V' ! (4 * j + k))) =
                       half_extent (FVector 2 4 6) (Normal (V' ! (4 * j + k))))"
  using example_run GenerateCube_face_planes [OF example_run] by blast

theorem GenerateCube_closed_surface_witness:
  "\<exists>V' T'. GenerateCube (replicate 24 vertex0) (replicate 36 0) (FVector 2 4 6) 0 = Inr (V', T') \<and>
    mset (map prod.swap (mesh_edges V' T' 12)) = mset (mesh_edges V' T' 12)"
  using example_run GenerateCube_closed_surface [OF example_run] by blast

theorem GenerateCube_inside_box_witness:
  "\<exists>V' T'. GenerateCube (replicate 24 vertex0) (replicate 36 0) (FVector 2 4 6) 0 = Inr (V', T') \<and>
    0 \<le> X (FVector 2 4 6) \<and> 0 \<le> Y (FVector 2 4 6) \<and> 0 \<le> Z (FVector 2 4 6) \<and>
    (\<forall>k<24. IsInsideOrOn (FBox (0 - fvector_div (FVector 2 4 6) 2) (0 + fvector_div (FVector 2 4 6) 2))
               (Position (V' ! k)))"
proof -
  have "0 \<le> X (FVector 2 4 6)" "0 \<le> Y (FVector 2 4 6)" "0 \<le> Z (FVector 2 4 6)" by simp_all
  then show ?thesis
    using example_run GenerateCube_inside_box [OF example_run] by blast
qed

theorem GenerateCube_points_bounds_witness:
  "\<exists>V' T'. GenerateCube (replicate 24 vertex0) (replicate 36 0) (FVector 2 4 6) 0 = Inr (V', T') \<and>
    0 \<le> X (FVector 2 4 6) \<and> 0 \<le> Y (FVector 2 4 6) \<and> 0 \<le> Z (FVector 2 4 6) \<and>
    points_bounds (map Position (take 24 V')) =
      FBox (0 - fvector_div (FVector 2 4 6) 2) (0 + fvector_div (FVector 2 4 6) 2)"
proof -
  have "0 \<le> X (FVector 2 4 6)" "0 \<le> Y (FVector 2 4 6)" "0 \<le> Z (FVector 2 4 6)" by simp_all
  then show ?thesis
    using example_run GenerateCube_points_bounds [OF example_run] by blast
qed

text \<open>A box with a negative depth \<open>X\<close>: the front triangle winds as on a
  proper box, while the side and top triangles are inverted.\<close>

theorem GenerateCube_degenerate_sizes_witness:
  "24 \<le> length (replicate 24 vertex0) \<and> 36 \<le> length (replicate 36 (0 :: int32)) \<and>
   (\<exists>V' T'. GenerateCube (replicate 24 vertex0) (replicate 36 0) (FVector (-2) 4 6) 0 = Inr (V', T') \<and>
      tri_winding V' T' 0 = -24 \<and> tri_winding V' T' 4 = 12 \<and> tri_winding V' T' 8 = 8)"
proof -
  obtain V' T' where r: "GenerateCube (replicate 24 vertex0) (replicate 36 0) (FVector (-2) 4 6) 0 =
      Inr (V', T')"
    and w: "\<forall>t<12. tri_winding V' T' t = - face_area (FVector (-2) 4 6) (cube_faces ! (t div 2))"
    using GenerateCube_degenerate_sizes [of "replicate 24 vertex0" "replicate 36 0" "FVector (-2) 4 6" 0]
    by auto
  have "tri_winding V' T' 0 = -24" "tri_winding V' T' 4 = 12" "tri_winding V' T' 8 = 8"
    using w [rule_format, of 0] w [rule_format, of 4] w [rule_format, of 8]
    by (simp_all add: cube_faces_def)
  then show ?thesis
    using r by auto
qed

end
