(* ===== verification/Table_Actor.thy ===== *)
theory Table_Actor
  imports Cuboid_Geometry
begin

text \<open>
  The table actor of \<open>src/Source/ZuruTest/TableActor.cpp\<close>: its state (the
  shared vertex and index buffers, the once-only allocation flag, the table
  and leg sizes, the material, the leg offsets kept in members, the root
  scene component and the runtime mesh component attached to it), \<open>SetupMeshBuffers\<close>, \<open>GenerateMesh\<close> with its
  tabletop and four leg blocks, the constructor and the two engine hooks
  \<open>OnConstruction\<close> and \<open>BeginPlay\<close>, and the lifecycle as a step relation
  over engine events. The runtime mesh component (a plugin outside the
  repository) is modelled from the calls the actor makes: a map from section
  indices to the section data handed over, a map from material slots to
  materials, and the serialisation flag. The lemmas give \<open>GenerateMesh\<close>
  in closed form (\<open>GenerateMesh_eq\<close>); the properties are the state
  invariant of reachable states, the refinement of the sections to the
  abstract table, idempotence, well-formed sections, the response to the
  engine hooks, order independence of the leg blocks, when \<open>GenerateMesh\<close>
  fails on an arbitrary state, and the defects the
  model shows (leg bounds, uninitialised colour, leg height).
\<close>

section \<open>The runtime mesh component\<close>

datatype EUpdateFrequency = Frequent | Average | Infrequent

text \<open>A mesh section stores copies of the buffers passed to
  \<open>CreateMeshSection\<close>, with the bounding box, the collision flag and the
  update frequency.\<close>

record 'c FRuntimeMeshSection =
  SectionVertices :: "'c vertex list"
  SectionTriangles :: "int32 list"
  SectionBounds :: fbox
  SectionCollision :: bool
  SectionUpdateFrequency :: EUpdateFrequency

text \<open>The scene graph: a scene component has the name it was created with
  and, once attached, the name of its parent. The runtime mesh component is
  a scene component (\<open>URuntimeMeshComponent\<close> derives from
  \<open>USceneComponent\<close>), so its record extends this one.\<close>

record USceneComponent =
  ComponentName :: string
  AttachParent :: "string option"

text \<open>\<open>USceneComponent::SetupAttachment\<close>: make \<open>parent\<close> the parent of
  \<open>c\<close>, for any kind of scene component.\<close>

definition SetupAttachment :: "'a USceneComponent_scheme \<Rightarrow> 'b USceneComponent_scheme \<Rightarrow> 'a USceneComponent_scheme" where
  "SetupAttachment c parent = c\<lparr>AttachParent := Some (ComponentName parent)\<rparr>"

record ('c, 'm) URuntimeMeshComponent = USceneComponent +
  MeshSections :: "int32 \<rightharpoonup> 'c FRuntimeMeshSection"
  OverrideMaterials :: "int32 \<rightharpoonup> 'm"
  bShouldSerializeMeshData :: bool

text \<open>A freshly created component with the given name: not attached, no
  sections, no material overrides, and the plugin's default of serialising
  the mesh data.\<close>

definition URuntimeMeshComponent_default :: "string \<Rightarrow> ('c, 'm) URuntimeMeshComponent" where
  "URuntimeMeshComponent_default Name =
     \<lparr>ComponentName = Name, AttachParent = None,
      MeshSections = Map.empty, OverrideMaterials = Map.empty, bShouldSerializeMeshData = True\<rparr>"

definition ClearAllMeshSections :: "('c, 'm) URuntimeMeshComponent \<Rightarrow> ('c, 'm) URuntimeMeshComponent" where
  "ClearAllMeshSections mc = mc\<lparr>MeshSections := Map.empty\<rparr>"

definition CreateMeshSection ::
  "('c, 'm) URuntimeMeshComponent \<Rightarrow> int32 \<Rightarrow> 'c vertex list \<Rightarrow> int32 list \<Rightarrow> fbox \<Rightarrow> bool \<Rightarrow>
     EUpdateFrequency \<Rightarrow> ('c, 'm) URuntimeMeshComponent" where
  "CreateMeshSection mc SectionIndex Vertices Triangles BoundingBox bCreateCollision UpdateFrequency =
     mc\<lparr>MeshSections := (MeshSections mc)(SectionIndex \<mapsto>
        \<lparr>SectionVertices = Vertices, SectionTriangles = Triangles, SectionBounds = BoundingBox,
         SectionCollision = bCreateCollision, SectionUpdateFrequency = UpdateFrequency\<rparr>)\<rparr>"

definition SetMaterial :: "('c, 'm) URuntimeMeshComponent \<Rightarrow> int32 \<Rightarrow> 'm \<Rightarrow> ('c, 'm) URuntimeMeshComponent" where
  "SetMaterial mc ElementIndex Material = mc\<lparr>OverrideMaterials := (OverrideMaterials mc)(ElementIndex \<mapsto> Material)\<rparr>"

section \<open>The actor's state\<close>

record ('c, 'm) ATableActor =
  Vertices :: "'c vertex list"
  Triangles :: "int32 list"
  bHaveBuffersBeenInitialized :: bool
  Size :: fvector
  LegSize :: fvector
  Material :: 'm
  offsetDiffX :: real
  offsetDiffY :: real
  offsetDiffZ :: real
  RootComponent :: USceneComponent
  MeshComponent :: "('c, 'm) URuntimeMeshComponent"

type_synonym ('c, 'm) actor = "('c, 'm) ATableActor"

text \<open>\<open>ATableActor::ATableActor\<close> (lines 10--16): the root scene component
  \<open>"Root"\<close> and the mesh component \<open>"ProceduralMesh"\<close> are created with
  their defaults, the mesh component is told not to serialise its mesh data
  and is attached to the root. The members start empty, unset and zero, the
  editable sizes and material at their defaults (parameters here).\<close>

definition ATableActor_ctor :: "fvector \<Rightarrow> fvector \<Rightarrow> 'm \<Rightarrow> ('c, 'm) actor" where
  "ATableActor_ctor InSize InLegSize InMaterial =
     (let RootComponent = \<lparr>ComponentName = ''Root'', AttachParent = None\<rparr>;
          MeshComponent = URuntimeMeshComponent_default ''ProceduralMesh'';
          MeshComponent = MeshComponent\<lparr>bShouldSerializeMeshData := False\<rparr>;
          MeshComponent = SetupAttachment MeshComponent RootComponent
      in \<lparr>Vertices = [], Triangles = [], bHaveBuffersBeenInitialized = False,
          Size = InSize, LegSize = InLegSize, Material = InMaterial,
          offsetDiffX = 0, offsetDiffY = 0, offsetDiffZ = 0,
          RootComponent = RootComponent, MeshComponent = MeshComponent\<rparr>)"

section \<open>Mesh generation\<close>

text \<open>\<open>ATableActor::SetupMeshBuffers\<close> (lines 32--37): append 24 vertices
  and 36 indices of unspecified content (\<open>jv\<close>, \<open>jt\<close>).\<close>

definition SetupMeshBuffers :: "('c, 'm) actor \<Rightarrow> (nat \<Rightarrow> 'c vertex) \<Rightarrow> (nat \<Rightarrow> int32) \<Rightarrow> ('c, 'm) actor" where
  "SetupMeshBuffers a jv jt =
     (let VertexCount = 6 * 4
      in a\<lparr>Vertices := AddUninitialized (Vertices a) VertexCount jv,
           Triangles := AddUninitialized (Triangles a) (6 * 2 * 3) jt\<rparr>)"

text \<open>One leg block of \<open>GenerateMesh\<close> (lines 55--62, repeated at 64--71,
  73--80 and 82--89 with the signs of the X and Y offsets flipped): store the
  three offsets in the members, generate the leg box into the shared buffers
  and hand a copy to section \<open>k\<close> with the tabletop's bounding box.
  \<open>sx\<close>, \<open>sy\<close> say whether \<open>offsetDiffX\<close>, \<open>offsetDiffY\<close> enter positively.\<close>

definition create_leg ::
  "('c, 'm) actor \<Rightarrow> int32 \<Rightarrow> bool \<Rightarrow> bool \<Rightarrow> fbox \<Rightarrow> mesh_error + ('c, 'm) actor" where
  "create_leg a k sx sy BoundingBox =
     (let a1 = a\<lparr>offsetDiffX := X (Size a) / 2 - 5 / 2,
                 offsetDiffY := Y (Size a) / 2 - 5 / 2,
                 offsetDiffZ := Z (Size a) * 5 + 5 / 2\<rparr>;
          OffsetPos = FVector (pm sx (offsetDiffX a1)) (pm sy (offsetDiffY a1)) (- offsetDiffZ a1)
      in sbind (GenerateCube (Vertices a1) (Triangles a1) (LegSize a1) OffsetPos) (\<lambda>(V, T).
           Inr (a1\<lparr>Vertices := V, Triangles := T,
                   MeshComponent := SetMaterial
                     (CreateMeshSection (MeshComponent a1) k V T BoundingBox True Infrequent)
                     k (Material a1)\<rparr>)))"

text \<open>\<open>ATableActor::GenerateMesh\<close> (lines 39--91).\<close>

definition GenerateMesh ::
  "('c, 'm) actor \<Rightarrow> (nat \<Rightarrow> 'c vertex) \<Rightarrow> (nat \<Rightarrow> int32) \<Rightarrow> mesh_error + ('c, 'm) actor" where
  "GenerateMesh a jv jt =
     (let a1 = (if \<not> bHaveBuffersBeenInitialized a
                then (SetupMeshBuffers a jv jt)\<lparr>bHaveBuffersBeenInitialized := True\<rparr>
                else a);
          BoundingBox = FBox (fvector_div (- Size a1) 2) (fvector_div (Size a1) 2);
          OffsetPos = FVector 0 0 0
      in sbind (GenerateCube (Vertices a1) (Triangles a1) (Size a1) OffsetPos) (\<lambda>(V, T).
         let a2 = a1\<lparr>Vertices := V, Triangles := T,
                     MeshComponent := SetMaterial
                       (CreateMeshSection (ClearAllMeshSections (MeshComponent a1)) 0 V T BoundingBox
                          True Infrequent)
                       0 (Material a1)\<rparr>
         in sbind (create_leg a2 1 True True BoundingBox) (\<lambda>a3.
            sbind (create_leg a3 2 False True BoundingBox) (\<lambda>a4.
            sbind (create_leg a4 3 True False BoundingBox) (\<lambda>a5.
            create_leg a5 4 False False BoundingBox)))))"

section \<open>Lifecycle\<close>

text \<open>The engine events that reach the actor's code: \<open>OnConstruction\<close>
  (lines 18--24, editor builds) and \<open>BeginPlay\<close> (lines 26--30) both call
  \<open>GenerateMesh\<close> after the base class's hook; an editor change of the
  editable properties sets the sizes and the material. The buffer content
  appended by \<open>AddUninitialized\<close> is chosen by the step.\<close>

datatype 'm table_event =
    EvOnConstruction
  | EvBeginPlay
  | EvSetProperties fvector fvector 'm

inductive table_step :: "('c, 'm) actor \<Rightarrow> 'm table_event \<Rightarrow> ('c, 'm) actor \<Rightarrow> bool" where
  on_construction: "GenerateMesh a jv jt = Inr a' \<Longrightarrow> table_step a EvOnConstruction a'"
| begin_play: "GenerateMesh a jv jt = Inr a' \<Longrightarrow> table_step a EvBeginPlay a'"
| set_properties: "table_step a (EvSetProperties s l m) (a\<lparr>Size := s, LegSize := l, Material := m\<rparr>)"

inductive table_reachable :: "('c, 'm) actor \<Rightarrow> bool" where
  init: "table_reachable (ATableActor_ctor s l m)"
| step: "table_reachable a \<Longrightarrow> table_step a e a' \<Longrightarrow> table_reachable a'"

text \<open>The buffer invariant: before the first generation the buffers are
  empty, afterwards they hold exactly one box.\<close>

definition table_inv :: "('c, 'm) actor \<Rightarrow> bool" where
  "table_inv a \<longleftrightarrow>
     (if bHaveBuffersBeenInitialized a then length (Vertices a) = 24 \<and> length (Triangles a) = 36
      else Vertices a = [] \<and> Triangles a = [])"

text \<open>The whole state invariant: the buffer invariant, the scene graph the
  constructor builds (the mesh component attached to the root, the root
  attached to nothing), the serialisation flag the constructor clears, and
  the sections present (none before the first generation, the five boxes'
  afterwards).\<close>

definition table_wf :: "('c, 'm) actor \<Rightarrow> bool" where
  "table_wf a \<longleftrightarrow>
     table_inv a \<and>
     AttachParent (MeshComponent a) = Some (ComponentName (RootComponent a)) \<and>
     AttachParent (RootComponent a) = None \<and>
     \<not> bShouldSerializeMeshData (MeshComponent a) \<and>
     dom (MeshSections (MeshComponent a)) =
       (if bHaveBuffersBeenInitialized a then {0, 1, 2, 3, 4} else {})"

section \<open>The abstract table\<close>

text \<open>The five boxes of the table as (size, centre): the tabletop at the
  origin and the legs at the corners given by the code's offset formula.\<close>

definition leg_offset :: "fvector \<Rightarrow> bool \<Rightarrow> bool \<Rightarrow> fvector" where
  "leg_offset s sx sy = FVector (pm sx (X s / 2 - 5 / 2)) (pm sy (Y s / 2 - 5 / 2)) (- (Z s * 5 + 5 / 2))"

definition table_boxes :: "fvector \<Rightarrow> fvector \<Rightarrow> (fvector \<times> fvector) list" where
  "table_boxes s l =
     [(s, FVector 0 0 0), (l, leg_offset s True True), (l, leg_offset s False True),
      (l, leg_offset s True False), (l, leg_offset s False False)]"

definition tabletop_bounds :: "fvector \<Rightarrow> fbox" where
  "tabletop_bounds s = FBox (fvector_div (- s) 2) (fvector_div s 2)"

text \<open>The vertex buffer the five boxes are written into: the actor's buffer
  once allocated, otherwise the 24 fresh slots \<open>SetupMeshBuffers\<close> appends.\<close>

definition base_vertices :: "('c, 'm) actor \<Rightarrow> (nat \<Rightarrow> 'c vertex) \<Rightarrow> 'c vertex list" where
  "base_vertices a jv =
     (if bHaveBuffersBeenInitialized a then Vertices a else AddUninitialized (Vertices a) (6 * 4) jv)"

text \<open>The section holding box \<open>b = (size, centre)\<close> written over the buffer
  \<open>V0\<close>: the box mesh with the fields the builder does not write taken from
  \<open>V0\<close>, the box's indices, the given bounds, collision on, infrequent
  updates.\<close>

definition box_section :: "'c vertex list \<Rightarrow> fbox \<Rightarrow> fvector \<times> fvector \<Rightarrow> 'c FRuntimeMeshSection" where
  "box_section V0 bb b =
     \<lparr>SectionVertices = map2 vertex_fill (cube_vertices (fst b) (snd b)) V0,
      SectionTriangles = cube_indices, SectionBounds = bb,
      SectionCollision = True, SectionUpdateFrequency = Infrequent\<rparr>"

text \<open>A section is a well-formed triangle mesh: whole triangles, and every
  index names one of its vertices.\<close>

definition section_wf :: "'c FRuntimeMeshSection \<Rightarrow> bool" where
  "section_wf sec \<longleftrightarrow>
     length (SectionTriangles sec) mod 3 = 0 \<and>
     list_all (\<lambda>i. 0 \<le> sint i \<and> nat (sint i) < length (SectionVertices sec)) (SectionTriangles sec)"

text \<open>The component shows the table of the actor's current properties:
  section and material slot \<open>k\<close> hold box \<open>k\<close> of \<open>table_boxes\<close> and the
  actor's material.\<close>

definition table_synced :: "('c, 'm) actor \<Rightarrow> bool" where
  "table_synced a \<longleftrightarrow>
     list_all (\<lambda>k. OverrideMaterials (MeshComponent a) (word_of_nat k) = Some (Material a) \<and>
        (case MeshSections (MeshComponent a) (word_of_nat k) of
           None \<Rightarrow> False
         | Some sec \<Rightarrow> map FRuntimeMeshVertexSimple.truncate (SectionVertices sec) =
             cube_vertices (fst (table_boxes (Size a) (LegSize a) ! k))
               (snd (table_boxes (Size a) (LegSize a) ! k)))) [0..<5]"

text \<open>An example actor for the witnesses: a 100 x 100 x 5 tabletop on
  5 x 5 x 50 legs.\<close>

abbreviation example_actor :: "(unit, nat) actor" where
  "example_actor \<equiv> ATableActor_ctor (FVector 100 100 5) (FVector 5 5 50) 0"

section \<open>Lemmas\<close>

text \<open>The constructed actor with its components spelled out.\<close>

lemma ATableActor_ctor_eq:
  "ATableActor_ctor s l m =
     \<lparr>Vertices = [], Triangles = [], bHaveBuffersBeenInitialized = False,
      Size = s, LegSize = l, Material = m, offsetDiffX = 0, offsetDiffY = 0, offsetDiffZ = 0,
      RootComponent = \<lparr>ComponentName = ''Root'', AttachParent = None\<rparr>,
      MeshComponent = \<lparr>ComponentName = ''ProceduralMesh'', AttachParent = Some ''Root'',
        MeshSections = Map.empty, OverrideMaterials = Map.empty, bShouldSerializeMeshData = False\<rparr>\<rparr>"
  by (simp add: ATableActor_ctor_def Let_def SetupAttachment_def URuntimeMeshComponent_default_def)

lemma GenerateCube_exact:
  assumes "length V = 24" "length T = 36"
  shows "GenerateCube V T s off = Inr (map2 vertex_fill (cube_vertices s off) V, cube_indices)"
proof -
  have "overwrite vertex_fill V 0 (cube_vertices s off) = map2 vertex_fill (cube_vertices s off) V"
    "overwrite store T 0 cube_indices = cube_indices"
    using assms by (simp_all add: overwrite_def map2_store)
  then show ?thesis
    using GenerateCube_eq [of V T s off] assms by simp
qed

lemma map2_vertex_fill_twice [simp]:
  "length ws = length xs \<Longrightarrow> map2 vertex_fill vs (map2 vertex_fill ws xs) = map2 vertex_fill vs xs"
  by (intro nth_equalityI) simp_all

lemma create_leg_ok:
  assumes "length (Vertices a) = 24" "length (Triangles a) = 36"
  shows "create_leg a k sx sy bb =
    Inr (a\<lparr>offsetDiffX := X (Size a) / 2 - 5 / 2, offsetDiffY := Y (Size a) / 2 - 5 / 2,
           offsetDiffZ := Z (Size a) * 5 + 5 / 2,
           Vertices := map2 vertex_fill (cube_vertices (LegSize a) (leg_offset (Size a) sx sy)) (Vertices a),
           Triangles := cube_indices,
           MeshComponent := SetMaterial
             (CreateMeshSection (MeshComponent a) k
                (map2 vertex_fill (cube_vertices (LegSize a) (leg_offset (Size a) sx sy)) (Vertices a))
                cube_indices bb True Infrequent) k (Material a)\<rparr>)"
  using assms by (simp add: create_leg_def Let_def GenerateCube_exact leg_offset_def)

lemma length_base_vertices:
  "table_inv a \<Longrightarrow> length (base_vertices a jv) = 24"
  by (simp add: table_inv_def base_vertices_def split: if_splits)

lemma GenerateMesh_eq:
  assumes "table_inv a"
  shows "GenerateMesh a jv jt =
    Inr (a\<lparr>Vertices := map2 vertex_fill (cube_vertices (LegSize a) (leg_offset (Size a) False False))
                       (base_vertices a jv),
           Triangles := cube_indices, bHaveBuffersBeenInitialized := True,
           offsetDiffX := X (Size a) / 2 - 5 / 2, offsetDiffY := Y (Size a) / 2 - 5 / 2,
           offsetDiffZ := Z (Size a) * 5 + 5 / 2,
           MeshComponent := (MeshComponent a)\<lparr>
             MeshSections := [0 \<mapsto> box_section (base_vertices a jv) (tabletop_bounds (Size a)) (table_boxes (Size a) (LegSize a) ! 0),
                              1 \<mapsto> box_section (base_vertices a jv) (tabletop_bounds (Size a)) (table_boxes (Size a) (LegSize a) ! 1),
                              2 \<mapsto> box_section (base_vertices a jv) (tabletop_bounds (Size a)) (table_boxes (Size a) (LegSize a) ! 2),
                              3 \<mapsto> box_section (base_vertices a jv) (tabletop_bounds (Size a)) (table_boxes (Size a) (LegSize a) ! 3),
                              4 \<mapsto> box_section (base_vertices a jv) (tabletop_bounds (Size a)) (table_boxes (Size a) (LegSize a) ! 4)],
             OverrideMaterials := (OverrideMaterials (MeshComponent a))
               (0 \<mapsto> Material a, 1 \<mapsto> Material a, 2 \<mapsto> Material a, 3 \<mapsto> Material a, 4 \<mapsto> Material a)\<rparr>\<rparr>)"
  using assms
  by (cases "bHaveBuffersBeenInitialized a")
     (simp_all add: GenerateMesh_def Let_def table_inv_def base_vertices_def SetupMeshBuffers_def
        GenerateCube_exact create_leg_ok CreateMeshSection_def SetMaterial_def ClearAllMeshSections_def
        box_section_def table_boxes_def tabletop_bounds_def)


lemma map2_vertex_fill_fields:
  assumes "length V0 = length vs"
  shows "map FRuntimeMeshVertexSimple.truncate (map2 vertex_fill vs V0) = vs"
    and "map FRuntimeMeshVertexSimple.more (map2 vertex_fill vs V0) = map FRuntimeMeshVertexSimple.more V0"
  using assms by (intro nth_equalityI; simp)+

lemma GenerateMesh_facts:
  assumes "table_inv a" "GenerateMesh a jv jt = Inr a'"
  shows "Vertices a' =
           map2 vertex_fill (cube_vertices (LegSize a) (leg_offset (Size a) False False)) (base_vertices a jv)"
    and "Triangles a' = cube_indices"
    and "bHaveBuffersBeenInitialized a'"
    and "Size a' = Size a" and "LegSize a' = LegSize a" and "Material a' = Material a"
    and "offsetDiffX a' = X (Size a) / 2 - 5 / 2" and "offsetDiffY a' = Y (Size a) / 2 - 5 / 2"
    and "offsetDiffZ a' = Z (Size a) * 5 + 5 / 2"
    and "bShouldSerializeMeshData (MeshComponent a') = bShouldSerializeMeshData (MeshComponent a)"
    and "dom (MeshSections (MeshComponent a')) = {0, 1, 2, 3, 4}"
    and "OverrideMaterials (MeshComponent a') = (OverrideMaterials (MeshComponent a))
           (0 \<mapsto> Material a, 1 \<mapsto> Material a, 2 \<mapsto> Material a, 3 \<mapsto> Material a, 4 \<mapsto> Material a)"
    and "URuntimeMeshComponent.more (MeshComponent a') = URuntimeMeshComponent.more (MeshComponent a)"
    and "ATableActor.more a' = ATableActor.more a"
    and "RootComponent a' = RootComponent a"
    and "ComponentName (MeshComponent a') = ComponentName (MeshComponent a)"
    and "AttachParent (MeshComponent a') = AttachParent (MeshComponent a)"
  using GenerateMesh_eq [OF assms(1), of jv jt] assms(2) by auto

lemma GenerateMesh_section:
  assumes "table_inv a" "GenerateMesh a jv jt = Inr a'" "k < 5"
  shows "MeshSections (MeshComponent a') (word_of_nat k) =
           Some (box_section (base_vertices a jv) (tabletop_bounds (Size a)) (table_boxes (Size a) (LegSize a) ! k))"
    and "OverrideMaterials (MeshComponent a') (word_of_nat k) = Some (Material a)"
  using GenerateMesh_eq [OF assms(1), of jv jt] assms(2,3) unfolding less_five_cases
  by (auto simp del: table_boxes_def)

lemma table_inv_GenerateMesh:
  assumes "table_inv a" "GenerateMesh a jv jt = Inr a'"
  shows "table_inv a'"
  using GenerateMesh_facts (1-3) [OF assms] length_base_vertices [OF assms(1), of jv]
  by (simp add: table_inv_def)

lemma table_inv_step:
  assumes "table_inv a" "table_step a e a'"
  shows "table_inv a'"
  using assms(2,1)
  by (cases rule: table_step.cases) (auto simp: table_inv_GenerateMesh, simp add: table_inv_def)

lemma table_reachable_inv:
  "table_reachable a \<Longrightarrow> table_inv a"
  by (induction rule: table_reachable.induct)
     (simp add: table_inv_def ATableActor_ctor_eq, blast intro: table_inv_step)


lemma table_wf_GenerateMesh:
  assumes "table_wf a" "GenerateMesh a jv jt = Inr a'"
  shows "table_wf a'"
proof -
  have inv: "table_inv a" using assms(1) by (simp add: table_wf_def)
  show ?thesis
    using GenerateMesh_facts (3,10,11,15,17) [OF inv assms(2)] table_inv_GenerateMesh [OF inv assms(2)] assms(1)
    by (simp add: table_wf_def)
qed

lemma table_wf_step:
  assumes "table_wf a" "table_step a e a'"
  shows "table_wf a'"
  using assms(2,1)
  by (cases rule: table_step.cases)
     (blast intro: table_wf_GenerateMesh, blast intro: table_wf_GenerateMesh,
      simp add: table_wf_def table_inv_def)

lemma box_section_fields:
  assumes "length V0 = 24"
  shows "map FRuntimeMeshVertexSimple.truncate (SectionVertices (box_section V0 bb b)) = cube_vertices (fst b) (snd b)"
    and "map FRuntimeMeshVertexSimple.more (SectionVertices (box_section V0 bb b)) = map FRuntimeMeshVertexSimple.more V0"
    and "i < 24 \<Longrightarrow> Position (SectionVertices (box_section V0 bb b) ! i) = Position (cube_vertices (fst b) (snd b) ! i)"
  using assms map2_vertex_fill_fields [of V0 "cube_vertices (fst b) (snd b)"]
  by (simp_all add: box_section_def)

lemma tabletop_bounds_centred: "tabletop_bounds s = FBox (FVector 0 0 0 - fvector_div s 2) (FVector 0 0 0 + fvector_div s 2)"
  by (simp add: tabletop_bounds_def fvector_div_def uminus_fvector_def)

lemma example_actor_inv: "table_inv example_actor"
  by (simp add: table_inv_def ATableActor_ctor_eq)

lemma example_actor_fields:
  "Size example_actor = FVector 100 100 5" "LegSize example_actor = FVector 5 5 50"
  "\<not> bHaveBuffersBeenInitialized example_actor"
  by (simp_all add: ATableActor_ctor_eq)

lemma example_actor_generate:
  obtains a' where "GenerateMesh example_actor (\<lambda>_. vertex0) (\<lambda>_. 0) = Inr a'"
  using GenerateMesh_eq [OF example_actor_inv] by blast

lemma box_section_points_bounds:
  assumes "length V0 = 24" "0 \<le> X (fst b)" "0 \<le> Y (fst b)" "0 \<le> Z (fst b)"
  shows "points_bounds (map Position (SectionVertices (box_section V0 bb b))) =
    FBox (snd b - fvector_div (fst b) 2) (snd b + fvector_div (fst b) 2)"
proof -
  have "map Position (SectionVertices (box_section V0 bb b)) = map Position (cube_vertices (fst b) (snd b))"
    using arg_cong [OF box_section_fields (1) [OF assms(1), of bb b], of "map Position"]
    by (simp add: comp_def)
  then show ?thesis
    using cube_points_bounds [OF assms(2-4)] by simp
qed

inductive_cases table_step_generateE: "table_step a EvOnConstruction a'" "table_step a EvBeginPlay a'"

lemma cube_indices_range: "i \<in> set cube_indices \<Longrightarrow> 0 \<le> sint i \<and> sint i < 24"
  by (auto simp: cube_indices_def quad_indices_def quad_pattern_def upt_rec)

lemma section_wf_box_section:
  "length V0 = 24 \<Longrightarrow> section_wf (box_section V0 bb b)"
  using cube_indices_range by (fastforce simp: section_wf_def box_section_def list_all_iff nat_less_iff)

text \<open>Every section \<open>GenerateMesh\<close> leaves is one of the five box sections.\<close>

lemma GenerateMesh_sectionE:
  assumes "table_inv a" "GenerateMesh a jv jt = Inr a'"
    and "MeshSections (MeshComponent a') k = Some sec"
  obtains n where "n < 5" "k = word_of_nat n"
    "sec = box_section (base_vertices a jv) (tabletop_bounds (Size a)) (table_boxes (Size a) (LegSize a) ! n)"
proof -
  have "k \<in> {0, 1, 2, 3, 4}"
    using GenerateMesh_facts (11) [OF assms(1,2)] assms(3) by blast
  then have n: "unat k < 5" "k = word_of_nat (unat k)" by auto
  then show ?thesis
    using that GenerateMesh_section (1) [OF assms(1,2) n(1)] assms(3) by simp
qed

lemma GenerateMesh_synced:
  assumes "table_inv a" "GenerateMesh a jv jt = Inr a'"
  shows "table_synced a'"
proof -
  have l: "length (base_vertices a jv) = 24" by (rule length_base_vertices [OF assms(1)])
  show ?thesis
    using GenerateMesh_section [OF assms] GenerateMesh_facts (4-6) [OF assms] box_section_fields (1) [OF l]
    by (simp add: table_synced_def list_all_iff box_section_def)
qed

lemma GenerateMesh_sections_wf:
  assumes "table_inv a" "GenerateMesh a jv jt = Inr a'" "MeshSections (MeshComponent a') k = Some sec"
  shows "section_wf sec \<and> length (SectionVertices sec) = 24 \<and> length (SectionTriangles sec) = 36"
proof -
  have l: "length (base_vertices a jv) = 24" by (rule length_base_vertices [OF assms(1)])
  obtain n where "sec = box_section (base_vertices a jv) (tabletop_bounds (Size a)) (table_boxes (Size a) (LegSize a) ! n)"
    using GenerateMesh_sectionE [OF assms] by blast
  then show ?thesis
    using section_wf_box_section [OF l] l by (simp add: box_section_def)
qed

section \<open>Properties of the table actor\<close>

text \<open>With room for a box in both buffers every leg block succeeds, and
  \<open>GenerateMesh\<close> succeeds unless the flag claims buffers that are too
  short.\<close>

lemma create_leg_room:
  assumes "24 \<le> length (Vertices a)" "36 \<le> length (Triangles a)"
  shows "create_leg a k sx sy bb =
    Inr (a\<lparr>offsetDiffX := X (Size a) / 2 - 5 / 2, offsetDiffY := Y (Size a) / 2 - 5 / 2,
           offsetDiffZ := Z (Size a) * 5 + 5 / 2,
           Vertices := overwrite vertex_fill (Vertices a) 0 (cube_vertices (LegSize a) (leg_offset (Size a) sx sy)),
           Triangles := overwrite store (Triangles a) 0 cube_indices,
           MeshComponent := SetMaterial
             (CreateMeshSection (MeshComponent a) k
                (overwrite vertex_fill (Vertices a) 0 (cube_vertices (LegSize a) (leg_offset (Size a) sx sy)))
                (overwrite store (Triangles a) 0 cube_indices) bb True Infrequent) k (Material a)\<rparr>)"
  using assms by (simp add: create_leg_def Let_def GenerateCube_eq leg_offset_def)

lemma GenerateMesh_room:
  assumes "bHaveBuffersBeenInitialized a \<longrightarrow> 24 \<le> length (Vertices a) \<and> 36 \<le> length (Triangles a)"
  shows "\<exists>a'. GenerateMesh a jv jt = Inr a'"
  using assms
  by (cases "bHaveBuffersBeenInitialized a")
     (simp_all add: GenerateMesh_def Let_def SetupMeshBuffers_def GenerateCube_eq create_leg_room)

text \<open>
  C15. No failure: from every reachable state \<open>GenerateMesh\<close> succeeds
  whatever \<open>AddUninitialized\<close> leaves in the buffers (no \<open>TArray\<close> range
  check fires), so every engine event has a successor state.
\<close>

theorem table_step_total:
  assumes "table_reachable a"
  shows "(\<forall>jv jt. \<exists>a'. GenerateMesh a jv jt = Inr a') \<and> (\<forall>e. \<exists>a'. table_step a e a')"
proof -
  have inv: "table_inv a" by (rule table_reachable_inv [OF assms])
  then have ok: "\<exists>a'. GenerateMesh a jv jt = Inr a'" for jv jt
    using GenerateMesh_eq [OF inv, of jv jt] by blast
  have "\<exists>a'. table_step a e a'" for e
  proof (cases e)
    case EvOnConstruction
    then show ?thesis using ok [of "\<lambda>_. undefined" "\<lambda>_. 0"] table_step.on_construction by blast
  next
    case EvBeginPlay
    then show ?thesis using ok [of "\<lambda>_. undefined" "\<lambda>_. 0"] table_step.begin_play by blast
  next
    case (EvSetProperties s l m)
    then show ?thesis using table_step.set_properties [of a s l m] by blast
  qed
  with ok show ?thesis by blast
qed

text \<open>
  C16. State invariant: in every reachable state the buffers are empty
  before the first generation and hold exactly 24 vertices and 36 indices
  after it (they are allocated once and never grow, however often the engine
  calls the hooks), the mesh component stays attached to the root
  component, which has no parent, the component never serialises its mesh
  data, and it holds no sections before the first generation and exactly
  sections 0--4 afterwards.
\<close>

theorem table_wf_reachable:
  assumes "table_reachable a"
  shows "table_wf a"
  using assms
proof (induction rule: table_reachable.induct)
  case (init s l m)
  then show ?case
    by (simp add: table_wf_def table_inv_def ATableActor_ctor_eq)
next
  case (step a e a')
  show ?case
    using step.IH step.hyps(2) by (rule table_wf_step)
qed

text \<open>
  C17. Refinement of the table: after \<open>GenerateMesh\<close> the component has
  exactly the sections 0--4; section \<open>k\<close> holds the box mesh of the
  \<open>k\<close>-th box of the table (tabletop at the origin, then the four legs at
  the code's corner offsets), with that box's 36 indices, collision enabled,
  infrequent updates and the tabletop's bounds, and slot \<open>k\<close> has the
  actor's material; this holds although all five boxes are built one after
  the other in the same two buffers.
\<close>

theorem GenerateMesh_sections:
  assumes "table_inv a" "GenerateMesh a jv jt = Inr a'"
  shows "dom (MeshSections (MeshComponent a')) = {0, 1, 2, 3, 4} \<and>
    (\<forall>k<5. \<exists>sec. MeshSections (MeshComponent a') (word_of_nat k) = Some sec \<and>
       map FRuntimeMeshVertexSimple.truncate (SectionVertices sec) =
         cube_vertices (fst (table_boxes (Size a) (LegSize a) ! k)) (snd (table_boxes (Size a) (LegSize a) ! k)) \<and>
       SectionTriangles sec = cube_indices \<and> SectionBounds sec = tabletop_bounds (Size a) \<and>
       SectionCollision sec \<and> SectionUpdateFrequency sec = Infrequent \<and>
       OverrideMaterials (MeshComponent a') (word_of_nat k) = Some (Material a))"
proof -
  have l: "length (base_vertices a jv) = 24" by (rule length_base_vertices [OF assms(1)])
  show ?thesis
    using GenerateMesh_facts (11) [OF assms] GenerateMesh_section [OF assms] box_section_fields (1) [OF l]
    by (simp add: box_section_def)
qed


text \<open>
  C18. Regeneration is idempotent: calling \<open>GenerateMesh\<close> again on the
  state it produced (as \<open>BeginPlay\<close> does after \<open>OnConstruction\<close>) succeeds
  and leaves the whole actor, buffers, members and component, unchanged.
\<close>

theorem GenerateMesh_idempotent:
  assumes "table_inv a" "GenerateMesh a jv jt = Inr a'"
  shows "GenerateMesh a' jv' jt' = Inr a'"
proof -
  have inv': "table_inv a'" by (rule table_inv_GenerateMesh [OF assms])
  obtain a'' where r: "GenerateMesh a' jv' jt' = Inr a''"
    using GenerateMesh_eq [OF inv', of jv' jt'] by blast
  note f = GenerateMesh_facts [OF assms] and f' = GenerateMesh_facts [OF inv' r]
  have l: "length (base_vertices a jv) = 24" by (rule length_base_vertices [OF assms(1)])
  have b: "base_vertices a' jv' =
      map2 vertex_fill (cube_vertices (LegSize a) (leg_offset (Size a) False False)) (base_vertices a jv)"
    using f(1,3) by (simp add: base_vertices_def)
  have "MeshSections (MeshComponent a'') k = MeshSections (MeshComponent a') k" for k
  proof (cases "k \<in> {0, 1, 2, 3, 4}")
    case True
    then have n: "unat k < 5" "k = word_of_nat (unat k)"
      by auto
    show ?thesis
      using GenerateMesh_section (1) [OF assms n(1)] GenerateMesh_section (1) [OF inv' r n(1)] f(4,5) b l n(2)
      by (simp add: box_section_def)
  next
    case False
    then show ?thesis
      using f(11) f'(11) by (metis domIff)
  qed
  moreover have "OverrideMaterials (MeshComponent a'') = OverrideMaterials (MeshComponent a')"
    using f(12) f'(12) f(6) by (simp add: fun_upd_twist)
  ultimately have "MeshComponent a'' = MeshComponent a'"
    using f(10,13,16,17) f'(10,13,16,17) by (intro URuntimeMeshComponent.equality) auto
  moreover have "Vertices a'' = Vertices a'"
    using f(1) f'(1) f(4,5) b l by simp
  ultimately have "a'' = a'"
    using f f' by (intro ATableActor.equality) simp_all
  with r show ?thesis by simp
qed

text \<open>
  C19. The legs' sections carry the wrong bounds: every section is created
  with the tabletop's bounding box. For non-negative sizes the tabletop's
  vertices all lie in it, but for every leg section the first vertex (the
  leg's lower +X corner) lies outside the section's own bounds.
\<close>

theorem GenerateMesh_leg_bounds:
  assumes "table_inv a" "GenerateMesh a jv jt = Inr a'"
    and "0 \<le> X (Size a)" "0 \<le> Y (Size a)" "0 \<le> Z (Size a)" "0 \<le> Z (LegSize a)"
  shows "(\<exists>sec. MeshSections (MeshComponent a') 0 = Some sec \<and>
            (\<forall>i<24. IsInsideOrOn (SectionBounds sec) (Position (SectionVertices sec ! i)))) \<and>
         (\<forall>k. 1 \<le> k \<and> k < 5 \<longrightarrow> (\<exists>sec. MeshSections (MeshComponent a') (word_of_nat k) = Some sec \<and>
            \<not> IsInsideOrOn (SectionBounds sec) (Position (SectionVertices sec ! 0))))"
proof -
  have l: "length (base_vertices a jv) = 24" by (rule length_base_vertices [OF assms(1)])
  have top: "MeshSections (MeshComponent a') 0 =
      Some (box_section (base_vertices a jv) (tabletop_bounds (Size a)) (Size a, FVector 0 0 0))"
    using GenerateMesh_section (1) [OF assms(1,2), of 0] by (simp add: table_boxes_def)
  have "\<forall>i<24. IsInsideOrOn (tabletop_bounds (Size a))
      (Position (SectionVertices (box_section (base_vertices a jv) (tabletop_bounds (Size a)) (Size a, FVector 0 0 0)) ! i))"
    using cube_vertices_inside [OF assms(3-5)] box_section_fields (3) [OF l]
    by (simp add: tabletop_bounds_centred)
  moreover have "\<not> IsInsideOrOn (tabletop_bounds (Size a))
      (Position (SectionVertices (box_section (base_vertices a jv) (tabletop_bounds (Size a))
         (table_boxes (Size a) (LegSize a) ! k)) ! 0))" if "1 \<le> k" "k < 5" for k
  proof -
    have "k = 1 \<or> k = 2 \<or> k = 3 \<or> k = 4" using that by auto
    then show ?thesis
      using assms(5,6) box_section_fields (3) [OF l, of 0] cube_vertices_first_corners (1)
      by (auto simp: table_boxes_def leg_offset_def cube_corner_def corner_signs_def
          tabletop_bounds_def IsInsideOrOn_def FBox_def fvector_div_def uminus_fvector_def)
  qed
  ultimately show ?thesis
    using top GenerateMesh_section (1) [OF assms(1,2)] by (simp add: box_section_def)
qed

text \<open>
  C20. The vertices' remaining fields are never initialised: on the first
  generation every section's vertices carry, in the fields the builder does
  not write (the colour), exactly what \<open>AddUninitialized\<close> left in the 24
  fresh slots.
\<close>

theorem GenerateMesh_uninitialised_fields:
  assumes "table_inv a" "\<not> bHaveBuffersBeenInitialized a" "GenerateMesh a jv jt = Inr a'"
  shows "\<forall>k<5. \<exists>sec. MeshSections (MeshComponent a') (word_of_nat k) = Some sec \<and>
     map FRuntimeMeshVertexSimple.more (SectionVertices sec) =
       map (\<lambda>i. FRuntimeMeshVertexSimple.more (jv i)) [0..<24]"
proof -
  have l: "length (base_vertices a jv) = 24" by (rule length_base_vertices [OF assms(1)])
  have "base_vertices a jv = map jv [0..<24]"
    using assms(1,2) by (simp add: base_vertices_def table_inv_def AddUninitialized_def)
  then show ?thesis
    using GenerateMesh_section (1) [OF assms(1,3)] box_section_fields (2) [OF l] by simp
qed

text \<open>
  C21. Leg placement: every leg's top corner sits at height
  \<open>LegSize.Z / 2 - (5 Size.Z + 2.5)\<close>, so a leg meets the underside of the
  tabletop (at \<open>-Size.Z / 2\<close>) exactly when \<open>LegSize.Z = 9 Size.Z + 5\<close>;
  the members \<open>offsetDiffX/Y/Z\<close> keep the last leg's offsets.
\<close>

theorem GenerateMesh_leg_height:
  assumes "table_inv a" "GenerateMesh a jv jt = Inr a'"
  shows "(\<forall>k. 1 \<le> k \<and> k < 5 \<longrightarrow> (\<exists>sec. MeshSections (MeshComponent a') (word_of_nat k) = Some sec \<and>
            Z (Position (SectionVertices sec ! 3)) = Z (LegSize a) / 2 - (5 * Z (Size a) + 5 / 2) \<and>
            (Z (Position (SectionVertices sec ! 3)) = - (Z (Size a) / 2) \<longleftrightarrow>
             Z (LegSize a) = 9 * Z (Size a) + 5))) \<and>
         offsetDiffX a' = X (Size a) / 2 - 5 / 2 \<and> offsetDiffY a' = Y (Size a) / 2 - 5 / 2 \<and>
         offsetDiffZ a' = Z (Size a) * 5 + 5 / 2"
proof -
  have l: "length (base_vertices a jv) = 24" by (rule length_base_vertices [OF assms(1)])
  have "Z (Position (SectionVertices (box_section (base_vertices a jv) (tabletop_bounds (Size a))
         (table_boxes (Size a) (LegSize a) ! k)) ! 3)) = Z (LegSize a) / 2 - (5 * Z (Size a) + 5 / 2)"
    if "1 \<le> k" "k < 5" for k
  proof -
    have "k = 1 \<or> k = 2 \<or> k = 3 \<or> k = 4" using that by auto
    then show ?thesis
      using box_section_fields (3) [OF l, of 3] cube_vertices_first_corners (2)
      by (auto simp: table_boxes_def leg_offset_def cube_corner_def corner_signs_def)
  qed
  moreover have "Z (LegSize a) / 2 - (5 * Z (Size a) + 5 / 2) = - (Z (Size a) / 2) \<longleftrightarrow>
      Z (LegSize a) = 9 * Z (Size a) + 5"
    by (intro iffI) linarith+
  ultimately show ?thesis
    using GenerateMesh_section (1) [OF assms] GenerateMesh_facts (7-9) [OF assms] by auto
qed


text \<open>
  C24. Section bounds against the points: for non-negative sizes the points
  of section \<open>k\<close> have as bounding box exactly the \<open>k\<close>-th box of the table,
  and the bounds the code gives the section are that box for the tabletop
  (section 0) and for no leg section.
\<close>

theorem GenerateMesh_section_bounds:
  assumes "table_inv a" "GenerateMesh a jv jt = Inr a'"
    and "0 \<le> X (Size a)" "0 \<le> Y (Size a)" "0 \<le> Z (Size a)"
    and "0 \<le> X (LegSize a)" "0 \<le> Y (LegSize a)" "0 \<le> Z (LegSize a)"
  shows "\<forall>k<5. \<exists>sec. MeshSections (MeshComponent a') (word_of_nat k) = Some sec \<and>
     points_bounds (map Position (SectionVertices sec)) =
       FBox (snd (table_boxes (Size a) (LegSize a) ! k) - fvector_div (fst (table_boxes (Size a) (LegSize a) ! k)) 2)
            (snd (table_boxes (Size a) (LegSize a) ! k) + fvector_div (fst (table_boxes (Size a) (LegSize a) ! k)) 2) \<and>
     (SectionBounds sec = points_bounds (map Position (SectionVertices sec)) \<longleftrightarrow> k = 0)"
proof (intro allI impI)
  fix k :: nat
  assume k: "k < 5"
  let ?b = "table_boxes (Size a) (LegSize a) ! k"
  let ?sec = "box_section (base_vertices a jv) (tabletop_bounds (Size a)) ?b"
  have l: "length (base_vertices a jv) = 24" by (rule length_base_vertices [OF assms(1)])
  have sz: "0 \<le> X (fst ?b) \<and> 0 \<le> Y (fst ?b) \<and> 0 \<le> Z (fst ?b)"
    using k assms(3-8) unfolding less_five_cases by (auto simp: table_boxes_def)
  have pb: "points_bounds (map Position (SectionVertices ?sec)) =
      FBox (snd ?b - fvector_div (fst ?b) 2) (snd ?b + fvector_div (fst ?b) 2)"
    using box_section_points_bounds [OF l] sz by blast
  have "tabletop_bounds (Size a) = FBox (snd ?b - fvector_div (fst ?b) 2) (snd ?b + fvector_div (fst ?b) 2) \<longleftrightarrow> k = 0"
  proof -
    have "k = 0 \<or> k = 1 \<or> k = 2 \<or> k = 3 \<or> k = 4" using k by auto
    then show ?thesis
      using assms(5,8)
      by (elim disjE) (auto simp: tabletop_bounds_centred table_boxes_def leg_offset_def FBox_def
          fvector_div_def minus_fvector_def plus_fvector_def)
  qed
  then show "\<exists>sec. MeshSections (MeshComponent a') (word_of_nat k) = Some sec \<and>
     points_bounds (map Position (SectionVertices sec)) =
       FBox (snd ?b - fvector_div (fst ?b) 2) (snd ?b + fvector_div (fst ?b) 2) \<and>
     (SectionBounds sec = points_bounds (map Position (SectionVertices sec)) \<longleftrightarrow> k = 0)"
    using GenerateMesh_section (1) [OF assms(1,2) k] pb by (simp add: box_section_def)
qed

text \<open>
  C25. Well-formed meshes: in every reachable state every section of the
  component is a well-formed triangle mesh of one box, 24 vertices and 36
  indices, each index non-negative and naming one of the section's vertices.
\<close>

theorem table_sections_wf:
  assumes "table_reachable a"
  shows "\<forall>k sec. MeshSections (MeshComponent a) k = Some sec \<longrightarrow>
    section_wf sec \<and> length (SectionVertices sec) = 24 \<and> length (SectionTriangles sec) = 36"
  using assms
proof (induction rule: table_reachable.induct)
  case (init s l m)
  then show ?case by (simp add: ATableActor_ctor_eq)
next
  case (step a e a')
  have inv: "table_inv a" by (rule table_reachable_inv [OF step.hyps(1)])
  from step.hyps(2) show ?case
  proof (cases rule: table_step.cases)
    case (on_construction jv jt)
    then show ?thesis using GenerateMesh_sections_wf [OF inv] by blast
  next
    case (begin_play jv jt)
    then show ?thesis using GenerateMesh_sections_wf [OF inv] by blast
  next
    case (set_properties s l m)
    then show ?thesis using step.IH by simp
  qed
qed

text \<open>
  C26. Response to the engine hooks: from every reachable state an
  \<open>OnConstruction\<close> or \<open>BeginPlay\<close> event can happen, and every state it leads
  to shows the table of the actor's current size, leg size and material
  (whatever property edits came before), with those properties unchanged.
\<close>

theorem table_generate_response:
  assumes "table_reachable a" "e = EvOnConstruction \<or> e = EvBeginPlay"
  shows "(\<exists>a'. table_step a e a') \<and>
    (\<forall>a'. table_step a e a' \<longrightarrow>
       table_synced a' \<and> Size a' = Size a \<and> LegSize a' = LegSize a \<and> Material a' = Material a)"
proof -
  have inv: "table_inv a" by (rule table_reachable_inv [OF assms(1)])
  obtain a0 where r: "GenerateMesh a (\<lambda>_. undefined) (\<lambda>_. 0) = Inr a0"
    using GenerateMesh_eq [OF inv] by blast
  have ex: "\<exists>a'. table_step a e a'"
    using assms(2) table_step.on_construction [OF r] table_step.begin_play [OF r] by blast
  have "table_synced a' \<and> Size a' = Size a \<and> LegSize a' = LegSize a \<and> Material a' = Material a"
    if "table_step a e a'" for a'
    using that assms(2)
    by (auto elim!: table_step_generateE dest: GenerateMesh_synced [OF inv] GenerateMesh_facts (4-6) [OF inv])
  with ex show ?thesis by blast
qed

text \<open>
  C27. Order independence of the leg blocks: on buffers of one box, two leg
  blocks for different sections, run in either order through the shared
  buffers, leave the same sections and material slots; each section depends
  only on its own box, since every \<open>GenerateCube\<close> call rewrites all the
  fields it hands over.
\<close>

theorem create_leg_order_independent:
  assumes "length (Vertices a) = 24" "length (Triangles a) = 36" "k1 \<noteq> k2"
  shows "\<exists>a12 a21. sbind (create_leg a k1 sx1 sy1 bb) (\<lambda>a1. create_leg a1 k2 sx2 sy2 bb) = Inr a12 \<and>
     sbind (create_leg a k2 sx2 sy2 bb) (\<lambda>a2. create_leg a2 k1 sx1 sy1 bb) = Inr a21 \<and>
     MeshSections (MeshComponent a12) = MeshSections (MeshComponent a21) \<and>
     OverrideMaterials (MeshComponent a12) = OverrideMaterials (MeshComponent a21)"
  using assms by (simp add: create_leg_ok CreateMeshSection_def SetMaterial_def fun_upd_twist)

text \<open>
  C31. Failure of \<open>GenerateMesh\<close> on any state, reachable or not: it fails
  exactly when the allocation flag is set but a buffer has no room for one
  box, and then with the tabletop's \<open>GenerateCube\<close> error. With the flag
  clear it never fails, whatever the buffers hold, because
  \<open>SetupMeshBuffers\<close> appends a box's worth of slots first. The once-only
  flag is therefore the sole guard of the range checks.
\<close>

theorem GenerateMesh_fails_iff:
  "GenerateMesh a jv jt = Inl e \<longleftrightarrow>
     bHaveBuffersBeenInitialized a \<and> \<not> (24 \<le> length (Vertices a) \<and> 36 \<le> length (Triangles a)) \<and>
     e = cube_error (Vertices a) (Triangles a)"
proof (cases "bHaveBuffersBeenInitialized a \<and> \<not> (24 \<le> length (Vertices a) \<and> 36 \<le> length (Triangles a))")
  case True
  then have "GenerateMesh a jv jt = Inl (cube_error (Vertices a) (Triangles a))"
    by (simp add: GenerateMesh_def Let_def GenerateCube_fail)
  then show ?thesis
    using True by auto
next
  case False
  then obtain a' where "GenerateMesh a jv jt = Inr a'"
    using GenerateMesh_room [of a jv jt] by blast
  then show ?thesis
    using False by simp
qed

section \<open>Witnesses\<close>

theorem table_step_total_witness:
  "table_reachable example_actor \<and>
   (\<forall>jv jt. \<exists>a'. GenerateMesh example_actor jv jt = Inr a') \<and> (\<forall>e. \<exists>a'. table_step example_actor e a')"
proof -
  have r: "table_reachable example_actor" by (rule table_reachable.init)
  show ?thesis using r table_step_total [OF r] by blast
qed

theorem table_wf_reachable_witness:
  "table_reachable example_actor \<and> table_wf example_actor"
proof -
  have r: "table_reachable example_actor" by (rule table_reachable.init)
  show ?thesis using r table_wf_reachable [OF r] by blast
qed

theorem GenerateMesh_sections_witness:
  "table_inv example_actor \<and> (\<exists>a'. GenerateMesh example_actor (\<lambda>_. vertex0) (\<lambda>_. 0) = Inr a' \<and>
    dom (MeshSections (MeshComponent a')) = {0, 1, 2, 3, 4} \<and>
    (\<forall>k<5. \<exists>sec. MeshSections (MeshComponent a') (word_of_nat k) = Some sec \<and>
       map FRuntimeMeshVertexSimple.truncate (SectionVertices sec) =
         cube_vertices (fst (table_boxes (Size example_actor) (LegSize example_actor) ! k))
           (snd (table_boxes (Size example_actor) (LegSize example_actor) ! k)) \<and>
       SectionTriangles sec = cube_indices \<and> SectionBounds sec = tabletop_bounds (Size example_actor) \<and>
       SectionCollision sec \<and> SectionUpdateFrequency sec = Infrequent \<and>
       OverrideMaterials (MeshComponent a') (word_of_nat k) = Some (Material example_actor)))"
proof -
  obtain a' where r: "GenerateMesh example_actor (\<lambda>_. vertex0) (\<lambda>_. 0) = Inr a'"
    by (rule example_actor_generate)
  show ?thesis
    using example_actor_inv r GenerateMesh_sections [OF example_actor_inv r] by blast
qed

theorem GenerateMesh_idempotent_witness:
  "table_inv example_actor \<and> (\<exists>a'. GenerateMesh example_actor (\<lambda>_. vertex0) (\<lambda>_. 0) = Inr a' \<and>
    GenerateMesh a' (\<lambda>_. vertex0) (\<lambda>_. 0) = Inr a')"
proof -
  obtain a' where r: "GenerateMesh example_actor (\<lambda>_. vertex0) (\<lambda>_. 0) = Inr a'"
    by (rule example_actor_generate)
  show ?thesis
    using example_actor_inv r GenerateMesh_idempotent [OF example_actor_inv r] by blast
qed

theorem GenerateMesh_leg_bounds_witness:
  "table_inv example_actor \<and> (\<exists>a'. GenerateMesh example_actor (\<lambda>_. vertex0) (\<lambda>_. 0) = Inr a' \<and>
    0 \<le> X (Size example_actor) \<and> 0 \<le> Y (Size example_actor) \<and> 0 \<le> Z (Size example_actor) \<and>
    0 \<le> Z (LegSize example_actor) \<and>
    (\<exists>sec. MeshSections (MeshComponent a') 0 = Some sec \<and>
       (\<forall>i<24. IsInsideOrOn (SectionBounds sec) (Position (SectionVertices sec ! i)))) \<and>
    (\<forall>k. 1 \<le> k \<and> k < 5 \<longrightarrow> (\<exists>sec. MeshSections (MeshComponent a') (word_of_nat k) = Some sec \<and>
       \<not> IsInsideOrOn (SectionBounds sec) (Position (SectionVertices sec ! 0)))))"
proof -
  obtain a' where r: "GenerateMesh example_actor (\<lambda>_. vertex0) (\<lambda>_. 0) = Inr a'"
    by (rule example_actor_generate)
  have "0 \<le> X (Size example_actor)" "0 \<le> Y (Size example_actor)" "0 \<le> Z (Size example_actor)"
    "0 \<le> Z (LegSize example_actor)"
    by (simp_all add: example_actor_fields)
  then show ?thesis
    using example_actor_inv r GenerateMesh_leg_bounds [OF example_actor_inv r] by blast
qed

theorem GenerateMesh_uninitialised_fields_witness:
  "table_inv example_actor \<and> \<not> bHaveBuffersBeenInitialized example_actor \<and>
   (\<exists>a'. GenerateMesh example_actor (\<lambda>_. vertex0) (\<lambda>_. 0) = Inr a' \<and>
    (\<forall>k<5. \<exists>sec. MeshSections (MeshComponent a') (word_of_nat k) = Some sec \<and>
       map FRuntimeMeshVertexSimple.more (SectionVertices sec) =
         map (\<lambda>i. FRuntimeMeshVertexSimple.more ((\<lambda>_. vertex0) i)) [0..<24]))"
proof -
  obtain a' where r: "GenerateMesh example_actor (\<lambda>_. vertex0) (\<lambda>_. 0) = Inr a'"
    by (rule example_actor_generate)
  show ?thesis
    using example_actor_inv example_actor_fields (3) r
      GenerateMesh_uninitialised_fields [OF example_actor_inv example_actor_fields (3) r] by blast
qed

theorem GenerateMesh_leg_height_witness:
  "table_inv example_actor \<and> (\<exists>a'. GenerateMesh example_actor (\<lambda>_. vertex0) (\<lambda>_. 0) = Inr a' \<and>
    (\<forall>k. 1 \<le> k \<and> k < 5 \<longrightarrow> (\<exists>sec. MeshSections (MeshComponent a') (word_of_nat k) = Some sec \<and>
       Z (Position (SectionVertices sec ! 3)) = Z (LegSize example_actor) / 2 - (5 * Z (Size example_actor) + 5 / 2) \<and>
       (Z (Position (SectionVertices sec ! 3)) = - (Z (Size example_actor) / 2) \<longleftrightarrow>
        Z (LegSize example_actor) = 9 * Z (Size example_actor) + 5))) \<and>
    offsetDiffX a' = X (Size example_actor) / 2 - 5 / 2 \<and> offsetDiffY a' = Y (Size example_actor) / 2 - 5 / 2 \<and>
    offsetDiffZ a' = Z (Size example_actor) * 5 + 5 / 2)"
proof -
  obtain a' where r: "GenerateMesh example_actor (\<lambda>_. vertex0) (\<lambda>_. 0) = Inr a'"
    by (rule example_actor_generate)
  show ?thesis
    using example_actor_inv r GenerateMesh_leg_height [OF example_actor_inv r] by blast
qed


theorem GenerateMesh_section_bounds_witness:
  "table_inv example_actor \<and> (\<exists>a'. GenerateMesh example_actor (\<lambda>_. vertex0) (\<lambda>_. 0) = Inr a' \<and>
    0 \<le> X (Size example_actor) \<and> 0 \<le> Y (Size example_actor) \<and> 0 \<le> Z (Size example_actor) \<and>
    0 \<le> X (LegSize example_actor) \<and> 0 \<le> Y (LegSize example_actor) \<and> 0 \<le> Z (LegSize example_actor) \<and>
    (\<forall>k<5. \<exists>sec. MeshSections (MeshComponent a') (word_of_nat k) = Some sec \<and>
     points_bounds (map Position (SectionVertices sec)) =
       FBox (snd (table_boxes (Size example_actor) (LegSize example_actor) ! k) -
               fvector_div (fst (table_boxes (Size example_actor) (LegSize example_actor) ! k)) 2)
            (snd (table_boxes (Size example_actor) (LegSize example_actor) ! k) +
               fvector_div (fst (table_boxes (Size example_actor) (LegSize example_actor) ! k)) 2) \<and>
     (SectionBounds sec = points_bounds (map Position (SectionVertices sec)) \<longleftrightarrow> k = 0)))"
proof -
  obtain a' where r: "GenerateMesh example_actor (\<lambda>_. vertex0) (\<lambda>_. 0) = Inr a'"
    by (rule example_actor_generate)
  have "0 \<le> X (Size example_actor)" "0 \<le> Y (Size example_actor)" "0 \<le> Z (Size example_actor)"
    "0 \<le> X (LegSize example_actor)" "0 \<le> Y (LegSize example_actor)" "0 \<le> Z (LegSize example_actor)"
    by (simp_all add: example_actor_fields)
  then show ?thesis
    using example_actor_inv r GenerateMesh_section_bounds [OF example_actor_inv r] by blast
qed


lemma example_actor_begin_play:
  obtains a' where "GenerateMesh example_actor (\<lambda>_. vertex0) (\<lambda>_. 0) = Inr a'"
    "table_step example_actor EvBeginPlay a'" "table_reachable a'"
proof -
  obtain a' where r: "GenerateMesh example_actor (\<lambda>_. vertex0) (\<lambda>_. 0) = Inr a'"
    by (rule example_actor_generate)
  have s: "table_step example_actor EvBeginPlay a'" by (rule table_step.begin_play [OF r])
  have "table_reachable a'" by (rule table_reachable.step [OF table_reachable.init s])
  with r s that show ?thesis by blast
qed

theorem table_sections_wf_witness:
  "\<exists>a'. table_step example_actor EvBeginPlay a' \<and> table_reachable a' \<and>
     MeshSections (MeshComponent a') 0 \<noteq> None \<and>
     (\<forall>k sec. MeshSections (MeshComponent a') k = Some sec \<longrightarrow>
        section_wf sec \<and> length (SectionVertices sec) = 24 \<and> length (SectionTriangles sec) = 36)"
proof -
  obtain a' where r: "GenerateMesh example_actor (\<lambda>_. vertex0) (\<lambda>_. 0) = Inr a'"
    and s: "table_step example_actor EvBeginPlay a'" and re: "table_reachable a'"
    by (rule example_actor_begin_play)
  have "MeshSections (MeshComponent a') 0 \<noteq> None"
    using GenerateMesh_facts (11) [OF example_actor_inv r] by blast
  then show ?thesis
    using s re table_sections_wf [OF re] by blast
qed

theorem table_generate_response_witness:
  "table_reachable example_actor \<and> (EvBeginPlay = EvOnConstruction \<or> EvBeginPlay = (EvBeginPlay :: nat table_event)) \<and>
   (\<exists>a'. table_step example_actor EvBeginPlay a' \<and>
      table_synced a' \<and> Size a' = Size example_actor \<and> LegSize a' = LegSize example_actor \<and>
      Material a' = Material example_actor)"
proof -
  have r: "table_reachable example_actor" by (rule table_reachable.init)
  have e: "EvBeginPlay = EvOnConstruction \<or> EvBeginPlay = (EvBeginPlay :: nat table_event)" by simp
  show ?thesis
    using r e table_generate_response [OF r e] by blast
qed


theorem create_leg_order_independent_witness:
  "\<exists>a'. GenerateMesh example_actor (\<lambda>_. vertex0) (\<lambda>_. 0) = Inr a' \<and>
     length (Vertices a') = 24 \<and> length (Triangles a') = 36 \<and> (1::int32) \<noteq> 2 \<and>
     (\<exists>a12 a21. sbind (create_leg a' 1 True True (tabletop_bounds (Size a')))
                  (\<lambda>a1. create_leg a1 2 False True (tabletop_bounds (Size a'))) = Inr a12 \<and>
       sbind (create_leg a' 2 False True (tabletop_bounds (Size a')))
         (\<lambda>a2. create_leg a2 1 True True (tabletop_bounds (Size a'))) = Inr a21 \<and>
       MeshSections (MeshComponent a12) = MeshSections (MeshComponent a21) \<and>
       OverrideMaterials (MeshComponent a12) = OverrideMaterials (MeshComponent a21))"
proof -
  obtain a' where r: "GenerateMesh example_actor (\<lambda>_. vertex0) (\<lambda>_. 0) = Inr a'"
    by (rule example_actor_generate)
  have l: "length (Vertices a') = 24" "length (Triangles a') = 36"
    using GenerateMesh_facts (1,2) [OF example_actor_inv r] length_base_vertices [OF example_actor_inv]
    by simp_all
  have "(1::int32) \<noteq> 2" by simp
  then show ?thesis
    using r l create_leg_order_independent [OF l] by blast
qed

text \<open>The flag set on empty buffers: the first vertex write fails at slot 0.\<close>

theorem GenerateMesh_fails_iff_witness:
  "GenerateMesh (example_actor\<lparr>bHaveBuffersBeenInitialized := True\<rparr>) (\<lambda>_. vertex0) (\<lambda>_. 0) =
     Inl (ArrayIndexOutOfBounds 0 0)"
  using GenerateMesh_fails_iff [of "example_actor\<lparr>bHaveBuffersBeenInitialized := True\<rparr>"
      "\<lambda>_. vertex0" "\<lambda>_. 0" "ArrayIndexOutOfBounds 0 0"]
  by (simp add: ATableActor_ctor_eq cube_error_def)

end
