(* ===== verification/Spec2Isabelle.thy ===== *)
theory Spec2Isabelle
  imports Table_Actor
begin

text \<open>
  \<^bold>\<open>A verification development for the procedural table mesh of
  \<open>src/Source/ZuruTest/TableActor.cpp\<close>.\<close>

  \<^bold>\<open>The program.\<close> \<open>ATableActor\<close> builds a table (a tabletop and four
  legs) from boxes. Its core is two routines over caller-owned buffers:
  \<^item> \<open>BuildQuad\<close> (lines 155--178) writes one face: four vertices with
    positions, a fixed UV square, one normal and one tangent, and the six
    indices of the two triangles \<open>(0,1,2)\<close>, \<open>(0,2,3)\<close>, advancing an
    in/out vertex offset by 4 and an index offset by 6;
  \<^item> \<open>GenerateCube\<close> (lines 95--153) computes the eight corners of a box of
    a given size centred at an offset and calls \<open>BuildQuad\<close> six times,
    threading both offsets from 0, so that one box fills 24 vertex and 36
    index slots.
  The orchestration \<open>GenerateMesh\<close> (lines 39--91) allocates the two buffers
  once (\<open>SetupMeshBuffers\<close>, lines 32--37), generates the tabletop and the
  four legs into the same buffers one after the other and hands each result
  to the runtime mesh component as a mesh section; the engine calls it from
  \<open>OnConstruction\<close> and \<open>BeginPlay\<close>.

  \<^bold>\<open>The theories.\<close>
  \<^item> \<open>Mesh_Prelude\<close>: the \<open>int32\<close> type, sequencing of fallible steps
    (\<open>sbind\<close>), block writes into lists (\<open>overwrite\<close>, \<open>list_modify\<close>)
    and the shared lemmas on signed 32-bit offsets, lists, multisets of
    edges and small case splits.
  \<^item> \<open>Engine_Types\<close>: the engine types the code uses, modelled from their
    use: \<open>FVector\<close> (a datatype with real components and an
    \<open>ab_group_add\<close> instance, \<open>DotProduct\<close>, \<open>CrossProduct\<close>),
    \<open>FVector2D\<close>, \<open>FBox\<close> with \<open>IsInsideOrOn\<close>, the range-checked
    \<open>TArray\<close> element access (an out-of-range index is the error value
    \<open>ArrayIndexOutOfBounds index size\<close>; \<open>first_invalid\<close> finds the first
    failing access of a sequence), \<open>AddUninitialized\<close>, the bounding box of a
    list of points (\<open>points_bounds\<close>), and the vertex struct \<open>FRuntimeMeshVertexSimple\<close> as an extensible record whose
    more part stands for the fields the builder never writes.
  \<^item> \<open>Quad_Builder\<close>: \<open>BuildQuad\<close> as a chain of the 22 checked writes of the
    source, in the source's order, and its abstract effect (a block write of
    the abstract quad). Proved: the exact effect of a call in range
    (\<open>BuildQuad_writes_quad\<close>), that it fails exactly when a slot is out of
    range (\<open>BuildQuad_fails_iff_out_of_range\<close>), and that a successful call
    returns its offsets advanced without 32-bit wrap-around
    (\<open>BuildQuad_offsets_in_range\<close>); and, with no assumption on sizes or
    offsets, that it equals the reference definition \<open>BuildQuad_spec\<close>
    (\<open>BuildQuad_equiv_spec\<close>): the ten slots are checked in the source's
    order, the first out of range (an offset near \<open>INT32_MAX\<close> wraps to a
    negative index) is the error, and otherwise the call is the two block
    writes. Two calls on disjoint slots commute on the buffers
    (\<open>BuildQuad_commute\<close>, via \<open>overwrite_commute\<close>). The failing
    branches are lemmas of their own
    (\<open>BuildQuad_vertex_fail\<close>, \<open>BuildQuad_index_fail\<close>), and an offset
    within three of \<open>INT32_MAX\<close> makes the call fail on a wrapped vertex
    slot whatever the buffer sizes, so no write lands there
    (\<open>BuildQuad_offset_overflow\<close>).
  \<^item> \<open>Cuboid_Builder\<close>: \<open>GenerateCube\<close> as the source's six calls, and the
    abstract box mesh of the face table (\<open>cube_vertices\<close>, \<open>cube_indices\<close>,
    built from \<open>cube_corner\<close>, \<open>face_corners\<close>, \<open>face_normal\<close>,
    \<open>face_tangent\<close>). Proved: the refinement of the abstract mesh
    (\<open>GenerateCube_refines_cube_mesh\<close>), failure exactly on short buffers,
    the per-face normals and tangents, the index structure, the fixed UVs,
    the spec's numeric example, and reproducibility (the result does not
    depend on the old contents of the written slots).
    The six calls are also the chain \<open>quad_chain\<close> over the face list
    \<open>cube_quads\<close> (\<open>GenerateCube_quad_chain\<close>). A chain that runs out of
    room fails at the first face that does not fit, by induction on the
    list (\<open>quad_chain_fail\<close>). Hence \<open>GenerateCube\<close> equals the reference
    definition \<open>GenerateCube_spec\<close> on every input
    (\<open>GenerateCube_equiv_spec\<close>). The error \<open>cube_error\<close> names the
    vertex buffer when it runs out no later than the index buffer, and the
    index buffer otherwise.
  \<^item> \<open>Cuboid_Geometry\<close>: the mesh as a renderer reads it (\<open>tri_corner\<close>,
    \<open>mesh_edges\<close>) and the vocabulary of the box (\<open>face_area\<close>,
    \<open>half_extent\<close>, \<open>slot_label\<close>). Proved: the winding of all twelve
    triangles (\<open>GenerateCube_winding\<close>: the value
    \<open>((c1 - c0) \<times> (c2 - c0)) \<cdot> n\<close> is minus the face area), the face planes,
    a closed oriented surface (the multiset of
    directed edges is closed under reversal, decided on the corner labels by
    \<open>code_simp\<close> and transported to positions), containment in the box, and
    the round trip size and offset to mesh and back
    (\<open>GenerateCube_points_bounds\<close>: the points' bounding box is the box).
    The size has no guard: for every size the triangles wind by minus their
    face's area (\<open>tri_winding\<close>, \<open>GenerateCube_degenerate_sizes\<close>), so a
    negative extent inverts the faces spanning that axis and a zero extent
    flattens them, as the spec says. The builder commutes with moving the
    box: at an offset it is the result at the origin with the written
    positions shifted (\<open>translate_vertex\<close>, \<open>GenerateCube_translate\<close>).
  \<^item> \<open>Table_Actor\<close>: the actor's members as the record \<open>ATableActor\<close>, the
    scene graph (\<open>USceneComponent\<close>, a name and the attach parent's name,
    with \<open>SetupAttachment\<close>), the runtime mesh component as a scene
    component extended by a section map, a material map and the
    serialisation flag (\<open>CreateMeshSection\<close>, \<open>ClearAllMeshSections\<close>,
    \<open>SetMaterial\<close>), the constructor \<open>ATableActor_ctor\<close> (root
    \<open>"Root"\<close>, mesh component \<open>"ProceduralMesh"\<close> attached to it),
    \<open>SetupMeshBuffers\<close>, one leg block \<open>create_leg\<close> and \<open>GenerateMesh\<close> in
    source order, and the lifecycle as the inductive relation
    \<open>table_step\<close> over \<open>OnConstruction\<close>, \<open>BeginPlay\<close> and editor property
    changes, with \<open>table_reachable\<close> from the constructor. Proved: every
    reachable state steps and \<open>GenerateMesh\<close> never fails there
    (\<open>table_step_total\<close>); the state invariant \<open>table_wf\<close> of reachable
    states (buffers allocated once to exactly 24/36, the mesh component
    attached to the root, no serialisation,
    sections 0--4 once generated); the refinement of the five sections to
    the abstract table \<open>table_boxes\<close> (\<open>GenerateMesh_sections\<close>);
    idempotence of regeneration; that every section of a reachable state is
    a well-formed triangle mesh (\<open>table_sections_wf\<close>); that every
    \<open>OnConstruction\<close> or \<open>BeginPlay\<close> event brings the component in line
    with the current properties (\<open>table_generate_response\<close>, with
    \<open>table_synced\<close>); that two leg blocks commute on the sections although
    they share the buffers (\<open>create_leg_order_independent\<close>); that on any
    state, reachable or not, \<open>GenerateMesh\<close> fails exactly when the
    allocation flag is set but a buffer is too short, with the tabletop's
    \<open>cube_error\<close> (\<open>GenerateMesh_fails_iff\<close>); and three
    defects or gaps: the legs' sections get the tabletop's bounding box,
    which their vertices lie outside and which is the bounding box of the
    section's points only for the tabletop (\<open>GenerateMesh_leg_bounds\<close>,
    \<open>GenerateMesh_section_bounds\<close>); the vertex colour is never initialised
    (\<open>GenerateMesh_uninitialised_fields\<close>); the legs meet the tabletop only
    for one leg height (\<open>GenerateMesh_leg_height\<close>).

  \<^bold>\<open>Modelling choices.\<close> The source's \<open>float\<close> arithmetic is taken as exact
  real arithmetic (the halving and the additions of the corner computation,
  the leg offsets with the literals \<open>2.5f\<close> and \<open>5\<close>); \<open>FPackedNormal\<close> is
  taken as the vector it is assigned from, without its 8-bit quantisation.
  Offsets are \<open>int32\<close> words, so that wrap-around is visible; the \<open>TArray\<close>
  range check is modelled as the checked build performs it, so that every
  out-of-range write is an \<open>Inl\<close> branch. The content \<open>AddUninitialized\<close>
  leaves is an arbitrary function chosen by each step, so that every
  theorem holds for all memory contents. The header \<open>TableActor.h\<close> is not
  in the repository: the members are taken from their uses, the editable
  sizes and material are parameters of the constructor, and the allocation
  flag starts false (members of engine objects are zero-initialised). The
  \<open>WITH_EDITOR\<close> guard around \<open>OnConstruction\<close> is not modelled: the step
  relation allows the event in every build, an over-approximation of the
  builds without the editor. The
  code has no loops and no recursion, so no fuel or termination argument
  is needed and no termination property is stated. The one recursive
  definition, \<open>quad_chain\<close> over the faces, is structural and total by
  \<open>fun\<close>; that it returns a result and not an error on buffers with room
  for a box is part of \<open>GenerateCube_equiv_spec\<close>. Scene
  components are identified by their subobject names, which are unique
  within the actor.

  \<^bold>\<open>Not modelled.\<close> The base-class hooks (\<open>Super::OnConstruction\<close>,
  \<open>Super::BeginPlay\<close>), the transforms of the scene components (the
  attachment is modelled, the placement it implies is not), rendering,
  culling and collision of the sections, materials as anything but opaque
  values, the runtime mesh component's internals beyond the data handed to
  it, and the 8-bit quantisation of \<open>FPackedNormal\<close> (engine code outside
  the repository whose rounding differs between engine versions). The
  normals and tangents are kept as the axis vectors the code assigns, so
  the theorems say which direction each vertex is given, not what the
  packed value reads back as: the packed components are only approximately
  unit, and no claim about their length is made.
\<close>

end
